theory Spec2Isabelle
  imports Main "HOL-Library.List_Lexorder" "HOL-Library.Char_ord"
begin

section \<open>JavaScript values\<close>

text \<open>
  Request and response bodies are JSON. An object is an association list in property
  order. Numbers are modelled as integers (every number the handlers produce is one, and
  of the numbers a request can carry the model covers the integers).
  Strings are lists of 8-bit characters, so the model covers JavaScript strings whose
  code units are below 256; \<open>length\<close> is then the \<^verbatim>\<open>.length\<close> of the source.
\<close>

datatype json =
    JNull
  | JBool bool
  | JNum int
  | JStr string
  | JArr "json list"
  | JObj "(string \<times> json) list"

text \<open>JavaScript truthiness of a JSON value: arrays and objects are always truthy.\<close>

fun truthy :: "json \<Rightarrow> bool" where
  "truthy JNull = False"
| "truthy (JBool b) = b"
| "truthy (JNum n) = (n \<noteq> 0)"
| "truthy (JStr s) = (s \<noteq> [])"
| "truthy (JArr xs) = True"
| "truthy (JObj kvs) = True"

text \<open>An array or an object: the values the three structured message fields carry.\<close>

fun structured :: "json \<Rightarrow> bool" where
  "structured (JArr xs) = True"
| "structured (JObj kvs) = True"
| "structured v = False"

text \<open>
  A body field as \<^verbatim>\<open>req.body\<close> holds it: any JSON value, or nothing (\<^verbatim>\<open>undefined\<close>).
  \<open>present\<close> is its truthiness, the test \<^verbatim>\<open>!!x\<close>.
\<close>

definition present :: "json option \<Rightarrow> bool" where
  "present x = (case x of None \<Rightarrow> False | Some v \<Rightarrow> truthy v)"

text \<open>
  A string-valued body or route parameter that may be absent (\<^verbatim>\<open>undefined\<close>).
  \<open>given\<close> is the truthiness test \<^verbatim>\<open>!!x\<close>: absent and the empty string are both falsy.
\<close>

fun val :: "string option \<Rightarrow> string" where
  "val None = []"
| "val (Some s) = s"

definition given :: "string option \<Rightarrow> bool" where
  "given x = (val x \<noteq> [])"

text \<open>
  An object literal whose properties may be \<^verbatim>\<open>undefined\<close>; \<^verbatim>\<open>res.json\<close> leaves such
  properties out of the serialised body.
\<close>

fun obj_fields :: "(string \<times> json option) list \<Rightarrow> (string \<times> json) list" where
  "obj_fields [] = []"
| "obj_fields ((k, None) # kvs) = obj_fields kvs"
| "obj_fields ((k, Some v) # kvs) = (k, v) # obj_fields kvs"

definition obj :: "(string \<times> json option) list \<Rightarrow> json" where
  "obj kvs = JObj (obj_fields kvs)"

text \<open>Property access on a JSON value; \<open>None\<close> is \<^verbatim>\<open>undefined\<close>.\<close>

fun property :: "json \<Rightarrow> string \<Rightarrow> json option" where
  "property (JObj kvs) k = map_of kvs k"
| "property v k = None"

fun keys :: "json \<Rightarrow> string list" where
  "keys (JObj kvs) = map fst kvs"
| "keys v = []"

text \<open>\<^verbatim>\<open>x || undefined\<close> on a value and \<^verbatim>\<open>x || null\<close> on an optional string.\<close>

definition or_undefined :: "json \<Rightarrow> json option" where
  "or_undefined v = (if truthy v then Some v else None)"

definition or_null :: "string option \<Rightarrow> string option" where
  "or_null x = (if given x then x else None)"

text \<open>A nullable TEXT column as it appears in a row object.\<close>

fun nullable :: "string option \<Rightarrow> json" where
  "nullable None = JNull"
| "nullable (Some s) = JStr s"

record response =
  status :: nat
  body :: json

definition send :: "nat \<Rightarrow> json \<Rightarrow> response" where
  "send code b = \<lparr>status = code, body = b\<rparr>"

definition error :: "string \<Rightarrow> json" where
  "error msg = obj [(''error'', Some (JStr msg))]"

section \<open>Regular expressions of the validators\<close>

text \<open>
  The patterns of the source are sequences of character classes, each taken once
  (\<^verbatim>\<open>[..]\<close>) or one or more times (\<^verbatim>\<open>[..]+\<close>). \<open>match_here\<close> is a backtracking matcher
  for such a sequence at the start of the input; with \<open>to_end\<close> the match must use the
  whole input (\<^verbatim>\<open>$\<close>).
\<close>

datatype atom = One "char \<Rightarrow> bool" | Many1 "char \<Rightarrow> bool"

fun match_here :: "bool \<Rightarrow> atom list \<Rightarrow> string \<Rightarrow> bool" where
  "match_here to_end [] s = (if to_end then s = [] else True)"
| "match_here to_end (One P # r) [] = False"
| "match_here to_end (One P # r) (c # cs) = (P c \<and> match_here to_end r cs)"
| "match_here to_end (Many1 P # r) [] = False"
| "match_here to_end (Many1 P # r) (c # cs) =
     (P c \<and> (match_here to_end (Many1 P # r) cs \<or> match_here to_end r cs))"

text \<open>\<^verbatim>\<open>/^r$/.test(s)\<close> and the unanchored \<^verbatim>\<open>/r/.test(s)\<close>, which tries every start position.\<close>

definition test_anchored :: "atom list \<Rightarrow> string \<Rightarrow> bool" where
  "test_anchored r s = match_here True r s"

fun test_search :: "atom list \<Rightarrow> string \<Rightarrow> bool" where
  "test_search r [] = match_here False r []"
| "test_search r (c # cs) = (match_here False r (c # cs) \<or> test_search r cs)"

text \<open>
  Character classes. \<^verbatim>\<open>\s\<close> is the white space of ECMAScript in the 8-bit range:
  TAB, LF, VT, FF, CR, space and the no-break space U+00A0. \<^verbatim>\<open>\d\<close> is \<^verbatim>\<open>[0-9]\<close>.
\<close>

definition in_range :: "char \<Rightarrow> char \<Rightarrow> char \<Rightarrow> bool" where
  "in_range lo hi c = (lo \<le> c \<and> c \<le> hi)"

definition is_space :: "char \<Rightarrow> bool" where
  "is_space c = ((of_char c :: nat) \<in> {9, 10, 11, 12, 13, 32, 160})"

definition not_space_at :: "char \<Rightarrow> bool" where
  "not_space_at c = (\<not> is_space c \<and> c \<noteq> CHR ''@'')"

definition is_lower :: "char \<Rightarrow> bool" where
  "is_lower c = in_range CHR ''a'' CHR ''z'' c"

definition is_upper :: "char \<Rightarrow> bool" where
  "is_upper c = in_range CHR ''A'' CHR ''Z'' c"

definition is_digit :: "char \<Rightarrow> bool" where
  "is_digit c = in_range CHR ''0'' CHR ''9'' c"

definition username_char :: "char \<Rightarrow> bool" where
  "username_char c =
     (is_lower c \<or> is_upper c \<or> is_digit c \<or> c = CHR ''_'' \<or> c = CHR ''-'')"

text \<open>\<^verbatim>\<open>/^[^\s@]+@[^\s@]+\.[^\s@]+$/\<close>\<close>

definition emailRegex :: "atom list" where
  "emailRegex =
     [Many1 not_space_at, One (\<lambda>c. c = CHR ''@''), Many1 not_space_at,
      One (\<lambda>c. c = CHR ''.''), Many1 not_space_at]"

text \<open>\<^verbatim>\<open>/^[a-zA-Z0-9_-]+$/\<close>, \<^verbatim>\<open>/[a-z]/\<close>, \<^verbatim>\<open>/[A-Z]/\<close>, \<^verbatim>\<open>/\d/\<close>\<close>

definition usernameRegex :: "atom list" where
  "usernameRegex = [Many1 username_char]"

definition lowerRegex :: "atom list" where
  "lowerRegex = [One is_lower]"

definition upperRegex :: "atom list" where
  "upperRegex = [One is_upper]"

definition digitRegex :: "atom list" where
  "digitRegex = [One is_digit]"

text \<open>SQLite's built-in \<^verbatim>\<open>LOWER\<close> folds the ASCII letters only.\<close>

definition lower_char :: "char \<Rightarrow> char" where
  "lower_char c = (if is_upper c then char_of (of_char c + (32 :: nat)) else c)"

definition LOWER :: "string \<Rightarrow> string" where
  "LOWER s = map lower_char s"

section \<open>Rate limiter (server/routes/auth.ts)\<close>

text \<open>
  \<^verbatim>\<open>const loginAttempts = new Map<string, { count: number; timestamp: number }>()\<close>:
  a process-local map from the identifier to the attempt counter and the start of its
  window. \<^verbatim>\<open>Date.now()\<close> is an integer number of milliseconds and is passed in as
  \<open>now\<close>. The type of the keys is left open here: the annotation says \<^verbatim>\<open>string\<close>, and
  what login passes at run time is fixed below (\<open>map_key\<close>).
\<close>

record attempt =
  count :: nat
  timestamp :: int

type_synonym 'k loginAttempts = "'k \<rightharpoonup> attempt"

definition RATE_LIMIT_ATTEMPTS :: nat where
  "RATE_LIMIT_ATTEMPTS = 5"

definition RATE_LIMIT_WINDOW :: int where
  "RATE_LIMIT_WINDOW = 15 * 60 * 1000"

definition checkRateLimit ::
  "int \<Rightarrow> 'k \<Rightarrow> 'k loginAttempts \<Rightarrow> bool \<times> 'k loginAttempts" where
  "checkRateLimit now identifier la =
     (case la identifier of
        None \<Rightarrow> (True, la(identifier \<mapsto> \<lparr>count = 1, timestamp = now\<rparr>))
      | Some attempt \<Rightarrow>
          if now - timestamp attempt > RATE_LIMIT_WINDOW
          then (True, la(identifier \<mapsto> \<lparr>count = 1, timestamp = now\<rparr>))
          else if count attempt \<ge> RATE_LIMIT_ATTEMPTS
          then (False, la)
          else (True, la(identifier \<mapsto> attempt\<lparr>count := count attempt + 1\<rparr>)))"

text \<open>Successive calls for one identifier at the given clock readings, in order.\<close>

fun checkRateLimit_calls ::
  "int list \<Rightarrow> 'k \<Rightarrow> 'k loginAttempts \<Rightarrow> bool list \<times> 'k loginAttempts" where
  "checkRateLimit_calls [] identifier la = ([], la)"
| "checkRateLimit_calls (now # ts) identifier la =
     (case checkRateLimit now identifier la of
        (ok, la') \<Rightarrow>
          (case checkRateLimit_calls ts identifier la' of
             (oks, la'') \<Rightarrow> (ok # oks, la'')))"

section \<open>The SQLite store (server/database.ts)\<close>

text \<open>
  The three tables of \<^verbatim>\<open>initializeDatabase\<close>, each a list of rows in insertion order.
  Columns declared \<^verbatim>\<open>NOT NULL\<close> are strings, nullable ones are options.

  \<open>foreign_keys\<close> is the connection's \<^verbatim>\<open>PRAGMA foreign_keys\<close> setting. SQLite parses
  \<^verbatim>\<open>FOREIGN KEY ... ON DELETE CASCADE\<close> in every case but enforces it, and runs the
  cascade, only on a connection where the pragma is on; a new connection has it off.
\<close>

record user_row =
  u_id :: string
  u_username :: string
  u_password_hash :: string
  u_name :: string
  u_email :: string
  u_auth_token :: "string option"
  u_token_expiry :: "string option"
  u_last_login :: "string option"
  u_created_at :: string
  u_updated_at :: string

record session_row =
  s_id :: string
  s_user_id :: string
  s_title :: string
  s_created_at :: string
  s_updated_at :: string

record message_row =
  m_id :: string
  m_session_id :: string
  m_role :: string
  m_content :: string
  m_image_url :: "string option"
  m_extracted_symptoms :: "string option"
  m_grounding_sources :: "string option"
  m_analysis_results :: "string option"
  m_timestamp :: string

record database =
  foreign_keys :: bool
  users :: "user_row list"
  chat_sessions :: "session_row list"
  messages :: "message_row list"

text \<open>
  \<^verbatim>\<open>const db = new sqlite3.Database(dbPath, ...); db.configure('busyTimeout', 30000)\<close>
  followed by \<^verbatim>\<open>initializeDatabase()\<close> on a fresh file: the connection is opened and
  only its busy timeout is configured, so \<open>foreign_keys\<close> keeps its default.
\<close>

definition db :: database where
  "db = \<lparr>foreign_keys = False, users = [], chat_sessions = [], messages = []\<rparr>"

text \<open>The \<^verbatim>\<open>code\<close> of the error a rejected statement raises.\<close>

type_synonym sqlite_error = string

definition SQLITE_CONSTRAINT :: sqlite_error where
  "SQLITE_CONSTRAINT = ''SQLITE_CONSTRAINT''"

subsection \<open>Statements on users\<close>

text \<open>\<^verbatim>\<open>SELECT ... FROM users WHERE LOWER(username) = LOWER(?)\<close> through \<^verbatim>\<open>getAsync\<close>
  (the first matching row, if any); likewise for the email and the identifier.\<close>

definition select_user_by_username :: "string \<Rightarrow> database \<Rightarrow> user_row option" where
  "select_user_by_username username d =
     find (\<lambda>u. LOWER (u_username u) = LOWER username) (users d)"

definition select_user_by_email :: "string \<Rightarrow> database \<Rightarrow> user_row option" where
  "select_user_by_email email d =
     find (\<lambda>u. LOWER (u_email u) = LOWER email) (users d)"

definition select_user_by_id :: "string \<Rightarrow> database \<Rightarrow> user_row option" where
  "select_user_by_id userId d = find (\<lambda>u. u_id u = userId) (users d)"

text \<open>\<^verbatim>\<open>INSERT INTO users\<close>: the primary key and the two \<^verbatim>\<open>UNIQUE\<close> columns reject a
  duplicate.\<close>

definition insert_user :: "user_row \<Rightarrow> database \<Rightarrow> sqlite_error + database" where
  "insert_user row d =
     (if list_ex (\<lambda>u. u_id u = u_id row \<or> u_username u = u_username row
                       \<or> u_email u = u_email row) (users d)
      then Inl SQLITE_CONSTRAINT
      else Inr (d\<lparr>users := users d @ [row]\<rparr>))"

text \<open>\<^verbatim>\<open>UPDATE users SET auth_token = ?, token_expiry = ?, last_login = CURRENT_TIMESTAMP
  WHERE id = ?\<close>\<close>

definition update_user_token :: "string \<Rightarrow> string \<Rightarrow> string \<Rightarrow> string \<Rightarrow> database \<Rightarrow> database" where
  "update_user_token token tokenExpiry current_timestamp userId d =
     d\<lparr>users :=
         map (\<lambda>u. if u_id u = userId
                   then u\<lparr>u_auth_token := Some token, u_token_expiry := Some tokenExpiry,
                          u_last_login := Some current_timestamp\<rparr>
                   else u) (users d)\<rparr>"

subsection \<open>Statements on chat_sessions\<close>

definition select_session :: "string \<Rightarrow> database \<Rightarrow> session_row option" where
  "select_session sessionId d = find (\<lambda>s. s_id s = sessionId) (chat_sessions d)"

text \<open>\<^verbatim>\<open>SELECT * FROM chat_sessions WHERE user_id = ? ORDER BY updated_at DESC\<close>.
  Rows with equal keys come in an order SQL leaves open; the model keeps them in
  insertion order, as SQLite's sorter does (a stable sort, here run on the reversed list
  and reversed again to make it descending).\<close>

definition select_sessions_of_user :: "string \<Rightarrow> database \<Rightarrow> session_row list" where
  "select_sessions_of_user userId d =
     rev (sort_key s_updated_at (rev (filter (\<lambda>s. s_user_id s = userId) (chat_sessions d))))"

text \<open>\<^verbatim>\<open>INSERT INTO chat_sessions\<close>: the primary key rejects a duplicate; with foreign
  keys enforced the owning user must exist.\<close>

definition insert_session :: "session_row \<Rightarrow> database \<Rightarrow> sqlite_error + database" where
  "insert_session row d =
     (if list_ex (\<lambda>s. s_id s = s_id row) (chat_sessions d)
      then Inl SQLITE_CONSTRAINT
      else if foreign_keys d \<and> \<not> list_ex (\<lambda>u. u_id u = s_user_id row) (users d)
      then Inl SQLITE_CONSTRAINT
      else Inr (d\<lparr>chat_sessions := chat_sessions d @ [row]\<rparr>))"

text \<open>\<^verbatim>\<open>UPDATE chat_sessions SET updated_at = ? WHERE id = ?\<close>\<close>

definition update_session_updated_at :: "string \<Rightarrow> string \<Rightarrow> database \<Rightarrow> database" where
  "update_session_updated_at now sessionId d =
     d\<lparr>chat_sessions :=
         map (\<lambda>s. if s_id s = sessionId then s\<lparr>s_updated_at := now\<rparr> else s)
           (chat_sessions d)\<rparr>"

text \<open>\<^verbatim>\<open>DELETE FROM chat_sessions WHERE ...\<close>: the rows selected by \<open>P\<close> go; the messages
  that reference one of them go with them exactly when foreign keys are enforced
  (\<^verbatim>\<open>ON DELETE CASCADE\<close> of \<^verbatim>\<open>messages.session_id\<close>).\<close>

definition delete_sessions :: "(session_row \<Rightarrow> bool) \<Rightarrow> database \<Rightarrow> database" where
  "delete_sessions P d =
     (let gone = map s_id (filter P (chat_sessions d))
      in d\<lparr>chat_sessions := filter (\<lambda>s. \<not> P s) (chat_sessions d),
           messages :=
             (if foreign_keys d
              then filter (\<lambda>m. m_session_id m \<notin> set gone) (messages d)
              else messages d)\<rparr>)"

subsection \<open>Statements on messages\<close>

text \<open>\<^verbatim>\<open>SELECT * FROM messages WHERE session_id = ? ORDER BY timestamp ASC\<close>\<close>

definition select_messages_of_session :: "string \<Rightarrow> database \<Rightarrow> message_row list" where
  "select_messages_of_session sessionId d =
     sort_key m_timestamp (filter (\<lambda>m. m_session_id m = sessionId) (messages d))"

text \<open>\<^verbatim>\<open>INSERT INTO messages\<close>: the primary key rejects a duplicate identifier; with
  foreign keys enforced the session must exist.\<close>

definition insert_message :: "message_row \<Rightarrow> database \<Rightarrow> sqlite_error + database" where
  "insert_message row d =
     (if list_ex (\<lambda>m. m_id m = m_id row) (messages d)
      then Inl SQLITE_CONSTRAINT
      else if foreign_keys d \<and> \<not> list_ex (\<lambda>s. s_id s = m_session_id row) (chat_sessions d)
      then Inl SQLITE_CONSTRAINT
      else Inr (d\<lparr>messages := messages d @ [row]\<rparr>))"

text \<open>\<^verbatim>\<open>UPDATE messages SET role = ?, content = ?, image_url = ?, extracted_symptoms = ?,
  grounding_sources = ?, analysis_results = ?, timestamp = ? WHERE id = ?\<close>: the identifier
  and the session of the row are not among the assigned columns.\<close>

definition update_message :: "message_row \<Rightarrow> database \<Rightarrow> database" where
  "update_message row d =
     d\<lparr>messages :=
         map (\<lambda>m. if m_id m = m_id row
                   then m\<lparr>m_role := m_role row, m_content := m_content row,
                          m_image_url := m_image_url row,
                          m_extracted_symptoms := m_extracted_symptoms row,
                          m_grounding_sources := m_grounding_sources row,
                          m_analysis_results := m_analysis_results row,
                          m_timestamp := m_timestamp row\<rparr>
                   else m) (messages d)\<rparr>"

section \<open>What a handler draws from the runtime\<close>

text \<open>
  \<open>runtime\<close> holds the functions of the platform and of the libraries that the handlers
  reach and whose code is not the repository's:
  \<^item> \<^verbatim>\<open>bcrypt.compare\<close> on two strings, \<^verbatim>\<open>JSON.stringify\<close>, and \<^verbatim>\<open>JSON.parse\<close> (\<open>None\<close> when
    it throws);
  \<^item> \<open>Number_toString\<close>, the text of a number of magnitude \<open>10^21\<close> or more (exponent
    notation, from the digits of the double);
  \<^item> \<open>StringToNumber_less s n\<close>, the outcome of \<^verbatim>\<open>s < n\<close> for a string \<open>s\<close> and a number \<open>n\<close>
    (the string is converted by \<^verbatim>\<open>StringToNumber\<close> to a double first);
  \<^item> \<open>sqlite_bind\<close>, what the driver makes of a statement parameter that is not a string:
    an error of the call, SQL \<^verbatim>\<open>NULL\<close> (\<open>None\<close>), or a value that the comparisons and the
    \<^verbatim>\<open>TEXT\<close> columns of this schema treat as a text.

  \<open>env\<close> holds what one call of a handler reads from the clock, the random generator and
  the allocator: the result of \<^verbatim>\<open>generateUUID()\<close> and of \<^verbatim>\<open>generateToken()\<close>,
  \<^verbatim>\<open>bcrypt.hash(_, 12)\<close> on a string with the salt of this call, \<^verbatim>\<open>Date.now()\<close>,
  \<^verbatim>\<open>new Date().toISOString()\<close>, the ISO string of the instant 30 days ahead, SQLite's
  \<^verbatim>\<open>CURRENT_TIMESTAMP\<close>, and \<open>body_ref\<close>, the identity of the object that the body parser
  allocated for this request's \<^verbatim>\<open>username\<close> when that is an array or an object.
\<close>

record runtime =
  bcrypt_compare :: "string \<Rightarrow> string \<Rightarrow> bool"
  JSON_stringify :: "json \<Rightarrow> string"
  JSON_parse :: "string \<Rightarrow> json option"
  Number_toString :: "int \<Rightarrow> string"
  StringToNumber_less :: "string \<Rightarrow> int \<Rightarrow> bool"
  sqlite_bind :: "json \<Rightarrow> sqlite_error + string option"

record env =
  generateUUID :: string
  generateToken :: string
  bcrypt_hash :: "string \<Rightarrow> string"
  Date_now :: int
  now_iso :: string
  expiry_iso :: string
  CURRENT_TIMESTAMP :: string
  body_ref :: nat

section \<open>Untyped request fields\<close>

text \<open>
  The handlers of auth.ts destructure \<^verbatim>\<open>req.body\<close> without checking types, so a field
  may hold any JSON value. This section gives the operations they apply to such a value
  their ECMAScript meaning on the values a JSON body can contain (whose objects have
  distinct keys and no callable property).
\<close>

subsection \<open>Conversion to a string\<close>

text \<open>The decimal digits of an integer: \<^verbatim>\<open>Number.prototype.toString\<close> below \<open>10^21\<close>.\<close>

definition digit_char :: "nat \<Rightarrow> char" where
  "digit_char n = char_of (48 + n)"

function show_nat :: "nat \<Rightarrow> string" where
  "show_nat n = (if n < 10 then [digit_char n] else show_nat (n div 10) @ [digit_char (n mod 10)])"
  by pat_completeness auto
termination
  by (relation "measure id") auto

definition show_int :: "int \<Rightarrow> string" where
  "show_int i = (if i < 0 then CHR ''-'' # show_nat (nat (- i)) else show_nat (nat i))"

definition number_text :: "runtime \<Rightarrow> int \<Rightarrow> string" where
  "number_text rt n =
     (if \<bar>n\<bar> < 10 ^ 21 then show_int n else Number_toString rt n)"

text \<open>
  \<^verbatim>\<open>ToString\<close>, which \<^verbatim>\<open>RegExp.prototype.test\<close> applies to its argument; \<open>None\<close> is the
  \<^verbatim>\<open>TypeError\<close> it throws. An array is joined with commas, \<^verbatim>\<open>null\<close> elements giving the
  empty string. A plain object gives \<^verbatim>\<open>[object Object]\<close> through the inherited
  \<^verbatim>\<open>toString\<close>; an own property \<^verbatim>\<open>toString\<close> shadows that method with a value that cannot
  be called, the inherited \<^verbatim>\<open>valueOf\<close> returns the object itself, and no primitive is
  found.
\<close>

fun to_text :: "runtime \<Rightarrow> json \<Rightarrow> string option"
  and join_text :: "runtime \<Rightarrow> json list \<Rightarrow> string option" where
  "to_text rt JNull = Some ''null''"
| "to_text rt (JBool b) = Some (if b then ''true'' else ''false'')"
| "to_text rt (JNum n) = Some (number_text rt n)"
| "to_text rt (JStr s) = Some s"
| "to_text rt (JArr xs) = join_text rt xs"
| "to_text rt (JObj kvs) =
     (if ''toString'' \<in> set (map fst kvs) then None else Some ''[object Object]'')"
| "join_text rt [] = Some []"
| "join_text rt [x] = (if x = JNull then Some [] else to_text rt x)"
| "join_text rt (x # y # ys) =
     (case (if x = JNull then Some [] else to_text rt x) of
        None \<Rightarrow> None
      | Some s \<Rightarrow>
          (case join_text rt (y # ys) of
             None \<Rightarrow> None
           | Some t \<Rightarrow> Some (s @ '','' @ t)))"

text \<open>\<^verbatim>\<open>re.test(x)\<close> for one of the patterns above: the match is run on \<^verbatim>\<open>ToString(x)\<close>.\<close>

definition test_raw :: "runtime \<Rightarrow> (string \<Rightarrow> bool) \<Rightarrow> json \<Rightarrow> bool option" where
  "test_raw rt re x = map_option re (to_text rt x)"

subsection \<open>Length and comparison\<close>

text \<open>
  \<^verbatim>\<open>x.length\<close> for a truthy \<open>x\<close>: the number of code units of a string, the number of
  elements of an array, the own property \<^verbatim>\<open>length\<close> of an object if it has one, and
  \<^verbatim>\<open>undefined\<close> (\<open>None\<close>) otherwise: numbers and booleans have no such property.
\<close>

fun length_of :: "json \<Rightarrow> json option" where
  "length_of (JStr s) = Some (JNum (int (length s)))"
| "length_of (JArr xs) = Some (JNum (int (length xs)))"
| "length_of (JObj kvs) = map_of kvs ''length''"
| "length_of v = None"

text \<open>
  \<^verbatim>\<open>v < n\<close> for a number \<open>n\<close>; \<open>None\<close> is a \<^verbatim>\<open>TypeError\<close>. \<^verbatim>\<open>undefined\<close> converts to \<^verbatim>\<open>NaN\<close>, and
  every comparison with \<^verbatim>\<open>NaN\<close> is false; \<^verbatim>\<open>null\<close> converts to 0, \<^verbatim>\<open>true\<close> to 1; an array or
  an object is first converted to a primitive, which for these values is the string of
  \<open>to_text\<close>.
\<close>

fun less_than :: "runtime \<Rightarrow> json option \<Rightarrow> int \<Rightarrow> bool option" where
  "less_than rt None n = Some False"
| "less_than rt (Some JNull) n = Some (0 < n)"
| "less_than rt (Some (JBool b)) n = Some ((if b then 1 else 0) < n)"
| "less_than rt (Some (JNum k)) n = Some (k < n)"
| "less_than rt (Some (JStr s)) n = Some (StringToNumber_less rt s n)"
| "less_than rt (Some (JArr xs)) n =
     map_option (\<lambda>s. StringToNumber_less rt s n) (to_text rt (JArr xs))"
| "less_than rt (Some (JObj kvs)) n =
     map_option (\<lambda>s. StringToNumber_less rt s n) (to_text rt (JObj kvs))"

text \<open>\<^verbatim>\<open>x.length < n\<close>. Reading a property of \<^verbatim>\<open>null\<close> throws; the handlers never get that
  far with \<^verbatim>\<open>null\<close>, which is falsy.\<close>

definition length_less :: "runtime \<Rightarrow> json \<Rightarrow> int \<Rightarrow> bool option" where
  "length_less rt x n = (if x = JNull then None else less_than rt (length_of x) n)"

text \<open>\<^verbatim>\<open>!a || !b\<close> on two tests that may throw: \<open>b\<close> is not evaluated when \<open>a\<close> is false.\<close>

definition not_both :: "bool option \<Rightarrow> bool option \<Rightarrow> bool option" where
  "not_both a b =
     (case a of
        None \<Rightarrow> None
      | Some x \<Rightarrow> if \<not> x then Some True else map_option Not b)"

text \<open>
  One validation step: the test throws (the handler's \<^verbatim>\<open>catch\<close> answers), or it holds and
  the handler returns its error, or the handler goes on.
\<close>

definition reject_if :: "bool option \<Rightarrow> 'a \<Rightarrow> 'a \<Rightarrow> 'a \<Rightarrow> 'a" where
  "reject_if test thrown rejected continue =
     (case test of None \<Rightarrow> thrown | Some b \<Rightarrow> if b then rejected else continue)"

subsection \<open>Keys of the rate limiter's map\<close>

text \<open>
  A \<^verbatim>\<open>Map\<close> compares keys by \<^verbatim>\<open>SameValueZero\<close>: strings, numbers and booleans by value,
  arrays and objects by identity. The body of every request is parsed afresh, so an array
  or object met as a key is the object of this request, \<open>KRef ref\<close>.
\<close>

datatype map_key = KNull | KBool bool | KNum int | KStr string | KRef nat

fun key_of :: "nat \<Rightarrow> json \<Rightarrow> map_key" where
  "key_of ref JNull = KNull"
| "key_of ref (JBool b) = KBool b"
| "key_of ref (JNum n) = KNum n"
| "key_of ref (JStr s) = KStr s"
| "key_of ref (JArr xs) = KRef ref"
| "key_of ref (JObj kvs) = KRef ref"

subsection \<open>Statement parameters and bcrypt arguments\<close>

text \<open>A statement parameter: a string is bound as that text, anything else as the driver
  decides.\<close>

definition sql_param :: "runtime \<Rightarrow> json \<Rightarrow> sqlite_error + string option" where
  "sql_param rt v = (case v of JStr s \<Rightarrow> Inr (Some s) | _ \<Rightarrow> sqlite_bind rt v)"

text \<open>\<^verbatim>\<open>getAsync\<close> of a one-parameter \<^verbatim>\<open>SELECT\<close> from users: the call fails when the binding
  does, and \<^verbatim>\<open>LOWER(col) = LOWER(NULL)\<close> holds for no row.\<close>

fun fetch_user ::
  "(string \<Rightarrow> database \<Rightarrow> user_row option) \<Rightarrow> sqlite_error + string option \<Rightarrow> database \<Rightarrow>
   sqlite_error + user_row option" where
  "fetch_user sel (Inl err) d = Inl err"
| "fetch_user sel (Inr None) d = Inr None"
| "fetch_user sel (Inr (Some t)) d = Inr (sel t d)"

text \<open>\<^verbatim>\<open>bcrypt.hash\<close> and \<^verbatim>\<open>bcrypt.compare\<close> of bcryptjs reject (\<^verbatim>\<open>Illegal arguments\<close>) unless
  the password is a string.\<close>

fun as_string :: "json \<Rightarrow> string option" where
  "as_string (JStr s) = Some s"
| "as_string v = None"

section \<open>Authentication routes (server/routes/auth.ts)\<close>

text \<open>
  The \<^verbatim>\<open>UserResponse\<close> object built by signup, login and verify. Signup fills it from the
  request's fields as they came, login and verify from the columns of the stored row.
\<close>

definition userResponse :: "json \<Rightarrow> json \<Rightarrow> json \<Rightarrow> json \<Rightarrow> json" where
  "userResponse uid username name email =
     obj [(''id'', Some uid), (''username'', Some username),
          (''name'', Some name), (''email'', or_undefined email)]"

definition expiresIn :: int where
  "expiresIn = 30 * 24 * 60 * 60 * 1000"

text \<open>
  \<^verbatim>\<open>POST /signup\<close>. \<^verbatim>\<open>const { username, password, name, email } = req.body\<close> is not
  followed by any check of the fields' types, so each is a JSON value or absent. Every
  step of the handler stands in one \<^verbatim>\<open>try\<close> block whose \<^verbatim>\<open>catch\<close> answers 500.

  \<open>signup_store\<close> is the handler from the two duplicate checks on: the \<^verbatim>\<open>SELECT\<close>s bind
  the fields as statement parameters, \<^verbatim>\<open>bcrypt.hash\<close> takes the password, and the \<^verbatim>\<open>INSERT\<close>
  binds username, name and \<^verbatim>\<open>email || null\<close> (here \<open>email\<close>, which is truthy) into columns
  declared \<^verbatim>\<open>TEXT NOT NULL\<close>.
\<close>

fun not_null :: "sqlite_error + string option \<Rightarrow> string option" where
  "not_null (Inr (Some t)) = Some t"
| "not_null (Inr None) = None"
| "not_null (Inl err) = None"

definition signup_store ::
  "runtime \<Rightarrow> env \<Rightarrow> json \<Rightarrow> json \<Rightarrow> json \<Rightarrow> json \<Rightarrow> database \<Rightarrow> response \<times> database" where
  "signup_store rt e username password name email d =
     (case fetch_user select_user_by_username (sql_param rt username) d of
        Inl err \<Rightarrow> (send 500 (error ''Signup failed''), d)
      | Inr (Some existingUser) \<Rightarrow> (send 409 (error ''Username already exists''), d)
      | Inr None \<Rightarrow>
          (case fetch_user select_user_by_email (sql_param rt email) d of
             Inl err \<Rightarrow> (send 500 (error ''Signup failed''), d)
           | Inr (Some existingEmail) \<Rightarrow> (send 409 (error ''Email already registered''), d)
           | Inr None \<Rightarrow>
               (case as_string password of
                  None \<Rightarrow> (send 500 (error ''Signup failed''), d)
                | Some pw \<Rightarrow>
                    (let passwordHash = bcrypt_hash e pw;
                         userId = generateUUID e;
                         token = generateToken e
                     in case not_null (sql_param rt username) of
                          None \<Rightarrow> (send 500 (error ''Signup failed''), d)
                        | Some username_text \<Rightarrow>
                     (case not_null (sql_param rt name) of
                          None \<Rightarrow> (send 500 (error ''Signup failed''), d)
                        | Some name_text \<Rightarrow>
                     (case not_null (sql_param rt email) of
                          None \<Rightarrow> (send 500 (error ''Signup failed''), d)
                        | Some email_text \<Rightarrow>
                     (case insert_user
                             \<lparr>u_id = userId, u_username = username_text,
                              u_password_hash = passwordHash, u_name = name_text,
                              u_email = email_text, u_auth_token = Some token,
                              u_token_expiry = Some (expiry_iso e), u_last_login = None,
                              u_created_at = CURRENT_TIMESTAMP e,
                              u_updated_at = CURRENT_TIMESTAMP e\<rparr> d of
                        Inl err \<Rightarrow> (send 500 (error ''Signup failed''), d)
                      | Inr d' \<Rightarrow>
                          (send 201
                             (obj [(''user'',
                                    Some (userResponse (JStr userId) username name email)),
                                   (''token'', Some (JStr token)),
                                   (''expiresIn'', Some (JNum expiresIn))]), d'))))))))"

text \<open>The handler once the four fields are known to be truthy: the seven validation
  steps in the order of the source, then \<open>signup_store\<close>.\<close>

definition signup_present ::
  "runtime \<Rightarrow> env \<Rightarrow> json \<Rightarrow> json \<Rightarrow> json \<Rightarrow> json \<Rightarrow> database \<Rightarrow> response \<times> database" where
  "signup_present rt e username password name email d =
     reject_if (map_option Not (test_raw rt (test_anchored emailRegex) email))
       (send 500 (error ''Signup failed''), d)
       (send 400 (error ''Invalid email format''), d)
    (reject_if (length_less rt username 3)
       (send 500 (error ''Signup failed''), d)
       (send 400 (error ''Username must be at least 3 characters''), d)
    (reject_if (map_option Not (test_raw rt (test_anchored usernameRegex) username))
       (send 500 (error ''Signup failed''), d)
       (send 400 (error
          ''Username can only contain letters, numbers, underscores, and hyphens''), d)
    (reject_if (length_less rt password 8)
       (send 500 (error ''Signup failed''), d)
       (send 400 (error ''Password must be at least 8 characters''), d)
    (reject_if (not_both (test_raw rt (test_search lowerRegex) password)
                         (test_raw rt (test_search upperRegex) password))
       (send 500 (error ''Signup failed''), d)
       (send 400 (error ''Password must contain uppercase and lowercase letters''), d)
    (reject_if (map_option Not (test_raw rt (test_search digitRegex) password))
       (send 500 (error ''Signup failed''), d)
       (send 400 (error ''Password must contain at least one number''), d)
    (signup_store rt e username password name email d))))))"

definition signup ::
  "runtime \<Rightarrow> env \<Rightarrow> json option \<Rightarrow> json option \<Rightarrow> json option \<Rightarrow> json option \<Rightarrow>
   database \<Rightarrow> response \<times> database" where
  "signup rt e username password name email d =
     (if \<not> present username \<or> \<not> present password \<or> \<not> present name \<or> \<not> present email
      then (send 400 (error ''Missing required fields''), d)
      else signup_present rt e (the username) (the password) (the name) (the email) d)"

text \<open>
  \<^verbatim>\<open>POST /login\<close>. The state is the rate limiter's map and the store. The fields are again
  unchecked JSON values: \<^verbatim>\<open>checkRateLimit(username)\<close> uses the value as the key of the map,
  the \<^verbatim>\<open>SELECT\<close> binds it as a statement parameter, and \<^verbatim>\<open>bcrypt.compare\<close> takes the
  password; what any of them throws is answered 500 by the handler's \<^verbatim>\<open>catch\<close>.
\<close>

definition login_present ::
  "runtime \<Rightarrow> env \<Rightarrow> json \<Rightarrow> json \<Rightarrow>
   map_key loginAttempts \<times> database \<Rightarrow> response \<times> (map_key loginAttempts \<times> database)" where
  "login_present rt e username password st =
     (case st of (la, d) \<Rightarrow>
        (case checkRateLimit (Date_now e) (key_of (body_ref e) username) la of
           (allowed, la') \<Rightarrow>
             if \<not> allowed
             then (send 429 (error ''Too many login attempts. Please try again later.''),
                   (la', d))
             else
               (case fetch_user select_user_by_username (sql_param rt username) d of
                  Inl err \<Rightarrow> (send 500 (error ''Login failed''), (la', d))
                | Inr None \<Rightarrow> (send 401 (error ''Invalid credentials''), (la', d))
                | Inr (Some user) \<Rightarrow>
                    (case as_string password of
                       None \<Rightarrow> (send 500 (error ''Login failed''), (la', d))
                     | Some pw \<Rightarrow>
                         if \<not> bcrypt_compare rt pw (u_password_hash user)
                         then (send 401 (error ''Invalid credentials''), (la', d))
                         else
                           (let token = generateToken e;
                                tokenExpiry = expiry_iso e
                            in (send 200
                                  (obj [(''user'',
                                         Some (userResponse (JStr (u_id user))
                                                 (JStr (u_username user)) (JStr (u_name user))
                                                 (JStr (u_email user)))),
                                        (''token'', Some (JStr token)),
                                        (''expiresIn'', Some (JNum expiresIn))]),
                                (la', update_user_token token tokenExpiry (CURRENT_TIMESTAMP e)
                                        (u_id user) d)))))))"

definition login ::
  "runtime \<Rightarrow> env \<Rightarrow> json option \<Rightarrow> json option \<Rightarrow>
   map_key loginAttempts \<times> database \<Rightarrow> response \<times> (map_key loginAttempts \<times> database)" where
  "login rt e username password st =
     (if \<not> present username \<or> \<not> present password
      then (send 400 (error ''Missing username or password''), st)
      else login_present rt e (the username) (the password) st)"

text \<open>\<^verbatim>\<open>POST /verify\<close>. The authorization header is read and never used.\<close>

definition verify :: "string option \<Rightarrow> database \<Rightarrow> response" where
  "verify userId d =
     (if \<not> given userId
      then send 400 (error ''Missing userId'')
      else
        (case select_user_by_id (val userId) d of
           None \<Rightarrow> send 401 (error ''User not found'')
         | Some user \<Rightarrow>
             send 200
               (obj [(''user'',
                      Some (userResponse (JStr (u_id user)) (JStr (u_username user))
                              (JStr (u_name user)) (JStr (u_email user))))])))"

text \<open>\<^verbatim>\<open>POST /logout\<close>\<close>

definition logout :: "string option \<Rightarrow> database \<Rightarrow> response \<times> database" where
  "logout userId d =
     (if \<not> given userId
      then (send 400 (error ''Missing userId''), d)
      else
        (send 200 (obj [(''success'', Some (JBool True))]),
         d\<lparr>users :=
             map (\<lambda>u. if u_id u = val userId
                       then u\<lparr>u_auth_token := None, u_token_expiry := None\<rparr>
                       else u) (users d)\<rparr>))"

section \<open>History routes (server/routes/history.ts)\<close>

text \<open>
  \<^verbatim>\<open>msg.col ? JSON.parse(msg.col) : undefined\<close> for one of the three JSON columns. The outer
  \<open>None\<close> is the exception of \<^verbatim>\<open>JSON.parse\<close>; \<open>Some None\<close> is \<^verbatim>\<open>undefined\<close>.
\<close>

definition parse_column :: "runtime \<Rightarrow> string option \<Rightarrow> json option option" where
  "parse_column rt col =
     (if given col
      then (case JSON_parse rt (val col) of None \<Rightarrow> None | Some v \<Rightarrow> Some (Some v))
      else Some None)"

text \<open>\<^verbatim>\<open>{ ...msg, extracted_symptoms: ..., grounding_sources: ..., analysis_results: ... }\<close>\<close>

definition parsedMessage :: "runtime \<Rightarrow> message_row \<Rightarrow> json option" where
  "parsedMessage rt msg =
     (case parse_column rt (m_extracted_symptoms msg) of
        None \<Rightarrow> None
      | Some es \<Rightarrow>
          (case parse_column rt (m_grounding_sources msg) of
             None \<Rightarrow> None
           | Some gs \<Rightarrow>
               (case parse_column rt (m_analysis_results msg) of
                  None \<Rightarrow> None
                | Some ar \<Rightarrow>
                    Some (obj [(''id'', Some (JStr (m_id msg))),
                               (''session_id'', Some (JStr (m_session_id msg))),
                               (''role'', Some (JStr (m_role msg))),
                               (''content'', Some (JStr (m_content msg))),
                               (''image_url'', Some (nullable (m_image_url msg))),
                               (''extracted_symptoms'', es),
                               (''grounding_sources'', gs),
                               (''analysis_results'', ar),
                               (''timestamp'', Some (JStr (m_timestamp msg)))]))))"

text \<open>\<^verbatim>\<open>messages.map(msg => ...)\<close>: an exception in one element aborts the whole map.\<close>

definition parsedMessages :: "runtime \<Rightarrow> message_row list \<Rightarrow> json list option" where
  "parsedMessages rt msgs = those (map (parsedMessage rt) msgs)"

definition session_fields :: "session_row \<Rightarrow> (string \<times> json option) list" where
  "session_fields session =
     [(''id'', Some (JStr (s_id session))),
      (''user_id'', Some (JStr (s_user_id session))),
      (''title'', Some (JStr (s_title session))),
      (''created_at'', Some (JStr (s_created_at session))),
      (''updated_at'', Some (JStr (s_updated_at session)))]"

text \<open>\<^verbatim>\<open>GET /sessions/:userId\<close>\<close>

definition sessionWithMessages :: "runtime \<Rightarrow> database \<Rightarrow> session_row \<Rightarrow> json option" where
  "sessionWithMessages rt d session =
     (case parsedMessages rt (select_messages_of_session (s_id session) d) of
        None \<Rightarrow> None
      | Some pm \<Rightarrow> Some (obj (session_fields session @ [(''messages'', Some (JArr pm))])))"

definition listSessions :: "runtime \<Rightarrow> string \<Rightarrow> database \<Rightarrow> response" where
  "listSessions rt userId d =
     (if userId = []
      then send 400 (error ''Missing userId'')
      else
        (case those (map (sessionWithMessages rt d) (select_sessions_of_user userId d)) of
           None \<Rightarrow> send 500 (error ''Failed to fetch sessions'')
         | Some sessionsWithMessages \<Rightarrow>
             send 200 (obj [(''sessions'', Some (JArr sessionsWithMessages))])))"

text \<open>\<^verbatim>\<open>GET /session/:sessionId\<close>\<close>

definition getSession :: "runtime \<Rightarrow> string \<Rightarrow> database \<Rightarrow> response" where
  "getSession rt sessionId d =
     (case select_session sessionId d of
        None \<Rightarrow> send 404 (error ''Session not found'')
      | Some session \<Rightarrow>
          (case parsedMessages rt (select_messages_of_session sessionId d) of
             None \<Rightarrow> send 500 (error ''Failed to fetch session'')
           | Some pm \<Rightarrow>
               send 200 (obj [(''session'', Some (obj (session_fields session))),
                              (''messages'', Some (JArr pm))])))"

text \<open>\<^verbatim>\<open>POST /session\<close>\<close>

definition createSession ::
  "env \<Rightarrow> string option \<Rightarrow> string option \<Rightarrow> database \<Rightarrow> response \<times> database" where
  "createSession e userId title d =
     (if \<not> given userId
      then (send 400 (error ''Missing userId''), d)
      else
        (let sessionId = generateUUID e;
             now = now_iso e;
             newSession =
               \<lparr>s_id = sessionId, s_user_id = val userId,
                s_title = (if given title then val title else ''New Consultation''),
                s_created_at = now, s_updated_at = now\<rparr>
         in case insert_session newSession d of
              Inl err \<Rightarrow> (send 500 (error ''Failed to create session''), d)
            | Inr d' \<Rightarrow>
                (send 201
                   (obj [(''session'',
                          Some (obj (session_fields newSession @ [(''messages'', Some (JArr []))])))]),
                 d')))"

text \<open>\<^verbatim>\<open>x ? JSON.stringify(x) : null\<close> (and \<^verbatim>\<open>: undefined\<close>) for a structured field.\<close>

definition stringify_field :: "runtime \<Rightarrow> json option \<Rightarrow> string option" where
  "stringify_field rt x =
     (case x of
        None \<Rightarrow> None
      | Some v \<Rightarrow> if truthy v then Some (JSON_stringify rt v) else None)"

text \<open>
  \<^verbatim>\<open>POST /message\<close>. \<open>message_ident\<close> is \<^verbatim>\<open>messageId || generateUUID()\<close>, and
  \<open>message_params\<close> the values bound to the columns by the \<^verbatim>\<open>INSERT\<close> (the \<^verbatim>\<open>UPDATE\<close> binds
  the same ones but the session). The insert is tried first; on \<^verbatim>\<open>SQLITE_CONSTRAINT\<close> the
  row with that identifier is updated instead, any other error is thrown on to the outer
  handler. Then the \<^verbatim>\<open>updated_at\<close> of the session named in the request is set.
\<close>

definition message_ident :: "env \<Rightarrow> string option \<Rightarrow> string" where
  "message_ident e messageId = (if given messageId then val messageId else generateUUID e)"

definition message_params ::
  "runtime \<Rightarrow> env \<Rightarrow> string option \<Rightarrow> string option \<Rightarrow> string option \<Rightarrow> string option \<Rightarrow>
   json option \<Rightarrow> json option \<Rightarrow> json option \<Rightarrow> string option \<Rightarrow> message_row" where
  "message_params rt e sessionId role content imageUrl extractedSymptoms groundingSources
       analysisResults messageId =
     \<lparr>m_id = message_ident e messageId, m_session_id = val sessionId, m_role = val role,
      m_content = val content, m_image_url = or_null imageUrl,
      m_extracted_symptoms = stringify_field rt extractedSymptoms,
      m_grounding_sources = stringify_field rt groundingSources,
      m_analysis_results = stringify_field rt analysisResults,
      m_timestamp = now_iso e\<rparr>"

definition saveMessage ::
  "runtime \<Rightarrow> env \<Rightarrow> string option \<Rightarrow> string option \<Rightarrow> string option \<Rightarrow> string option \<Rightarrow>
   json option \<Rightarrow> json option \<Rightarrow> json option \<Rightarrow> string option \<Rightarrow>
   database \<Rightarrow> response \<times> database" where
  "saveMessage rt e sessionId role content imageUrl extractedSymptoms groundingSources
       analysisResults messageId d =
     (if \<not> given sessionId \<or> \<not> given role \<or> \<not> given content
      then (send 400 (error ''Missing required fields''), d)
      else
        (let ident = message_ident e messageId;
             now = now_iso e;
             row = message_params rt e sessionId role content imageUrl extractedSymptoms
                     groundingSources analysisResults messageId;
             written =
               (case insert_message row d of
                  Inr d' \<Rightarrow> Inr d'
                | Inl insertError \<Rightarrow>
                    if insertError = ''SQLITE_CONSTRAINT''
                    then Inr (update_message row d)
                    else Inl insertError)
         in case written of
              Inl err \<Rightarrow> (send 500 (error ''Failed to save message''), d)
            | Inr d' \<Rightarrow>
                (send 201
                   (obj [(''message'',
                          Some (obj [(''id'', Some (JStr ident)),
                                     (''session_id'', Some (JStr (val sessionId))),
                                     (''role'', Some (JStr (val role))),
                                     (''content'', Some (JStr (val content))),
                                     (''image_url'', map_option JStr imageUrl),
                                     (''extracted_symptoms'',
                                      map_option JStr (stringify_field rt extractedSymptoms)),
                                     (''grounding_sources'',
                                      map_option JStr (stringify_field rt groundingSources)),
                                     (''analysis_results'',
                                      map_option JStr (stringify_field rt analysisResults)),
                                     (''timestamp'', Some (JStr now))]))]),
                 update_session_updated_at now (val sessionId) d')))"

text \<open>\<^verbatim>\<open>PUT /session/:sessionId\<close>\<close>

definition updateSessionTitle ::
  "env \<Rightarrow> string \<Rightarrow> string option \<Rightarrow> database \<Rightarrow> response \<times> database" where
  "updateSessionTitle e sessionId title d =
     (if \<not> given title
      then (send 400 (error ''Missing title''), d)
      else
        (send 200 (obj [(''success'', Some (JBool True))]),
         d\<lparr>chat_sessions :=
             map (\<lambda>s. if s_id s = sessionId
                       then s\<lparr>s_title := val title, s_updated_at := now_iso e\<rparr>
                       else s) (chat_sessions d)\<rparr>))"

text \<open>\<^verbatim>\<open>DELETE /session/:sessionId\<close> and \<^verbatim>\<open>DELETE /user/:userId\<close>: one
  \<^verbatim>\<open>DELETE FROM chat_sessions\<close> each, and no statement on \<^verbatim>\<open>messages\<close>.\<close>

definition deleteSession :: "string \<Rightarrow> database \<Rightarrow> response \<times> database" where
  "deleteSession sessionId d =
     (send 200 (obj [(''success'', Some (JBool True))]),
      delete_sessions (\<lambda>s. s_id s = sessionId) d)"

definition clearUserData :: "string \<Rightarrow> database \<Rightarrow> response \<times> database" where
  "clearUserData userId d =
     (send 200 (obj [(''success'', Some (JBool True))]),
      delete_sessions (\<lambda>s. s_user_id s = userId) d)"

section \<open>The validation rules in the specification's words\<close>

text \<open>
  The rules the specification lists for signup, each stated on the strings themselves
  rather than through the matcher: all four fields present; the email of the shape
  \<^verbatim>\<open>local@domain.tld\<close> (three non-empty parts free of white space and \<^verbatim>\<open>@\<close>); a username of
  characters \<^verbatim>\<open>[A-Za-z0-9_-]\<close>; a password with a lowercase and an uppercase letter; a
  password with a digit; a username or an email already stored, compared without case.
\<close>

definition fields_present ::
  "string option \<Rightarrow> string option \<Rightarrow> string option \<Rightarrow> string option \<Rightarrow> bool" where
  "fields_present username password name email =
     (given username \<and> given password \<and> given name \<and> given email)"

definition email_shape :: "string \<Rightarrow> bool" where
  "email_shape s =
     (\<exists>local domain tld.
        s = local @ ''@'' @ domain @ ''.'' @ tld
        \<and> local \<noteq> [] \<and> domain \<noteq> [] \<and> tld \<noteq> []
        \<and> list_all not_space_at local \<and> list_all not_space_at domain
        \<and> list_all not_space_at tld)"

definition username_charset :: "string \<Rightarrow> bool" where
  "username_charset s = (s \<noteq> [] \<and> list_all username_char s)"

definition has_lower_and_upper :: "string \<Rightarrow> bool" where
  "has_lower_and_upper s = (list_ex is_lower s \<and> list_ex is_upper s)"

definition has_digit :: "string \<Rightarrow> bool" where
  "has_digit s = list_ex is_digit s"

definition username_taken :: "string \<Rightarrow> database \<Rightarrow> bool" where
  "username_taken username d = list_ex (\<lambda>u. LOWER (u_username u) = LOWER username) (users d)"

definition email_taken :: "string \<Rightarrow> database \<Rightarrow> bool" where
  "email_taken email d = list_ex (\<lambda>u. LOWER (u_email u) = LOWER email) (users d)"

section \<open>The platform's JSON functions on a structured field\<close>

text \<open>
  What the round trip of a structured field asks of the platform: a field that is sent
  carries an array or an object which \<^verbatim>\<open>JSON.stringify\<close> prints as a non-empty text that
  \<^verbatim>\<open>JSON.parse\<close> reads back as the same value. Nothing is asked for a field that is absent.
\<close>

definition reads_back :: "runtime \<Rightarrow> json option \<Rightarrow> bool" where
  "reads_back rt x =
     (case x of
        None \<Rightarrow> True
      | Some v \<Rightarrow>
          structured v \<and> JSON_stringify rt v \<noteq> []
          \<and> JSON_parse rt (JSON_stringify rt v) = Some v)"

section \<open>Runs of several calls\<close>

text \<open>Successive \<^verbatim>\<open>POST /login\<close> requests, each with the values its call draws from the
  runtime, the username and the password; the state is threaded through.\<close>

fun login_calls ::
  "runtime \<Rightarrow> (env \<times> json option \<times> json option) list \<Rightarrow>
   map_key loginAttempts \<times> database \<Rightarrow>
   response list \<times> (map_key loginAttempts \<times> database)" where
  "login_calls rt [] st = ([], st)"
| "login_calls rt ((e, username, password) # calls) st =
     (case login rt e username password st of
        (r, st') \<Rightarrow>
          (case login_calls rt calls st' of
             (rs, st'') \<Rightarrow> (r # rs, st'')))"

section \<open>A JSON printer and reader, and sample inputs\<close>

text \<open>
  \<^verbatim>\<open>JSON.stringify\<close> and \<^verbatim>\<open>JSON.parse\<close> belong to the platform, not to the repository, and
  the handlers receive them through \<open>runtime\<close>. To run the handlers on concrete inputs,
  \<open>json_stringify\<close> prints a value in the compact form of \<^verbatim>\<open>JSON.stringify\<close>: the double
  quote, the backslash and the control characters below U+0020 are escaped, the latter
  as \<^verbatim>\<open>\b \t \n \f \r\<close> or \<^verbatim>\<open>\u00XX\<close>. Numbers are printed in decimal digits, which is the
  output of \<^verbatim>\<open>JSON.stringify\<close> for integers of magnitude below \<open>10^21\<close>; the sample inputs stay
  below that. \<open>json_parse\<close> reads the compact form back (integers, no white space between
  tokens); a text it cannot read is a syntax error, \<open>None\<close>.
\<close>

definition dquote :: char where "dquote = CHR 0x22"
definition backslash :: char where "backslash = CHR 0x5C"

definition hex_char :: "nat \<Rightarrow> char" where
  "hex_char n = (if n < 10 then char_of (48 + n) else char_of (87 + n))"

definition escape_char :: "char \<Rightarrow> string" where
  "escape_char c =
     (if c = dquote \<or> c = backslash then [backslash, c]
      else if c = CHR 0x08 then [backslash, CHR ''b'']
      else if c = CHR 0x09 then [backslash, CHR ''t'']
      else if c = CHR 0x0A then [backslash, CHR ''n'']
      else if c = CHR 0x0C then [backslash, CHR ''f'']
      else if c = CHR 0x0D then [backslash, CHR ''r'']
      else if (of_char c :: nat) < 32
      then [backslash, CHR ''u'', CHR ''0'', CHR ''0'',
            hex_char (of_char c div 16), hex_char (of_char c mod 16)]
      else [c])"

fun escape :: "string \<Rightarrow> string" where
  "escape [] = []"
| "escape (c # cs) = escape_char c @ escape cs"

definition quote :: "string \<Rightarrow> string" where
  "quote s = dquote # escape s @ [dquote]"

fun json_stringify :: "json \<Rightarrow> string"
  and json_stringify_elements :: "json list \<Rightarrow> string"
  and json_stringify_members :: "(string \<times> json) list \<Rightarrow> string" where
  "json_stringify JNull = ''null''"
| "json_stringify (JBool b) = (if b then ''true'' else ''false'')"
| "json_stringify (JNum n) = show_int n"
| "json_stringify (JStr s) = quote s"
| "json_stringify (JArr xs) = ''['' @ json_stringify_elements xs @ '']''"
| "json_stringify (JObj kvs) = ''{'' @ json_stringify_members kvs @ ''}''"
| "json_stringify_elements [] = []"
| "json_stringify_elements [x] = json_stringify x"
| "json_stringify_elements (x # y # ys) = json_stringify x @ '','' @ json_stringify_elements (y # ys)"
| "json_stringify_members [] = []"
| "json_stringify_members [(k, v)] = quote k @ '':'' @ json_stringify v"
| "json_stringify_members ((k, v) # m # ms) =
     quote k @ '':'' @ json_stringify v @ '','' @ json_stringify_members (m # ms)"

definition hex_value :: "char \<Rightarrow> nat option" where
  "hex_value c =
     (if is_digit c then Some (of_char c - 48)
      else if in_range CHR ''a'' CHR ''f'' c then Some (of_char c - 87)
      else if in_range CHR ''A'' CHR ''F'' c then Some (of_char c - 55)
      else None)"

text \<open>The character of a one-letter escape, and of \<^verbatim>\<open>\u00XX\<close> from its last two digits.\<close>

definition unescape :: "char \<Rightarrow> char option" where
  "unescape x =
     (if x = dquote \<or> x = backslash \<or> x = CHR ''/'' then Some x
      else if x = CHR ''b'' then Some (CHR 0x08)
      else if x = CHR ''t'' then Some (CHR 0x09)
      else if x = CHR ''n'' then Some (CHR 0x0A)
      else if x = CHR ''f'' then Some (CHR 0x0C)
      else if x = CHR ''r'' then Some (CHR 0x0D)
      else None)"

definition unescape_hex :: "char \<Rightarrow> char \<Rightarrow> char option" where
  "unescape_hex h l =
     (case hex_value h of
        None \<Rightarrow> None
      | Some a \<Rightarrow> (case hex_value l of None \<Rightarrow> None | Some b \<Rightarrow> Some (char_of (16 * a + b))))"

text \<open>The text after an opening double quote, up to the closing one. A raw control
  character is a syntax error, and so is an escape of a code unit above U+00FF, which
  the 8-bit strings of the model do not hold.\<close>

fun read_string :: "string \<Rightarrow> (string \<times> string) option" where
  "read_string [] = None"
| "read_string (c # cs) =
     (if c = dquote then Some ([], cs)
      else if c = backslash then
        (case cs of
           [] \<Rightarrow> None
         | x # r \<Rightarrow>
             if x = CHR ''u'' then
               (case r of
                  z1 # z2 # h # l # rest \<Rightarrow>
                    if z1 = CHR ''0'' \<and> z2 = CHR ''0'' then
                      (case unescape_hex h l of
                         None \<Rightarrow> None
                       | Some y \<Rightarrow> map_option (\<lambda>(s, rest'). (y # s, rest')) (read_string rest))
                    else None
                | _ \<Rightarrow> None)
             else
               (case unescape x of
                  None \<Rightarrow> None
                | Some y \<Rightarrow> map_option (\<lambda>(s, rest). (y # s, rest)) (read_string r)))
      else if (of_char c :: nat) < 32 then None
      else map_option (\<lambda>(s, rest). (c # s, rest)) (read_string cs))"

fun read_digits :: "nat \<Rightarrow> string \<Rightarrow> nat \<times> string" where
  "read_digits acc [] = (acc, [])"
| "read_digits acc (c # cs) =
     (if is_digit c then read_digits (10 * acc + (of_char c - 48)) cs else (acc, c # cs))"

text \<open>The digits of an integer: a leading zero stands alone.\<close>

fun read_number :: "string \<Rightarrow> (nat \<times> string) option" where
  "read_number [] = None"
| "read_number [c] = (if is_digit c then Some (of_char c - 48, []) else None)"
| "read_number (c # x # r) =
     (if \<not> is_digit c then None
      else if c = CHR ''0'' then (if is_digit x then None else Some (0, x # r))
      else Some (read_digits 0 (c # x # r)))"

fun read_value :: "nat \<Rightarrow> string \<Rightarrow> (json \<times> string) option"
  and read_elements :: "nat \<Rightarrow> string \<Rightarrow> (json list \<times> string) option"
  and read_members :: "nat \<Rightarrow> string \<Rightarrow> ((string \<times> json) list \<times> string) option" where
  "read_value 0 s = None"
| "read_value (Suc n) s =
     (if take 4 s = ''null'' then Some (JNull, drop 4 s)
      else if take 4 s = ''true'' then Some (JBool True, drop 4 s)
      else if take 5 s = ''false'' then Some (JBool False, drop 5 s)
      else if take 2 s = ''[]'' then Some (JArr [], drop 2 s)
      else if take 2 s = ''{}'' then Some (JObj [], drop 2 s)
      else
        (case s of
           [] \<Rightarrow> None
         | c # cs \<Rightarrow>
             if c = dquote then map_option (\<lambda>(str, rest). (JStr str, rest)) (read_string cs)
             else if c = CHR ''['' then map_option (\<lambda>(xs, rest). (JArr xs, rest)) (read_elements n cs)
             else if c = CHR ''{'' then map_option (\<lambda>(kvs, rest). (JObj kvs, rest)) (read_members n cs)
             else if c = CHR ''-''
             then map_option (\<lambda>(k, rest). (JNum (- int k), rest)) (read_number cs)
             else map_option (\<lambda>(k, rest). (JNum (int k), rest)) (read_number s)))"
| "read_elements 0 s = None"
| "read_elements (Suc n) s =
     (case read_value n s of
        None \<Rightarrow> None
      | Some (v, rest) \<Rightarrow>
          (case rest of
             [] \<Rightarrow> None
           | c # cs \<Rightarrow>
               if c = CHR '']'' then Some ([v], cs)
               else if c = CHR '','' then map_option (\<lambda>(vs, r). (v # vs, r)) (read_elements n cs)
               else None))"
| "read_members 0 s = None"
| "read_members (Suc n) s =
     (case s of
        [] \<Rightarrow> None
      | q # s1 \<Rightarrow>
          if q \<noteq> dquote then None
          else
            (case read_string s1 of
               None \<Rightarrow> None
             | Some (k, s2) \<Rightarrow>
                 (case s2 of
                    [] \<Rightarrow> None
                  | colon # s3 \<Rightarrow>
                      if colon \<noteq> CHR '':'' then None
                      else
                        (case read_value n s3 of
                           None \<Rightarrow> None
                         | Some (v, rest) \<Rightarrow>
                             (case rest of
                                [] \<Rightarrow> None
                              | c # cs \<Rightarrow>
                                  if c = CHR ''}'' then Some ([(k, v)], cs)
                                  else if c = CHR '','' then
                                    map_option (\<lambda>(kvs, r). ((k, v) # kvs, r)) (read_members n cs)
                                  else None)))))"

definition json_parse :: "string \<Rightarrow> json option" where
  "json_parse s = (case read_value (Suc (length s)) s of
                Some (v, []) \<Rightarrow> Some v
              | _ \<Rightarrow> None)"

text \<open>
  A runtime for concrete runs. The hash of a password is the password behind a fixed
  prefix, and \<^verbatim>\<open>bcrypt.compare\<close> checks exactly that. Numbers of magnitude \<open>10^21\<close> or more
  do not occur in the runs, so their text is left as the digits. A string is compared
  with a number as the number its decimal digits denote (the empty string as 0); strings
  of any other form are taken as not numeric, where every comparison is false. The driver
  binds \<^verbatim>\<open>null\<close> as \<^verbatim>\<open>NULL\<close>, a number as that integer, whose text is its digits, a boolean
  as 1 or 0, and an array or object as its string.
\<close>

definition sample_less :: "string \<Rightarrow> int \<Rightarrow> bool" where
  "sample_less s n = (list_all is_digit s \<and> int (fst (read_digits 0 s)) < n)"

definition sample_platform :: runtime where
  "sample_platform =
     \<lparr>bcrypt_compare = (\<lambda>password hash. hash = ''$2a$12$'' @ password),
      JSON_stringify = json_stringify,
      JSON_parse = json_parse,
      Number_toString = show_int,
      StringToNumber_less = sample_less,
      sqlite_bind = (\<lambda>v. Inr None)\<rparr>"

fun sample_bind :: "json \<Rightarrow> sqlite_error + string option" where
  "sample_bind JNull = Inr None"
| "sample_bind (JBool b) = Inr (Some (if b then ''1'' else ''0''))"
| "sample_bind (JNum n) = Inr (Some (show_int n))"
| "sample_bind v =
     (case to_text sample_platform v of
        None \<Rightarrow> Inl ''TypeError''
      | Some t \<Rightarrow> Inr (Some t))"

definition sample_runtime :: runtime where
  "sample_runtime = sample_platform\<lparr>sqlite_bind := sample_bind\<rparr>"

definition sample_env :: "int \<Rightarrow> string \<Rightarrow> string \<Rightarrow> string \<Rightarrow> env" where
  "sample_env ms isotime uuid token =
     \<lparr>generateUUID = uuid, generateToken = token,
      bcrypt_hash = (\<lambda>password. ''$2a$12$'' @ password),
      Date_now = ms, now_iso = isotime, expiry_iso = ''2026-01-31T00:00:00.000Z'',
      CURRENT_TIMESTAMP = ''2026-01-01 00:00:00'', body_ref = 0\<rparr>"

text \<open>The store after Alice has signed up on the fresh database.\<close>

definition alice_db :: database where
  "alice_db =
     snd (signup sample_runtime (sample_env 0 ''2026-01-01T00:00:00.000Z'' ''u-alice'' ''t0'')
            (Some (JStr ''Alice'')) (Some (JStr ''Valid123'')) (Some (JStr ''Alice A.''))
            (Some (JStr ''alice@example.org'')) db)"

text \<open>Alice opens two sessions and saves one message with structured symptoms into the
  first.\<close>

definition session_db :: database where
  "session_db =
     snd (createSession (sample_env 1000 ''2026-01-01T00:00:01.000Z'' ''s-1'' ''unused'')
            (Some ''u-alice'') None alice_db)"

definition sessions_db :: database where
  "sessions_db =
     snd (createSession (sample_env 2000 ''2026-01-01T00:00:02.000Z'' ''s-2'' ''unused'')
            (Some ''u-alice'') (Some ''Follow-up'') session_db)"

definition chat_db :: database where
  "chat_db =
     snd (saveMessage sample_runtime
            (sample_env 3000 ''2026-01-01T00:00:03.000Z'' ''unused'' ''unused'')
            (Some ''s-1'') (Some ''user'') (Some ''I have a fever'') None
            (Some (JArr [JStr ''fever'', JStr ''cough''])) None None (Some ''m-1'')
            sessions_db)"

text \<open>The \<open>k\<close>-th request of a run of logins, one minute after the one before; the body
  parser allocates a new object for the body of each.\<close>

definition login_env :: "int \<Rightarrow> env" where
  "login_env k =
     (sample_env (k * 60000) ''2026-01-02T00:00:00.000Z'' ''unused'' ''token'')
       \<lparr>body_ref := nat k\<rparr>"

section \<open>Properties of the rate limiter\<close>

lemma checkRateLimit_fresh:
  "la i = None \<or> (\<exists>a. la i = Some a \<and> now - timestamp a > 900000) \<Longrightarrow>
   checkRateLimit now i la = (True, la(i \<mapsto> \<lparr>count = 1, timestamp = now\<rparr>))"
  by (auto simp: checkRateLimit_def RATE_LIMIT_WINDOW_def split: option.splits)

lemma checkRateLimit_below:
  "la i = Some a \<Longrightarrow> now - timestamp a \<le> 900000 \<Longrightarrow> count a < 5 \<Longrightarrow>
   checkRateLimit now i la = (True, la(i \<mapsto> a\<lparr>count := count a + 1\<rparr>))"
  by (simp add: checkRateLimit_def RATE_LIMIT_WINDOW_def RATE_LIMIT_ATTEMPTS_def)

lemma checkRateLimit_full:
  "la i = Some a \<Longrightarrow> now - timestamp a \<le> 900000 \<Longrightarrow> count a \<ge> 5 \<Longrightarrow>
   checkRateLimit now i la = (False, la)"
  by (simp add: checkRateLimit_def RATE_LIMIT_WINDOW_def RATE_LIMIT_ATTEMPTS_def)

text \<open>From a fresh or expired entry, five calls inside the window opened by the first are
  allowed and leave the counter at 5; a sixth inside the window is denied and leaves the
  entry as it is.\<close>

lemma checkRateLimit_six_calls:
  assumes fresh: "la i = None \<or> (\<exists>a. la i = Some a \<and> t1 - timestamp a > 900000)"
    and win: "t2 - t1 \<le> 900000" "t3 - t1 \<le> 900000" "t4 - t1 \<le> 900000"
             "t5 - t1 \<le> 900000" "t6 - t1 \<le> 900000"
  shows "checkRateLimit_calls [t1, t2, t3, t4, t5, t6] i la
           = ([True, True, True, True, True, False], la(i \<mapsto> \<lparr>count = 5, timestamp = t1\<rparr>))"
proof -
  define st where "st k = la(i \<mapsto> \<lparr>count = k, timestamp = t1\<rparr>)" for k
  have step: "checkRateLimit t i (st k) = (True, st (Suc k))"
    if "t - t1 \<le> 900000" "k < 5" for t k
    using that checkRateLimit_below [of "st k" i "\<lparr>count = k, timestamp = t1\<rparr>" t]
    by (simp add: st_def)
  have c1: "checkRateLimit t1 i la = (True, st (Suc 0))"
    using checkRateLimit_fresh [of la i t1] fresh by (simp add: st_def)
  have c6: "checkRateLimit t6 i (st (Suc (Suc (Suc (Suc (Suc 0)))))) =
              (False, st (Suc (Suc (Suc (Suc (Suc 0))))))"
    using checkRateLimit_full [of "st 5" i "\<lparr>count = 5, timestamp = t1\<rparr>" t6] win
    by (simp add: st_def eval_nat_numeral)
  have "checkRateLimit_calls [t1, t2, t3, t4, t5, t6] i la
          = ([True, True, True, True, True, False], st (Suc (Suc (Suc (Suc (Suc 0))))))"
    using win by (simp add: c1 step c6)
  then show ?thesis by (simp add: st_def eval_nat_numeral)
qed

lemma checkRateLimit_calls_append:
  "checkRateLimit_calls (ts @ us) i la =
     (case checkRateLimit_calls ts i la of
        (oks, la') \<Rightarrow>
          (case checkRateLimit_calls us i la' of (oks', la'') \<Rightarrow> (oks @ oks', la'')))"
  by (induction ts arbitrary: la) (auto split: prod.splits)

text \<open>
  Claim C2. \<open>checkRateLimit\<close> is a fixed-window counter with limit 5 and a window of
  15 minutes (900000 ms): with no entry, or an entry whose window has expired, the entry is
  reset to count 1 at the current time and the call is allowed; inside the window with a
  count below 5 the count is incremented and the call is allowed; inside the window with a
  count of at least 5 the call is denied and the map is left as it is. Hence, from a fresh
  or expired entry, five calls inside the window are allowed, a sixth inside it is denied,
  and a call after the window has elapsed is allowed again.
\<close>

theorem C2_checkRateLimit_fixed_window:
  "((la i = None \<or> (\<exists>a. la i = Some a \<and> now - timestamp a > 15 * 60 * 1000)) \<longrightarrow>
      checkRateLimit now i la = (True, la(i \<mapsto> \<lparr>count = 1, timestamp = now\<rparr>)))
   \<and> (\<forall>a. la i = Some a \<and> now - timestamp a \<le> 15 * 60 * 1000 \<and> count a < 5 \<longrightarrow>
      checkRateLimit now i la = (True, la(i \<mapsto> a\<lparr>count := count a + 1\<rparr>)))
   \<and> (\<forall>a. la i = Some a \<and> now - timestamp a \<le> 15 * 60 * 1000 \<and> 5 \<le> count a \<longrightarrow>
      checkRateLimit now i la = (False, la))
   \<and> ((la i = None \<or> (\<exists>a. la i = Some a \<and> t1 - timestamp a > 15 * 60 * 1000))
      \<and> t2 - t1 \<le> 15 * 60 * 1000 \<and> t3 - t1 \<le> 15 * 60 * 1000 \<and> t4 - t1 \<le> 15 * 60 * 1000
      \<and> t5 - t1 \<le> 15 * 60 * 1000 \<and> t6 - t1 \<le> 15 * 60 * 1000 \<and> t7 - t1 > 15 * 60 * 1000 \<longrightarrow>
      fst (checkRateLimit_calls [t1, t2, t3, t4, t5, t6, t7] i la)
        = [True, True, True, True, True, False, True])"
proof (intro conjI impI allI)
  assume "la i = None \<or> (\<exists>a. la i = Some a \<and> now - timestamp a > 15 * 60 * 1000)"
  then show "checkRateLimit now i la = (True, la(i \<mapsto> \<lparr>count = 1, timestamp = now\<rparr>))"
    using checkRateLimit_fresh [of la i now] by simp
next
  fix a
  assume "la i = Some a \<and> now - timestamp a \<le> 15 * 60 * 1000 \<and> count a < 5"
  then show "checkRateLimit now i la = (True, la(i \<mapsto> a\<lparr>count := count a + 1\<rparr>))"
    using checkRateLimit_below [of la i a now] by simp
next
  fix a
  assume "la i = Some a \<and> now - timestamp a \<le> 15 * 60 * 1000 \<and> 5 \<le> count a"
  then show "checkRateLimit now i la = (False, la)"
    using checkRateLimit_full [of la i a now] by simp
next
  assume h: "(la i = None \<or> (\<exists>a. la i = Some a \<and> t1 - timestamp a > 15 * 60 * 1000))
      \<and> t2 - t1 \<le> 15 * 60 * 1000 \<and> t3 - t1 \<le> 15 * 60 * 1000 \<and> t4 - t1 \<le> 15 * 60 * 1000
      \<and> t5 - t1 \<le> 15 * 60 * 1000 \<and> t6 - t1 \<le> 15 * 60 * 1000 \<and> t7 - t1 > 15 * 60 * 1000"
  have six: "checkRateLimit_calls [t1, t2, t3, t4, t5, t6] i la
           = ([True, True, True, True, True, False], la(i \<mapsto> \<lparr>count = 5, timestamp = t1\<rparr>))"
    using h by (intro checkRateLimit_six_calls) simp_all
  have seventh: "fst (checkRateLimit t7 i (la(i \<mapsto> \<lparr>count = 5, timestamp = t1\<rparr>)))"
    using h checkRateLimit_fresh [of "la(i \<mapsto> \<lparr>count = 5, timestamp = t1\<rparr>)" i t7] by simp
  have "checkRateLimit_calls ([t1, t2, t3, t4, t5, t6] @ [t7]) i la
          = ([True, True, True, True, True, False]
               @ [fst (checkRateLimit t7 i (la(i \<mapsto> \<lparr>count = 5, timestamp = t1\<rparr>)))],
             snd (checkRateLimit t7 i (la(i \<mapsto> \<lparr>count = 5, timestamp = t1\<rparr>))))"
    unfolding checkRateLimit_calls_append six by (simp split: prod.splits)
  then show "fst (checkRateLimit_calls [t1, t2, t3, t4, t5, t6, t7] i la)
        = [True, True, True, True, True, False, True]"
    using seventh by simp
qed

text \<open>The theorem at work: six calls for \<open>alice\<close> on an empty map, the sixth exactly
  15 minutes after the first, then one a millisecond later; an entry at count 2 inside
  its window; an entry at count 5 inside its window.\<close>

theorem C2_checkRateLimit_fixed_window_witness:
  "fst (checkRateLimit_calls [0, 1000, 2000, 3000, 4000, 900000, 900001] ''alice'' Map.empty)
     = [True, True, True, True, True, False, True]
   \<and> checkRateLimit 0 ''alice'' Map.empty
       = (True, [''alice'' \<mapsto> \<lparr>count = 1, timestamp = 0\<rparr>])
   \<and> checkRateLimit 500 ''alice'' [''alice'' \<mapsto> \<lparr>count = 2, timestamp = 100\<rparr>]
       = (True, [''alice'' \<mapsto> \<lparr>count = 3, timestamp = 100\<rparr>])
   \<and> checkRateLimit 500 ''alice'' [''alice'' \<mapsto> \<lparr>count = 5, timestamp = 100\<rparr>]
       = (False, [''alice'' \<mapsto> \<lparr>count = 5, timestamp = 100\<rparr>])"
proof -
  have run: "fst (checkRateLimit_calls [0, 1000, 2000, 3000, 4000, 900000, 900001]
                    ''alice'' Map.empty) = [True, True, True, True, True, False, True]"
    using C2_checkRateLimit_fixed_window
            [of Map.empty "''alice''" 0 0 1000 2000 3000 4000 900000 900001]
    by (simp del: checkRateLimit_calls.simps)
  have first: "checkRateLimit 0 ''alice'' Map.empty
       = (True, [''alice'' \<mapsto> \<lparr>count = 1, timestamp = 0\<rparr>])"
    using C2_checkRateLimit_fixed_window [of Map.empty "''alice''" 0] by simp
  have below: "checkRateLimit 500 ''alice'' [''alice'' \<mapsto> \<lparr>count = 2, timestamp = 100\<rparr>]
       = (True, [''alice'' \<mapsto> \<lparr>count = 3, timestamp = 100\<rparr>])"
    using C2_checkRateLimit_fixed_window
            [of "[''alice'' \<mapsto> \<lparr>count = 2, timestamp = 100\<rparr>]" "''alice''" 500]
    by simp
  have full: "checkRateLimit 500 ''alice'' [''alice'' \<mapsto> \<lparr>count = 5, timestamp = 100\<rparr>]
       = (False, [''alice'' \<mapsto> \<lparr>count = 5, timestamp = 100\<rparr>])"
    using C2_checkRateLimit_fixed_window
            [of "[''alice'' \<mapsto> \<lparr>count = 5, timestamp = 100\<rparr>]" "''alice''" 500]
    by simp
  from run first below full show ?thesis by blast
qed

section \<open>Facts about lists\<close>

lemma find_None_set: "find P xs = None \<longleftrightarrow> \<not> (\<exists>x\<in>set xs. P x)"
  by (auto simp: find_None_iff)

lemma find_Some_set: "find P xs = Some x \<Longrightarrow> x \<in> set xs \<and> P x"
  by (induction xs) (auto split: if_splits)

lemma find_map_fields:
  "(\<And>x. P (f x) = P x) \<Longrightarrow> find P (map f xs) = map_option f (find P xs)"
  by (induction xs) auto

lemma list_ex_set: "list_ex P xs \<longleftrightarrow> (\<exists>x\<in>set xs. P x)"
  by (simp add: list_ex_iff)

lemma filter_key_distinct:
  "distinct (map f xs) \<Longrightarrow> x \<in> set xs \<Longrightarrow> filter (\<lambda>y. f y = f x) xs = [x]"
proof (induction xs)
  case Nil
  then show ?case by simp
next
  case (Cons a xs)
  show ?case
  proof (cases "a = x")
    case True
    have "f x \<notin> f ` set xs" using Cons.prems True by simp
    then have "\<forall>y\<in>set xs. f y \<noteq> f x" by (metis imageI)
    then have "filter (\<lambda>y. f y = f x) xs = []"
      by (simp add: filter_empty_conv)
    then show ?thesis using True by simp
  next
    case False
    then have in_xs: "x \<in> set xs" using Cons.prems by simp
    have "f a \<notin> f ` set xs" using Cons.prems by simp
    then have "f a \<noteq> f x" using in_xs by (metis imageI)
    then show ?thesis using Cons in_xs by simp
  qed
qed

lemma filter_updated_rows:
  "(\<And>x. k (g x) = k x) \<Longrightarrow>
   filter (\<lambda>x. k x = v) (map (\<lambda>x. if k x = v then g x else x) xs)
     = map g (filter (\<lambda>x. k x = v) xs)"
  by (induction xs) auto

lemma filter_other_rows:
  "(\<And>x. k (g x) = k x) \<Longrightarrow>
   filter (\<lambda>x. k x \<noteq> v) (map (\<lambda>x. if k x = v then g x else x) xs)
     = filter (\<lambda>x. k x \<noteq> v) xs"
  by (induction xs) auto

section \<open>Properties of login\<close>

lemma login_missing:
  "\<not> present username \<or> \<not> present password \<Longrightarrow>
   login rt e username password st = (send 400 (error ''Missing username or password''), st)"
  by (auto simp: login_def)

lemma login_limiter:
  "present username \<Longrightarrow> present password \<Longrightarrow>
   fst (snd (login rt e username password (la, d)))
     = snd (checkRateLimit (Date_now e) (key_of (body_ref e) (the username)) la)"
  by (simp add: login_def login_present_def Let_def
           split: prod.splits option.splits sum.splits)

lemma login_step:
  assumes "present username" "present password"
    and "checkRateLimit (Date_now e) (key_of (body_ref e) (the username)) la = (ok, la')"
  shows "\<exists>r d'. login rt e username password (la, d) = (r, (la', d'))
           \<and> (if ok then status r = 200 \<or> status r = 401 \<or> status r = 500
               else r = send 429 (error ''Too many login attempts. Please try again later.'')
                    \<and> d' = d)"
  using assms
  by (auto simp: login_def login_present_def Let_def send_def
           split: option.splits sum.splits)

text \<open>On string fields the handler is the chain of checks the source spells out, with
  the username itself as the limiter's key.\<close>

lemma login_on_strings:
  "login rt e (Some (JStr username)) (Some (JStr password)) (la, d) =
     (if username = [] \<or> password = []
      then (send 400 (error ''Missing username or password''), (la, d))
      else
        (case checkRateLimit (Date_now e) (KStr username) la of
           (allowed, la') \<Rightarrow>
             if \<not> allowed
             then (send 429 (error ''Too many login attempts. Please try again later.''),
                   (la', d))
             else
               (case select_user_by_username username d of
                  None \<Rightarrow> (send 401 (error ''Invalid credentials''), (la', d))
                | Some user \<Rightarrow>
                    if \<not> bcrypt_compare rt password (u_password_hash user)
                    then (send 401 (error ''Invalid credentials''), (la', d))
                    else
                      (send 200
                         (obj [(''user'',
                                Some (userResponse (JStr (u_id user)) (JStr (u_username user))
                                        (JStr (u_name user)) (JStr (u_email user)))),
                               (''token'', Some (JStr (generateToken e))),
                               (''expiresIn'', Some (JNum expiresIn))]),
                       (la', update_user_token (generateToken e) (expiry_iso e)
                               (CURRENT_TIMESTAMP e) (u_id user) d)))))"
  by (simp add: login_def login_present_def present_def sql_param_def Let_def
           split: prod.splits option.splits)

text \<open>
  With string fields, an unknown username and a wrong password are answered alike: of
  two login calls that are not rate-limited, one naming a username no stored user has
  (compared without case) and one naming a stored user with a password that does not match
  its hash, both responses are status 401 with the body
  \<^verbatim>\<open>{error: "Invalid credentials"}\<close>, and neither call changes the store.
\<close>

lemma login_failures_equal_on_strings:
  assumes "username1 \<noteq> []" "password1 \<noteq> []" "username2 \<noteq> []" "password2 \<noteq> []"
    and "fst (checkRateLimit (Date_now e1) (KStr username1) la1)"
    and "fst (checkRateLimit (Date_now e2) (KStr username2) la2)"
    and "\<not> (\<exists>u \<in> set (users d1). LOWER (u_username u) = LOWER username1)"
    and "select_user_by_username username2 d2 = Some user"
    and "\<not> bcrypt_compare rt password2 (u_password_hash user)"
  shows "fst (login rt e1 (Some (JStr username1)) (Some (JStr password1)) (la1, d1))
           = fst (login rt e2 (Some (JStr username2)) (Some (JStr password2)) (la2, d2))
         \<and> fst (login rt e1 (Some (JStr username1)) (Some (JStr password1)) (la1, d1))
           = send 401 (error ''Invalid credentials'')
         \<and> snd (snd (login rt e1 (Some (JStr username1)) (Some (JStr password1)) (la1, d1))) = d1
         \<and> snd (snd (login rt e2 (Some (JStr username2)) (Some (JStr password2)) (la2, d2))) = d2"
proof -
  obtain la1' where c1: "checkRateLimit (Date_now e1) (KStr username1) la1 = (True, la1')"
    using assms(5) by (cases "checkRateLimit (Date_now e1) (KStr username1) la1") simp
  obtain la2' where c2: "checkRateLimit (Date_now e2) (KStr username2) la2 = (True, la2')"
    using assms(6) by (cases "checkRateLimit (Date_now e2) (KStr username2) la2") simp
  have none: "select_user_by_username username1 d1 = None"
    using assms(7) by (simp add: select_user_by_username_def find_None_set)
  have r1: "login rt e1 (Some (JStr username1)) (Some (JStr password1)) (la1, d1)
              = (send 401 (error ''Invalid credentials''), (la1', d1))"
    using assms(1,2) by (simp add: login_on_strings c1 none)
  have r2: "login rt e2 (Some (JStr username2)) (Some (JStr password2)) (la2, d2)
              = (send 401 (error ''Invalid credentials''), (la2', d2))"
    using assms(3,4,9) by (simp add: login_on_strings c2 assms(8))
  show ?thesis by (simp add: r1 r2)
qed

text \<open>
  Claim C5. The handler never checks that \<open>password\<close> is a string. For a password that is
  truthy and not a string (the number 1, say), a login that is not rate-limited and
  names a username no stored user has is answered 401 with the body
  \<^verbatim>\<open>{error: "Invalid credentials"}\<close>, since the handler returns before it looks at the
  password; one that names a stored user reaches \<^verbatim>\<open>bcrypt.compare\<close>, which rejects an
  argument that is not a string, and is answered 500 with the body
  \<^verbatim>\<open>{error: "Login failed"}\<close> by the handler's \<^verbatim>\<open>catch\<close>. The two failures differ, so the
  response tells whether the username exists.
\<close>

theorem C5_login_untyped_password_reveals_username:
  assumes "truthy password" "as_string password = None"
    and "username1 \<noteq> []" "username2 \<noteq> []"
    and "fst (checkRateLimit (Date_now e1) (KStr username1) la1)"
    and "fst (checkRateLimit (Date_now e2) (KStr username2) la2)"
    and "\<not> (\<exists>u \<in> set (users d1). LOWER (u_username u) = LOWER username1)"
    and "\<exists>u \<in> set (users d2). LOWER (u_username u) = LOWER username2"
  shows "fst (login rt e1 (Some (JStr username1)) (Some password) (la1, d1))
           = \<lparr>status = 401, body = JObj [(''error'', JStr ''Invalid credentials'')]\<rparr>
         \<and> fst (login rt e2 (Some (JStr username2)) (Some password) (la2, d2))
           = \<lparr>status = 500, body = JObj [(''error'', JStr ''Login failed'')]\<rparr>
         \<and> fst (login rt e1 (Some (JStr username1)) (Some password) (la1, d1))
           \<noteq> fst (login rt e2 (Some (JStr username2)) (Some password) (la2, d2))"
proof -
  obtain la1' where c1: "checkRateLimit (Date_now e1) (KStr username1) la1 = (True, la1')"
    using assms(5) by (cases "checkRateLimit (Date_now e1) (KStr username1) la1") simp
  obtain la2' where c2: "checkRateLimit (Date_now e2) (KStr username2) la2 = (True, la2')"
    using assms(6) by (cases "checkRateLimit (Date_now e2) (KStr username2) la2") simp
  have none: "select_user_by_username username1 d1 = None"
    using assms(7) by (simp add: select_user_by_username_def find_None_set)
  have "select_user_by_username username2 d2 \<noteq> None"
    using assms(8) by (simp add: select_user_by_username_def find_None_set)
  then obtain user where some: "select_user_by_username username2 d2 = Some user"
    by auto
  have r1: "fst (login rt e1 (Some (JStr username1)) (Some password) (la1, d1))
              = \<lparr>status = 401, body = JObj [(''error'', JStr ''Invalid credentials'')]\<rparr>"
    using assms(1,3)
    by (simp add: login_def login_present_def present_def sql_param_def c1 none
                  send_def error_def obj_def)
  have r2: "fst (login rt e2 (Some (JStr username2)) (Some password) (la2, d2))
              = \<lparr>status = 500, body = JObj [(''error'', JStr ''Login failed'')]\<rparr>"
    using assms(1,2,4)
    by (simp add: login_def login_present_def present_def sql_param_def c2 some
                  send_def error_def obj_def)
  show ?thesis by (simp add: r1 r2)
qed

theorem C5_login_untyped_password_reveals_username_witness:
  "fst (login sample_runtime (login_env 0) (Some (JStr ''nobody'')) (Some (JNum 1))
          (Map.empty, alice_db))
     = \<lparr>status = 401, body = JObj [(''error'', JStr ''Invalid credentials'')]\<rparr>
   \<and> fst (login sample_runtime (login_env 1) (Some (JStr ''Alice'')) (Some (JNum 1))
          (Map.empty, alice_db))
     = \<lparr>status = 500, body = JObj [(''error'', JStr ''Login failed'')]\<rparr>
   \<and> fst (login sample_runtime (login_env 0) (Some (JStr ''nobody'')) (Some (JNum 1))
          (Map.empty, alice_db))
     \<noteq> fst (login sample_runtime (login_env 1) (Some (JStr ''Alice'')) (Some (JNum 1))
          (Map.empty, alice_db))"
proof -
  have h: "truthy (JNum 1)" "as_string (JNum 1) = None" "''nobody'' \<noteq> []" "''Alice'' \<noteq> []"
    "fst (checkRateLimit (Date_now (login_env 0)) (KStr ''nobody'') Map.empty)"
    "fst (checkRateLimit (Date_now (login_env 1)) (KStr ''Alice'') Map.empty)"
    "\<not> (\<exists>u \<in> set (users alice_db). LOWER (u_username u) = LOWER ''nobody'')"
    "\<exists>u \<in> set (users alice_db). LOWER (u_username u) = LOWER ''Alice''"
    by code_simp+
  from C5_login_untyped_password_reveals_username [OF h]
  show ?thesis .
qed

text \<open>Calls whose usernames give one and the same key follow the limiter on that key.\<close>

lemma login_calls_follow_limiter:
  assumes "list_all (\<lambda>(e, u, p). present u \<and> present p \<and> key_of (body_ref e) (the u) = k) calls"
  shows "\<exists>rs d'.
           login_calls rt calls (la, d)
             = (rs, (snd (checkRateLimit_calls (map (\<lambda>c. Date_now (fst c)) calls) k la), d'))
           \<and> list_all2
                (\<lambda>r ok. if ok then status r = 200 \<or> status r = 401 \<or> status r = 500
                         else r = send 429
                                    (error ''Too many login attempts. Please try again later.''))
                rs (fst (checkRateLimit_calls (map (\<lambda>c. Date_now (fst c)) calls) k la))"
  using assms
proof (induction calls arbitrary: la d)
  case Nil
  then show ?case by simp
next
  case (Cons c calls)
  obtain e u p where c: "c = (e, u, p)" by (cases c)
  from Cons.prems c have u: "present u" and p: "present p"
    and k: "key_of (body_ref e) (the u) = k"
    and rest: "list_all (\<lambda>(e, u, p). present u \<and> present p \<and> key_of (body_ref e) (the u) = k)
                 calls"
    by simp_all
  obtain ok la' where chk: "checkRateLimit (Date_now e) k la = (ok, la')"
    by (cases "checkRateLimit (Date_now e) k la")
  from login_step [OF u p, of e la ok la' rt d] chk k
  obtain r d1 where step: "login rt e u p (la, d) = (r, (la', d1))"
    and r: "if ok then status r = 200 \<or> status r = 401 \<or> status r = 500
            else r = send 429 (error ''Too many login attempts. Please try again later.'')"
    by (cases ok) auto
  from Cons.IH [OF rest, of la' d1]
  obtain rs d2 where
    tl: "login_calls rt calls (la', d1)
           = (rs, (snd (checkRateLimit_calls (map (\<lambda>c. Date_now (fst c)) calls) k la'), d2))"
    and all: "list_all2
                (\<lambda>r ok. if ok then status r = 200 \<or> status r = 401 \<or> status r = 500
                         else r = send 429
                                    (error ''Too many login attempts. Please try again later.''))
                rs (fst (checkRateLimit_calls (map (\<lambda>c. Date_now (fst c)) calls) k la'))"
    by blast
  obtain oks lan where
    cr: "checkRateLimit_calls (map (\<lambda>c. Date_now (fst c)) calls) k la' = (oks, lan)"
    by (cases "checkRateLimit_calls (map (\<lambda>c. Date_now (fst c)) calls) k la'")
  show ?case
    using r all by (simp add: c step tl chk cr)
qed

lemma key_of_primitive: "\<not> structured v \<Longrightarrow> key_of ref v = key_of 0 v"
  by (cases v) simp_all

text \<open>
  When the username is a string, a number or a boolean, every login call with both fields
  present records an attempt for it whatever the outcome, and of six such calls for one
  username, starting on a fresh or expired entry and all inside the window opened by the
  first, the first five are answered by the handler's later steps and the sixth is
  answered 429 with the throttling error, whether or not the five before it succeeded.
\<close>

lemma login_sixth_call_denied:
  assumes "present (Some username)" "\<not> structured username"
    and "present p1" "present p2" "present p3" "present p4" "present p5" "present p6"
    and "la (key_of 0 username) = None
         \<or> (\<exists>a. la (key_of 0 username) = Some a \<and> Date_now e1 - timestamp a > 15 * 60 * 1000)"
    and "Date_now e2 - Date_now e1 \<le> 15 * 60 * 1000"
    and "Date_now e3 - Date_now e1 \<le> 15 * 60 * 1000"
    and "Date_now e4 - Date_now e1 \<le> 15 * 60 * 1000"
    and "Date_now e5 - Date_now e1 \<le> 15 * 60 * 1000"
    and "Date_now e6 - Date_now e1 \<le> 15 * 60 * 1000"
  shows "\<exists>r1 r2 r3 r4 r5 st'.
           login_calls rt
               [(e1, Some username, p1), (e2, Some username, p2), (e3, Some username, p3),
                (e4, Some username, p4), (e5, Some username, p5), (e6, Some username, p6)]
               (la, d)
             = ([r1, r2, r3, r4, r5,
                 send 429 (error ''Too many login attempts. Please try again later.'')], st')
           \<and> list_all (\<lambda>r. status r = 200 \<or> status r = 401 \<or> status r = 500)
                [r1, r2, r3, r4, r5]"
proof -
  let ?calls = "[(e1, Some username, p1), (e2, Some username, p2), (e3, Some username, p3),
                 (e4, Some username, p4), (e5, Some username, p5), (e6, Some username, p6)]"
  let ?k = "key_of 0 username"
  have six: "checkRateLimit_calls
               [Date_now e1, Date_now e2, Date_now e3, Date_now e4, Date_now e5, Date_now e6]
               ?k la
           = ([True, True, True, True, True, False],
              la(?k \<mapsto> \<lparr>count = 5, timestamp = Date_now e1\<rparr>))"
    using assms(9-14) by (intro checkRateLimit_six_calls) simp_all
  have k: "key_of (body_ref e) username = ?k" for e :: env
    using assms(2) by (rule key_of_primitive)
  have "list_all (\<lambda>(e, u, p). present u \<and> present p \<and> key_of (body_ref e) (the u) = ?k) ?calls"
    using assms(1-8) by (simp add: k)
  from login_calls_follow_limiter [OF this, of rt la d]
  obtain rs d' where
    run: "login_calls rt ?calls (la, d)
            = (rs, (snd (checkRateLimit_calls (map (\<lambda>c. Date_now (fst c)) ?calls) ?k la), d'))"
    and all: "list_all2
                (\<lambda>r ok. if ok then status r = 200 \<or> status r = 401 \<or> status r = 500
                         else r = send 429
                                    (error ''Too many login attempts. Please try again later.''))
                rs (fst (checkRateLimit_calls (map (\<lambda>c. Date_now (fst c)) ?calls) ?k la))"
    by blast
  have m: "map (\<lambda>c. Date_now (fst c)) ?calls
             = [Date_now e1, Date_now e2, Date_now e3, Date_now e4, Date_now e5, Date_now e6]"
    by simp
  define answered where
    "answered r \<longleftrightarrow> status r = 200 \<or> status r = 401 \<or> status r = 500" for r :: response
  have "list_all2
          (\<lambda>r ok. if ok then answered r
                   else r = send 429
                              (error ''Too many login attempts. Please try again later.''))
          rs [True, True, True, True, True, False]"
    using all unfolding m six answered_def by simp
  then obtain r1 r2 r3 r4 r5 where
    rs: "rs = [r1, r2, r3, r4, r5,
               send 429 (error ''Too many login attempts. Please try again later.'')]"
    and ok: "list_all answered [r1, r2, r3, r4, r5]"
    by (auto simp: list_all2_Cons2)
  from ok have "list_all (\<lambda>r. status r = 200 \<or> status r = 401 \<or> status r = 500)
                  [r1, r2, r3, r4, r5]"
    unfolding answered_def by simp
  with run rs show ?thesis
    by blast
qed

text \<open>
  Claim C9. The handler never checks that \<open>username\<close> is a string. An array passes the
  missing-fields check, being truthy, and becomes the key of the limiter's map; a map
  compares objects by identity, and the array of each request is a new object. So every
  such request finds no entry and is allowed: of any number of login calls whose username
  is an array and whose password is present, none is answered 429, however close in time
  they are and whatever their outcome.
\<close>

theorem C9_login_array_username_never_throttled:
  assumes "\<forall>c \<in> set calls. \<exists>xs. fst (snd c) = Some (JArr xs)"
    and "\<forall>c \<in> set calls. present (snd (snd c))"
    and "distinct (map (\<lambda>c. body_ref (fst c)) calls)"
    and "\<forall>c \<in> set calls. la (KRef (body_ref (fst c))) = None"
  shows "429 \<notin> set (map status (fst (login_calls rt calls (la, d))))"
  using assms
proof (induction calls arbitrary: la d)
  case Nil
  then show ?case by simp
next
  case (Cons c calls)
  obtain e u p where c: "c = (e, u, p)" by (cases c)
  from Cons.prems(1) c obtain xs where u: "u = Some (JArr xs)" by auto
  from Cons.prems(2) c have p: "present p" by simp
  have pu: "present u" by (simp add: u present_def)
  from Cons.prems(4) c have fresh: "la (KRef (body_ref e)) = None" by simp
  have chk: "checkRateLimit (Date_now e) (key_of (body_ref e) (the u)) la
               = (True, la(KRef (body_ref e) \<mapsto> \<lparr>count = 1, timestamp = Date_now e\<rparr>))"
    using fresh by (simp add: u checkRateLimit_fresh)
  from login_step [OF pu p chk, of rt d]
  obtain r d1 where
    step: "login rt e u p (la, d)
             = (r, (la(KRef (body_ref e) \<mapsto> \<lparr>count = 1, timestamp = Date_now e\<rparr>), d1))"
    and r: "status r = 200 \<or> status r = 401 \<or> status r = 500"
    by auto
  have rest: "\<forall>c \<in> set calls.
                (la(KRef (body_ref e) \<mapsto> \<lparr>count = 1, timestamp = Date_now e\<rparr>))
                  (KRef (body_ref (fst c))) = None"
  proof
    fix c'
    assume c': "c' \<in> set calls"
    then have "body_ref (fst c') \<in> (\<lambda>c. body_ref (fst c)) ` set calls"
      by (rule imageI)
    moreover have "body_ref e \<notin> (\<lambda>c. body_ref (fst c)) ` set calls"
      using Cons.prems(3) c by simp
    ultimately have "body_ref (fst c') \<noteq> body_ref e" by metis
    then show "(la(KRef (body_ref e) \<mapsto> \<lparr>count = 1, timestamp = Date_now e\<rparr>))
                 (KRef (body_ref (fst c'))) = None"
      using Cons.prems(4) c' by simp
  qed
  have "429 \<notin> set (map status
          (fst (login_calls rt calls
                  (la(KRef (body_ref e) \<mapsto> \<lparr>count = 1, timestamp = Date_now e\<rparr>), d1))))"
    using Cons.prems(1,2,3) rest by (intro Cons.IH) simp_all
  then show ?case
    using r by (auto simp: c step split: prod.splits)
qed

theorem C9_login_array_username_never_throttled_witness:
  "\<forall>rt. 429 \<notin> set (map status (fst (login_calls rt
      [(login_env 0, Some (JArr [JStr ''Alice'']), Some (JStr ''Valid123'')),
       (login_env 1, Some (JArr [JStr ''Alice'']), Some (JStr ''Valid123'')),
       (login_env 2, Some (JArr [JStr ''Alice'']), Some (JStr ''Valid123'')),
       (login_env 3, Some (JArr [JStr ''Alice'']), Some (JStr ''Valid123'')),
       (login_env 4, Some (JArr [JStr ''Alice'']), Some (JStr ''Valid123'')),
       (login_env 5, Some (JArr [JStr ''Alice'']), Some (JStr ''Valid123''))]
      (Map.empty, alice_db))))"
proof
  fix rt
  have refs: "body_ref (login_env 0) = 0" "body_ref (login_env 1) = 1"
    "body_ref (login_env 2) = 2" "body_ref (login_env 3) = 3"
    "body_ref (login_env 4) = 4" "body_ref (login_env 5) = 5"
    by (simp_all add: login_env_def sample_env_def)
  show "429 \<notin> set (map status (fst (login_calls rt
      [(login_env 0, Some (JArr [JStr ''Alice'']), Some (JStr ''Valid123'')),
       (login_env 1, Some (JArr [JStr ''Alice'']), Some (JStr ''Valid123'')),
       (login_env 2, Some (JArr [JStr ''Alice'']), Some (JStr ''Valid123'')),
       (login_env 3, Some (JArr [JStr ''Alice'']), Some (JStr ''Valid123'')),
       (login_env 4, Some (JArr [JStr ''Alice'']), Some (JStr ''Valid123'')),
       (login_env 5, Some (JArr [JStr ''Alice'']), Some (JStr ''Valid123''))]
      (Map.empty, alice_db))))"
    by (rule C9_login_array_username_never_throttled) (simp_all add: refs present_def)
qed

section \<open>Properties of signup\<close>

lemma match_here_One:
  "match_here b (One P # r) s \<longleftrightarrow> (\<exists>c v. s = c # v \<and> P c \<and> match_here b r v)"
  by (cases s) auto

lemma match_here_Many1:
  "match_here b (Many1 P # r) s \<longleftrightarrow>
     (\<exists>u v. s = u @ v \<and> u \<noteq> [] \<and> list_all P u \<and> match_here b r v)"
proof (induction s)
  case Nil
  then show ?case by simp
next
  case (Cons c cs)
  show ?case
  proof
    assume "match_here b (Many1 P # r) (c # cs)"
    then have c: "P c" and alt: "match_here b (Many1 P # r) cs \<or> match_here b r cs"
      by simp_all
    from alt show "\<exists>u v. c # cs = u @ v \<and> u \<noteq> [] \<and> list_all P u \<and> match_here b r v"
    proof
      assume "match_here b (Many1 P # r) cs"
      then obtain u v where "cs = u @ v" "list_all P u" "match_here b r v"
        using Cons.IH by blast
      then have "c # cs = (c # u) @ v \<and> c # u \<noteq> [] \<and> list_all P (c # u) \<and> match_here b r v"
        using c by simp
      then show ?thesis by blast
    next
      assume "match_here b r cs"
      then have "c # cs = [c] @ cs \<and> [c] \<noteq> [] \<and> list_all P [c] \<and> match_here b r cs"
        using c by simp
      then show ?thesis by blast
    qed
  next
    assume "\<exists>u v. c # cs = u @ v \<and> u \<noteq> [] \<and> list_all P u \<and> match_here b r v"
    then obtain u v where uv: "c # cs = u @ v" "u \<noteq> []" "list_all P u" "match_here b r v"
      by blast
    then obtain u' where u: "u = c # u'" by (cases u) auto
    with uv have cs: "cs = u' @ v" and pc: "P c" and pu: "list_all P u'" by simp_all
    show "match_here b (Many1 P # r) (c # cs)"
    proof (cases "u' = []")
      case True
      then show ?thesis using cs pc uv(4) by simp
    next
      case False
      then have "match_here b (Many1 P # r) cs"
        using Cons.IH cs pu uv(4) by blast
      then show ?thesis using pc by simp
    qed
  qed
qed

lemma test_anchored_class_plus:
  "test_anchored [Many1 P] s \<longleftrightarrow> s \<noteq> [] \<and> list_all P s"
  by (auto simp: test_anchored_def match_here_Many1)

lemma test_search_class:
  "test_search [One P] s \<longleftrightarrow> (\<exists>c\<in>set s. P c)"
  by (induction s) auto

lemma test_anchored_emailRegex:
  "test_anchored emailRegex s \<longleftrightarrow> email_shape s"
  unfolding test_anchored_def emailRegex_def match_here_Many1 match_here_One email_shape_def
  by (simp add: match_here.simps) blast

lemma test_anchored_usernameRegex:
  "test_anchored usernameRegex s \<longleftrightarrow> username_charset s"
  by (simp add: usernameRegex_def test_anchored_class_plus username_charset_def)

lemma test_search_letters:
  "(\<not> test_search lowerRegex s \<or> \<not> test_search upperRegex s) \<longleftrightarrow> \<not> has_lower_and_upper s"
  by (simp add: lowerRegex_def upperRegex_def test_search_class has_lower_and_upper_def
        list_ex_set)

lemma test_search_digitRegex:
  "test_search digitRegex s \<longleftrightarrow> has_digit s"
  by (simp add: digitRegex_def test_search_class has_digit_def list_ex_set)

lemma select_user_by_username_taken:
  "select_user_by_username username d \<noteq> None \<longleftrightarrow> username_taken username d"
  by (auto simp: select_user_by_username_def username_taken_def find_None_iff list_ex_set)

lemma select_user_by_email_taken:
  "select_user_by_email email d \<noteq> None \<longleftrightarrow> email_taken email d"
  by (auto simp: select_user_by_email_def email_taken_def find_None_iff list_ex_set)

lemma reject_if_Some: "reject_if (Some b) thrown rejected continue = (if b then rejected else continue)"
  by (simp add: reject_if_def)

lemma test_search_both:
  "(test_search lowerRegex s \<and> test_search upperRegex s) \<longleftrightarrow> has_lower_and_upper s"
  using test_search_letters [of s] by blast

lemma not_both_Some: "not_both (Some a) (Some b) = Some (\<not> (a \<and> b))"
  by (simp add: not_both_def)

lemma test_raw_JStr: "test_raw rt re (JStr s) = Some (re s)"
  by (simp add: test_raw_def)

lemma test_raw_JNum: "test_raw rt re (JNum n) = Some (re (number_text rt n))"
  by (simp add: test_raw_def)

lemma length_less_JStr: "length_less rt (JStr s) n = Some (int (length s) < n)"
  by (simp add: length_less_def)

lemma length_less_JNum: "length_less rt (JNum k) n = Some False"
  by (simp add: length_less_def)

text \<open>On string fields no step throws, the tests are the rules of the specification,
  and the statements bind the strings themselves.\<close>

lemma signup_store_on_strings:
  "signup_store rt e (JStr username) (JStr password) (JStr name) (JStr email) d =
     (if username_taken username d
      then (send 409 (error ''Username already exists''), d)
      else if email_taken email d
      then (send 409 (error ''Email already registered''), d)
      else
        (case insert_user
                \<lparr>u_id = generateUUID e, u_username = username,
                 u_password_hash = bcrypt_hash e password,
                 u_name = name, u_email = email, u_auth_token = Some (generateToken e),
                 u_token_expiry = Some (expiry_iso e), u_last_login = None,
                 u_created_at = CURRENT_TIMESTAMP e, u_updated_at = CURRENT_TIMESTAMP e\<rparr> d of
           Inl err \<Rightarrow> (send 500 (error ''Signup failed''), d)
         | Inr d' \<Rightarrow>
             (send 201
                (obj [(''user'', Some (userResponse (JStr (generateUUID e)) (JStr username)
                                         (JStr name) (JStr email))),
                      (''token'', Some (JStr (generateToken e))),
                      (''expiresIn'', Some (JNum expiresIn))]), d')))"
  unfolding select_user_by_username_taken [symmetric] select_user_by_email_taken [symmetric]
  by (simp add: signup_store_def sql_param_def Let_def split: option.splits)

lemma signup_present_on_strings:
  "signup_present rt e (JStr username) (JStr password) (JStr name) (JStr email) d =
     (if \<not> email_shape email
      then (send 400 (error ''Invalid email format''), d)
      else if length username < 3
      then (send 400 (error ''Username must be at least 3 characters''), d)
      else if \<not> username_charset username
      then (send 400 (error
        ''Username can only contain letters, numbers, underscores, and hyphens''), d)
      else if length password < 8
      then (send 400 (error ''Password must be at least 8 characters''), d)
      else if \<not> has_lower_and_upper password
      then (send 400 (error ''Password must contain uppercase and lowercase letters''), d)
      else if \<not> has_digit password
      then (send 400 (error ''Password must contain at least one number''), d)
      else signup_store rt e (JStr username) (JStr password) (JStr name) (JStr email) d)"
  unfolding signup_present_def test_raw_def length_less_def not_both_def
    test_anchored_emailRegex test_anchored_usernameRegex test_search_letters [symmetric]
    test_search_digitRegex
  by (simp add: reject_if_Some)

lemma present_JStr: "present (map_option JStr x) = given x"
  by (cases x) (simp_all add: present_def given_def)

lemma the_JStr: "given x \<Longrightarrow> the (map_option JStr x) = JStr (val x)"
  by (cases x) (simp_all add: given_def)

lemma signup_by_rules:
  "signup rt e (map_option JStr username) (map_option JStr password) (map_option JStr name)
     (map_option JStr email) d =
     (if \<not> fields_present username password name email
      then (send 400 (error ''Missing required fields''), d)
      else if \<not> email_shape (val email)
      then (send 400 (error ''Invalid email format''), d)
      else if length (val username) < 3
      then (send 400 (error ''Username must be at least 3 characters''), d)
      else if \<not> username_charset (val username)
      then (send 400 (error
        ''Username can only contain letters, numbers, underscores, and hyphens''), d)
      else if length (val password) < 8
      then (send 400 (error ''Password must be at least 8 characters''), d)
      else if \<not> has_lower_and_upper (val password)
      then (send 400 (error ''Password must contain uppercase and lowercase letters''), d)
      else if \<not> has_digit (val password)
      then (send 400 (error ''Password must contain at least one number''), d)
      else if username_taken (val username) d
      then (send 409 (error ''Username already exists''), d)
      else if email_taken (val email) d
      then (send 409 (error ''Email already registered''), d)
      else
        (case insert_user
                \<lparr>u_id = generateUUID e, u_username = val username,
                 u_password_hash = bcrypt_hash e (val password),
                 u_name = val name, u_email = val email, u_auth_token = Some (generateToken e),
                 u_token_expiry = Some (expiry_iso e), u_last_login = None,
                 u_created_at = CURRENT_TIMESTAMP e, u_updated_at = CURRENT_TIMESTAMP e\<rparr> d of
           Inl err \<Rightarrow> (send 500 (error ''Signup failed''), d)
         | Inr d' \<Rightarrow>
             (send 201
                (obj [(''user'', Some (userResponse (JStr (generateUUID e)) (JStr (val username))
                                         (JStr (val name)) (JStr (val email)))),
                      (''token'', Some (JStr (generateToken e))),
                      (''expiresIn'', Some (JNum expiresIn))]), d')))"
proof (cases "fields_present username password name email")
  case False
  then show ?thesis
    by (auto simp: signup_def present_JStr fields_present_def)
next
  case True
  then have g: "given username" "given password" "given name" "given email"
    by (simp_all add: fields_present_def)
  have "signup rt e (map_option JStr username) (map_option JStr password) (map_option JStr name)
          (map_option JStr email) d
        = signup_present rt e (JStr (val username)) (JStr (val password)) (JStr (val name))
            (JStr (val email)) d"
    using g by (simp add: signup_def present_JStr the_JStr)
  then show ?thesis
    using True by (simp add: signup_present_on_strings signup_store_on_strings)
qed

text \<open>
  With string fields, signup validates fail-fast in the order of the specification, the
  first violated rule giving the error and leaving the store untouched: all four fields
  present; email shape; username of at least 3 characters; username over
  \<^verbatim>\<open>[A-Za-z0-9_-]\<close>; password of at least 8 characters; password with a lowercase and an
  uppercase letter; password with a digit. Only after all seven are the duplicate checks
  made, username before email, both without regard to case. The passwords \<open>short1A\<close>,
  \<open>alllowercase1\<close> and \<open>NoDigitsHere\<close> are rejected by the rule they break, and \<open>Valid123\<close>
  passes the three password rules and signs up on the fresh database. A field that is
  sent as the empty string counts as missing.
\<close>

lemma signup_validation_order_on_strings:
  "(\<not> fields_present username password name email \<longrightarrow>
      signup rt e (map_option JStr username) (map_option JStr password)
          (map_option JStr name) (map_option JStr email) d
        = (send 400 (error ''Missing required fields''), d))
   \<and> (fields_present username password name email \<and> \<not> email_shape (val email) \<longrightarrow>
      signup rt e (map_option JStr username) (map_option JStr password)
          (map_option JStr name) (map_option JStr email) d
        = (send 400 (error ''Invalid email format''), d))
   \<and> (fields_present username password name email \<and> email_shape (val email)
      \<and> length (val username) < 3 \<longrightarrow>
      signup rt e (map_option JStr username) (map_option JStr password)
          (map_option JStr name) (map_option JStr email) d
        = (send 400 (error ''Username must be at least 3 characters''), d))
   \<and> (fields_present username password name email \<and> email_shape (val email)
      \<and> 3 \<le> length (val username) \<and> \<not> username_charset (val username) \<longrightarrow>
      signup rt e (map_option JStr username) (map_option JStr password)
          (map_option JStr name) (map_option JStr email) d
        = (send 400 (error
             ''Username can only contain letters, numbers, underscores, and hyphens''), d))
   \<and> (fields_present username password name email \<and> email_shape (val email)
      \<and> 3 \<le> length (val username) \<and> username_charset (val username)
      \<and> length (val password) < 8 \<longrightarrow>
      signup rt e (map_option JStr username) (map_option JStr password)
          (map_option JStr name) (map_option JStr email) d
        = (send 400 (error ''Password must be at least 8 characters''), d))
   \<and> (fields_present username password name email \<and> email_shape (val email)
      \<and> 3 \<le> length (val username) \<and> username_charset (val username)
      \<and> 8 \<le> length (val password) \<and> \<not> has_lower_and_upper (val password) \<longrightarrow>
      signup rt e (map_option JStr username) (map_option JStr password)
          (map_option JStr name) (map_option JStr email) d
        = (send 400 (error ''Password must contain uppercase and lowercase letters''), d))
   \<and> (fields_present username password name email \<and> email_shape (val email)
      \<and> 3 \<le> length (val username) \<and> username_charset (val username)
      \<and> 8 \<le> length (val password) \<and> has_lower_and_upper (val password)
      \<and> \<not> has_digit (val password) \<longrightarrow>
      signup rt e (map_option JStr username) (map_option JStr password)
          (map_option JStr name) (map_option JStr email) d
        = (send 400 (error ''Password must contain at least one number''), d))
   \<and> (fields_present username password name email \<and> email_shape (val email)
      \<and> 3 \<le> length (val username) \<and> username_charset (val username)
      \<and> 8 \<le> length (val password) \<and> has_lower_and_upper (val password)
      \<and> has_digit (val password) \<longrightarrow>
      (username_taken (val username) d \<longrightarrow>
         signup rt e (map_option JStr username) (map_option JStr password)
          (map_option JStr name) (map_option JStr email) d
           = (send 409 (error ''Username already exists''), d))
      \<and> (\<not> username_taken (val username) d \<and> email_taken (val email) d \<longrightarrow>
         signup rt e (map_option JStr username) (map_option JStr password)
          (map_option JStr name) (map_option JStr email) d
           = (send 409 (error ''Email already registered''), d))
      \<and> (\<not> username_taken (val username) d \<and> \<not> email_taken (val email) d \<longrightarrow>
         status (fst (signup rt e (map_option JStr username) (map_option JStr password)
          (map_option JStr name) (map_option JStr email) d)) = 201
         \<or> signup rt e (map_option JStr username) (map_option JStr password)
          (map_option JStr name) (map_option JStr email) d = (send 500 (error ''Signup failed''), d)))
   \<and> signup rt e (Some (JStr ''alice'')) (Some (JStr ''short1A'')) (Some (JStr ''Alice'')) (Some (JStr ''alice@example.org'')) d
       = (send 400 (error ''Password must be at least 8 characters''), d)
   \<and> signup rt e (Some (JStr ''alice'')) (Some (JStr ''alllowercase1'')) (Some (JStr ''Alice''))
         (Some (JStr ''alice@example.org'')) d
       = (send 400 (error ''Password must contain uppercase and lowercase letters''), d)
   \<and> signup rt e (Some (JStr ''alice'')) (Some (JStr ''NoDigitsHere'')) (Some (JStr ''Alice''))
         (Some (JStr ''alice@example.org'')) d
       = (send 400 (error ''Password must contain at least one number''), d)
   \<and> 8 \<le> length ''Valid123'' \<and> has_lower_and_upper ''Valid123'' \<and> has_digit ''Valid123''
   \<and> status (fst (signup rt e (Some (JStr ''alice'')) (Some (JStr ''Valid123'')) (Some (JStr ''Alice''))
                      (Some (JStr ''alice@example.org'')) db)) = 201"
proof -
  have fp: "fields_present (Some ''alice'') (Some p) (Some ''Alice'') (Some ''alice@example.org'')
              \<longleftrightarrow> p \<noteq> []" for p
    by (simp add: fields_present_def given_def)
  have em: "email_shape ''alice@example.org''"
    unfolding test_anchored_emailRegex [symmetric] by code_simp
  have un: "username_charset ''alice''" by code_simp
  have p1: "\<not> has_lower_and_upper ''alllowercase1''" by code_simp
  have p2: "has_lower_and_upper ''NoDigitsHere''" "\<not> has_digit ''NoDigitsHere''" by code_simp+
  have p3: "has_lower_and_upper ''Valid123''" "has_digit ''Valid123''" by code_simp+
  have fresh: "\<not> username_taken ''alice'' db" "\<not> email_taken ''alice@example.org'' db"
    by code_simp+
  have udb: "users db = []" by (simp add: db_def)
  have ins: "status (fst (signup rt e (Some (JStr ''alice'')) (Some (JStr ''Valid123'')) (Some (JStr ''Alice''))
                      (Some (JStr ''alice@example.org'')) db)) = 201"
    using signup_by_rules [of rt e "Some ''alice''" "Some ''Valid123''" "Some ''Alice''"
            "Some ''alice@example.org''" db]
    by (simp add: fp em un p3 fresh insert_user_def udb send_def)
  note rules = signup_by_rules [of rt e username password name email d]
  show ?thesis
  proof (intro conjI)
    show "\<not> fields_present username password name email \<longrightarrow>
      signup rt e (map_option JStr username) (map_option JStr password)
          (map_option JStr name) (map_option JStr email) d
        = (send 400 (error ''Missing required fields''), d)"
      by (simp add: rules)
    show "fields_present username password name email \<and> \<not> email_shape (val email) \<longrightarrow>
      signup rt e (map_option JStr username) (map_option JStr password)
          (map_option JStr name) (map_option JStr email) d
        = (send 400 (error ''Invalid email format''), d)"
      by (simp add: rules)
    show "fields_present username password name email \<and> email_shape (val email)
      \<and> length (val username) < 3 \<longrightarrow>
      signup rt e (map_option JStr username) (map_option JStr password)
          (map_option JStr name) (map_option JStr email) d
        = (send 400 (error ''Username must be at least 3 characters''), d)"
      by (simp add: rules)
    show "fields_present username password name email \<and> email_shape (val email)
      \<and> 3 \<le> length (val username) \<and> \<not> username_charset (val username) \<longrightarrow>
      signup rt e (map_option JStr username) (map_option JStr password)
          (map_option JStr name) (map_option JStr email) d
        = (send 400 (error
             ''Username can only contain letters, numbers, underscores, and hyphens''), d)"
      by (simp add: rules)
    show "fields_present username password name email \<and> email_shape (val email)
      \<and> 3 \<le> length (val username) \<and> username_charset (val username)
      \<and> length (val password) < 8 \<longrightarrow>
      signup rt e (map_option JStr username) (map_option JStr password)
          (map_option JStr name) (map_option JStr email) d
        = (send 400 (error ''Password must be at least 8 characters''), d)"
      by (simp add: rules)
    show "fields_present username password name email \<and> email_shape (val email)
      \<and> 3 \<le> length (val username) \<and> username_charset (val username)
      \<and> 8 \<le> length (val password) \<and> \<not> has_lower_and_upper (val password) \<longrightarrow>
      signup rt e (map_option JStr username) (map_option JStr password)
          (map_option JStr name) (map_option JStr email) d
        = (send 400 (error ''Password must contain uppercase and lowercase letters''), d)"
      by (simp add: rules)
    show "fields_present username password name email \<and> email_shape (val email)
      \<and> 3 \<le> length (val username) \<and> username_charset (val username)
      \<and> 8 \<le> length (val password) \<and> has_lower_and_upper (val password)
      \<and> \<not> has_digit (val password) \<longrightarrow>
      signup rt e (map_option JStr username) (map_option JStr password)
          (map_option JStr name) (map_option JStr email) d
        = (send 400 (error ''Password must contain at least one number''), d)"
      by (simp add: rules)
    show "fields_present username password name email \<and> email_shape (val email)
      \<and> 3 \<le> length (val username) \<and> username_charset (val username)
      \<and> 8 \<le> length (val password) \<and> has_lower_and_upper (val password)
      \<and> has_digit (val password) \<longrightarrow>
      (username_taken (val username) d \<longrightarrow>
         signup rt e (map_option JStr username) (map_option JStr password)
          (map_option JStr name) (map_option JStr email) d
           = (send 409 (error ''Username already exists''), d))
      \<and> (\<not> username_taken (val username) d \<and> email_taken (val email) d \<longrightarrow>
         signup rt e (map_option JStr username) (map_option JStr password)
          (map_option JStr name) (map_option JStr email) d
           = (send 409 (error ''Email already registered''), d))
      \<and> (\<not> username_taken (val username) d \<and> \<not> email_taken (val email) d \<longrightarrow>
         status (fst (signup rt e (map_option JStr username) (map_option JStr password)
          (map_option JStr name) (map_option JStr email) d)) = 201
         \<or> signup rt e (map_option JStr username) (map_option JStr password)
          (map_option JStr name) (map_option JStr email) d = (send 500 (error ''Signup failed''), d))"
      by (simp add: rules insert_user_def send_def)
    show "signup rt e (Some (JStr ''alice'')) (Some (JStr ''short1A'')) (Some (JStr ''Alice''))
            (Some (JStr ''alice@example.org'')) d
       = (send 400 (error ''Password must be at least 8 characters''), d)"
      using signup_by_rules [of rt e "Some ''alice''" "Some ''short1A''" "Some ''Alice''"
              "Some ''alice@example.org''" d]
      by (simp add: fp em un)
    show "signup rt e (Some (JStr ''alice'')) (Some (JStr ''alllowercase1'')) (Some (JStr ''Alice''))
         (Some (JStr ''alice@example.org'')) d
       = (send 400 (error ''Password must contain uppercase and lowercase letters''), d)"
      using signup_by_rules [of rt e "Some ''alice''" "Some ''alllowercase1''" "Some ''Alice''"
              "Some ''alice@example.org''" d]
      by (simp add: fp em un p1)
    show "signup rt e (Some (JStr ''alice'')) (Some (JStr ''NoDigitsHere'')) (Some (JStr ''Alice''))
         (Some (JStr ''alice@example.org'')) d
       = (send 400 (error ''Password must contain at least one number''), d)"
      using signup_by_rules [of rt e "Some ''alice''" "Some ''NoDigitsHere''" "Some ''Alice''"
              "Some ''alice@example.org''" d]
      by (simp add: fp em un p2)
    show "8 \<le> length ''Valid123''" by simp
    show "has_lower_and_upper ''Valid123''" by (rule p3)
    show "has_digit ''Valid123''" by (rule p3)
    show "status (fst (signup rt e (Some (JStr ''alice'')) (Some (JStr ''Valid123'')) (Some (JStr ''Alice''))
                      (Some (JStr ''alice@example.org'')) db)) = 201"
      by (rule ins)
  qed
qed


text \<open>
  Claim C4. The handler never checks that the fields are strings, and the two length
  rules read \<^verbatim>\<open>.length\<close>, which a number does not have: \<^verbatim>\<open>undefined < 3\<close> is false, so the
  rule is passed over, while the pattern tests convert the number to its digits. With a
  valid name and email:
  \<^item> for the username \<open>7\<close> and a password shorter than 8 characters the answer is the
    error of the password's length, though the username has one character where the
    specification has the rule of three characters decide first;
  \<^item> for a valid username and the password \<open>1234\<close> the answer is the error of the missing
    letters, though the password has four characters where the rule of eight characters
    comes first;
  \<^item> for the username \<open>7\<close> and a valid password, when the driver binds the number 7 into
    the \<^verbatim>\<open>TEXT\<close> column as \<open>7\<close> and neither that username nor the email nor the new
    identifier is stored yet, the answer is 201 and a user with the one-character
    username \<open>7\<close> is stored.
\<close>

theorem C4_signup_untyped_fields_skip_length_rules:
  assumes "name \<noteq> []" and "email_shape email"
  shows
  "(password \<noteq> [] \<and> length password < 8 \<longrightarrow>
      signup rt e (Some (JNum 7)) (Some (JStr password)) (Some (JStr name)) (Some (JStr email)) d
        = (\<lparr>status = 400,
            body = JObj [(''error'', JStr ''Password must be at least 8 characters'')]\<rparr>, d))
   \<and> (3 \<le> length username \<and> username_charset username \<longrightarrow>
      signup rt e (Some (JStr username)) (Some (JNum 1234)) (Some (JStr name))
          (Some (JStr email)) d
        = (\<lparr>status = 400,
            body = JObj [(''error'',
                          JStr ''Password must contain uppercase and lowercase letters'')]\<rparr>,
           d))
   \<and> (8 \<le> length password \<and> has_lower_and_upper password \<and> has_digit password
      \<and> sqlite_bind rt (JNum 7) = Inr (Some ''7'')
      \<and> \<not> username_taken ''7'' d \<and> \<not> email_taken email d
      \<and> generateUUID e \<notin> set (map u_id (users d)) \<longrightarrow>
      signup rt e (Some (JNum 7)) (Some (JStr password)) (Some (JStr name)) (Some (JStr email)) d
        = (\<lparr>status = 201,
            body = JObj [(''user'', JObj [(''id'', JStr (generateUUID e)),
                                          (''username'', JNum 7), (''name'', JStr name),
                                          (''email'', JStr email)]),
                         (''token'', JStr (generateToken e)),
                         (''expiresIn'', JNum 2592000000)]\<rparr>,
           d\<lparr>users := users d @
                [\<lparr>u_id = generateUUID e, u_username = ''7'',
                  u_password_hash = bcrypt_hash e password, u_name = name, u_email = email,
                  u_auth_token = Some (generateToken e),
                  u_token_expiry = Some (expiry_iso e), u_last_login = None,
                  u_created_at = CURRENT_TIMESTAMP e,
                  u_updated_at = CURRENT_TIMESTAMP e\<rparr>]\<rparr>))"
proof -
  have seven: "number_text rt 7 = ''7''"
    unfolding number_text_def by code_simp
  have digits: "number_text rt 1234 = ''1234''"
    unfolding number_text_def by code_simp
  have charset: "username_charset ''7''" by code_simp
  have "\<not> (test_search lowerRegex ''1234'' \<and> test_search upperRegex ''1234'')"
    by code_simp
  then have letters:
    "not_both (test_raw rt (test_search lowerRegex) (JNum 1234))
              (test_raw rt (test_search upperRegex) (JNum 1234)) = Some True"
    by (simp add: test_raw_JNum digits not_both_Some del: test_search.simps)
  have nonempty: "email \<noteq> []"
    using assms(2) by (auto simp: email_shape_def)
  have validated7:
    "signup rt e (Some (JNum 7)) (Some (JStr password)) (Some (JStr name)) (Some (JStr email)) d
       = (if length password < 8
          then (send 400 (error ''Password must be at least 8 characters''), d)
          else if \<not> has_lower_and_upper password
          then (send 400 (error ''Password must contain uppercase and lowercase letters''), d)
          else if \<not> has_digit password
          then (send 400 (error ''Password must contain at least one number''), d)
          else signup_store rt e (JNum 7) (JStr password) (JStr name) (JStr email) d)"
    if "password \<noteq> []"
  proof -
    have "signup rt e (Some (JNum 7)) (Some (JStr password)) (Some (JStr name))
            (Some (JStr email)) d
          = signup_present rt e (JNum 7) (JStr password) (JStr name) (JStr email) d"
      using that assms(1) nonempty by (simp add: signup_def present_def)
    then show ?thesis
      using assms(2) charset
      by (simp add: signup_present_def test_raw_JStr test_raw_JNum length_less_JStr
                    length_less_JNum not_both_Some reject_if_Some seven
                    test_anchored_emailRegex test_anchored_usernameRegex test_search_both
                    test_search_digitRegex)
  qed
  have 1: "password \<noteq> [] \<and> length password < 8 \<longrightarrow>
      signup rt e (Some (JNum 7)) (Some (JStr password)) (Some (JStr name)) (Some (JStr email)) d
        = (\<lparr>status = 400,
            body = JObj [(''error'', JStr ''Password must be at least 8 characters'')]\<rparr>, d)"
    by (simp add: validated7 send_def error_def obj_def)
  have 2: "3 \<le> length username \<and> username_charset username \<longrightarrow>
      signup rt e (Some (JStr username)) (Some (JNum 1234)) (Some (JStr name))
          (Some (JStr email)) d
        = (\<lparr>status = 400,
            body = JObj [(''error'',
                          JStr ''Password must contain uppercase and lowercase letters'')]\<rparr>,
           d)"
  proof
    assume u: "3 \<le> length username \<and> username_charset username"
    then have "username \<noteq> []" by auto
    then have "signup rt e (Some (JStr username)) (Some (JNum 1234)) (Some (JStr name))
                 (Some (JStr email)) d
               = signup_present rt e (JStr username) (JNum 1234) (JStr name) (JStr email) d"
      using assms(1) nonempty by (simp add: signup_def present_def)
    then show "signup rt e (Some (JStr username)) (Some (JNum 1234)) (Some (JStr name))
          (Some (JStr email)) d
        = (\<lparr>status = 400,
            body = JObj [(''error'',
                          JStr ''Password must contain uppercase and lowercase letters'')]\<rparr>,
           d)"
      using u assms(2)
      by (simp add: signup_present_def test_raw_JStr length_less_JStr length_less_JNum
                    letters reject_if_Some test_anchored_emailRegex
                    test_anchored_usernameRegex send_def error_def obj_def)
  qed
  have 3: "8 \<le> length password \<and> has_lower_and_upper password \<and> has_digit password
      \<and> sqlite_bind rt (JNum 7) = Inr (Some ''7'')
      \<and> \<not> username_taken ''7'' d \<and> \<not> email_taken email d
      \<and> generateUUID e \<notin> set (map u_id (users d)) \<longrightarrow>
      signup rt e (Some (JNum 7)) (Some (JStr password)) (Some (JStr name)) (Some (JStr email)) d
        = (\<lparr>status = 201,
            body = JObj [(''user'', JObj [(''id'', JStr (generateUUID e)),
                                          (''username'', JNum 7), (''name'', JStr name),
                                          (''email'', JStr email)]),
                         (''token'', JStr (generateToken e)),
                         (''expiresIn'', JNum 2592000000)]\<rparr>,
           d\<lparr>users := users d @
                [\<lparr>u_id = generateUUID e, u_username = ''7'',
                  u_password_hash = bcrypt_hash e password, u_name = name, u_email = email,
                  u_auth_token = Some (generateToken e),
                  u_token_expiry = Some (expiry_iso e), u_last_login = None,
                  u_created_at = CURRENT_TIMESTAMP e,
                  u_updated_at = CURRENT_TIMESTAMP e\<rparr>]\<rparr>)"
  proof
    assume h: "8 \<le> length password \<and> has_lower_and_upper password \<and> has_digit password
      \<and> sqlite_bind rt (JNum 7) = Inr (Some ''7'')
      \<and> \<not> username_taken ''7'' d \<and> \<not> email_taken email d
      \<and> generateUUID e \<notin> set (map u_id (users d))"
    then have pw: "password \<noteq> []" by auto
    have bind: "sqlite_bind rt (JNum 7) = Inr (Some ''7'')"
      using h by simp
    have free: "select_user_by_username ''7'' d = None" "select_user_by_email email d = None"
      using h select_user_by_username_taken [of "''7''" d] select_user_by_email_taken [of email d]
      by simp_all
    have "\<not> list_ex (\<lambda>u. u_id u = generateUUID e \<or> u_username u = ''7''
                       \<or> u_email u = email) (users d)"
      using h by (force simp: list_ex_set username_taken_def email_taken_def image_iff)
    with nonempty have "signup_store rt e (JNum 7) (JStr password) (JStr name) (JStr email) d
        = (\<lparr>status = 201,
            body = JObj [(''user'', JObj [(''id'', JStr (generateUUID e)),
                                          (''username'', JNum 7), (''name'', JStr name),
                                          (''email'', JStr email)]),
                         (''token'', JStr (generateToken e)),
                         (''expiresIn'', JNum 2592000000)]\<rparr>,
           d\<lparr>users := users d @
                [\<lparr>u_id = generateUUID e, u_username = ''7'',
                  u_password_hash = bcrypt_hash e password, u_name = name, u_email = email,
                  u_auth_token = Some (generateToken e),
                  u_token_expiry = Some (expiry_iso e), u_last_login = None,
                  u_created_at = CURRENT_TIMESTAMP e,
                  u_updated_at = CURRENT_TIMESTAMP e\<rparr>]\<rparr>)"
      using assms(1)
      by (simp add: signup_store_def bind free sql_param_def insert_user_def Let_def
                    send_def obj_def userResponse_def or_undefined_def expiresIn_def)
    then show "signup rt e (Some (JNum 7)) (Some (JStr password)) (Some (JStr name))
                 (Some (JStr email)) d
        = (\<lparr>status = 201,
            body = JObj [(''user'', JObj [(''id'', JStr (generateUUID e)),
                                          (''username'', JNum 7), (''name'', JStr name),
                                          (''email'', JStr email)]),
                         (''token'', JStr (generateToken e)),
                         (''expiresIn'', JNum 2592000000)]\<rparr>,
           d\<lparr>users := users d @
                [\<lparr>u_id = generateUUID e, u_username = ''7'',
                  u_password_hash = bcrypt_hash e password, u_name = name, u_email = email,
                  u_auth_token = Some (generateToken e),
                  u_token_expiry = Some (expiry_iso e), u_last_login = None,
                  u_created_at = CURRENT_TIMESTAMP e,
                  u_updated_at = CURRENT_TIMESTAMP e\<rparr>]\<rparr>)"
      using h by (simp add: validated7 [OF pw])
  qed
  from 1 2 3 show ?thesis by (intro conjI)
qed

theorem C4_signup_untyped_fields_skip_length_rules_witness:
  "signup sample_runtime (sample_env 0 ''2026-01-03T00:00:00.000Z'' ''u-7'' ''t7'')
       (Some (JNum 7)) (Some (JStr ''short'')) (Some (JStr ''Bob''))
       (Some (JStr ''bob@example.org'')) alice_db
     = (\<lparr>status = 400,
         body = JObj [(''error'', JStr ''Password must be at least 8 characters'')]\<rparr>,
        alice_db)
   \<and> signup sample_runtime (sample_env 0 ''2026-01-03T00:00:00.000Z'' ''u-7'' ''t7'')
       (Some (JStr ''bobby'')) (Some (JNum 1234)) (Some (JStr ''Bob''))
       (Some (JStr ''bob@example.org'')) alice_db
     = (\<lparr>status = 400,
         body = JObj [(''error'',
                       JStr ''Password must contain uppercase and lowercase letters'')]\<rparr>,
        alice_db)
   \<and> status (fst (signup sample_runtime
                    (sample_env 0 ''2026-01-03T00:00:00.000Z'' ''u-7'' ''t7'')
                    (Some (JNum 7)) (Some (JStr ''Valid123'')) (Some (JStr ''Bob''))
                    (Some (JStr ''bob@example.org'')) alice_db)) = 201
   \<and> map u_username
        (users (snd (signup sample_runtime
                       (sample_env 0 ''2026-01-03T00:00:00.000Z'' ''u-7'' ''t7'')
                       (Some (JNum 7)) (Some (JStr ''Valid123'')) (Some (JStr ''Bob''))
                       (Some (JStr ''bob@example.org'')) alice_db)))
       = [''Alice'', ''7'']"
proof -
  let ?e = "sample_env 0 ''2026-01-03T00:00:00.000Z'' ''u-7'' ''t7''"
  have name: "''Bob'' \<noteq> []" by simp
  have email: "email_shape ''bob@example.org''"
    unfolding test_anchored_emailRegex [symmetric] by code_simp
  note run = C4_signup_untyped_fields_skip_length_rules
               [OF name email, where rt = sample_runtime and e = ?e and d = alice_db]
  have short: "''short'' \<noteq> [] \<and> length ''short'' < 8" by simp
  have bobby: "3 \<le> length ''bobby'' \<and> username_charset ''bobby''" by code_simp
  have valid: "8 \<le> length ''Valid123'' \<and> has_lower_and_upper ''Valid123''
      \<and> has_digit ''Valid123''
      \<and> sqlite_bind sample_runtime (JNum 7) = Inr (Some ''7'')
      \<and> \<not> username_taken ''7'' alice_db \<and> \<not> email_taken ''bob@example.org'' alice_db
      \<and> generateUUID ?e \<notin> set (map u_id (users alice_db))"
    by code_simp
  have users: "map u_username (users alice_db) = [''Alice'']" by code_simp
  have 1: "signup sample_runtime ?e (Some (JNum 7)) (Some (JStr ''short'')) (Some (JStr ''Bob''))
             (Some (JStr ''bob@example.org'')) alice_db
           = (\<lparr>status = 400,
               body = JObj [(''error'', JStr ''Password must be at least 8 characters'')]\<rparr>,
              alice_db)"
    by (rule run [where password = "''short''", THEN conjunct1, THEN mp]) (rule short)
  have 2: "signup sample_runtime ?e (Some (JStr ''bobby'')) (Some (JNum 1234))
             (Some (JStr ''Bob'')) (Some (JStr ''bob@example.org'')) alice_db
           = (\<lparr>status = 400,
               body = JObj [(''error'',
                             JStr ''Password must contain uppercase and lowercase letters'')]\<rparr>,
              alice_db)"
    by (rule run [where username = "''bobby''", THEN conjunct2, THEN conjunct1, THEN mp])
       (rule bobby)
  note stored = run [where password = "''Valid123''", THEN conjunct2, THEN conjunct2, THEN mp,
                OF valid]
  have 4: "status (fst (signup sample_runtime ?e (Some (JNum 7)) (Some (JStr ''Valid123''))
             (Some (JStr ''Bob'')) (Some (JStr ''bob@example.org'')) alice_db)) = 201"
    unfolding stored by simp
  have 5: "map u_username
        (users (snd (signup sample_runtime ?e (Some (JNum 7)) (Some (JStr ''Valid123''))
             (Some (JStr ''Bob'')) (Some (JStr ''bob@example.org'')) alice_db)))
       = [''Alice'', ''7'']"
    unfolding stored by (simp add: users)
  from 1 2 4 5 show ?thesis by (intro conjI)
qed

section \<open>Properties of verify and of the user object\<close>

subsection \<open>verify\<close>

lemma verify_missing:
  "\<not> given userId \<Longrightarrow> verify userId d = send 400 (error ''Missing userId'')"
  by (simp add: verify_def)

lemma verify_found:
  "given userId \<Longrightarrow> select_user_by_id (val userId) d = Some user \<Longrightarrow>
   verify userId d =
     send 200 (obj [(''user'',
                     Some (userResponse (JStr (u_id user)) (JStr (u_username user))
                             (JStr (u_name user)) (JStr (u_email user))))])"
  by (simp add: verify_def)

lemma verify_not_found:
  "given userId \<Longrightarrow> select_user_by_id (val userId) d = None \<Longrightarrow>
   verify userId d = send 401 (error ''User not found'')"
  by (simp add: verify_def)

lemma verify_ignores_token:
  "verify userId (d\<lparr>users := map (\<lambda>u. u\<lparr>u_auth_token := tok u, u_token_expiry := ex u\<rparr>) (users d)\<rparr>)
     = verify userId d"
proof -
  have "select_user_by_id (val userId)
          (d\<lparr>users := map (\<lambda>u. u\<lparr>u_auth_token := tok u, u_token_expiry := ex u\<rparr>) (users d)\<rparr>)
        = map_option (\<lambda>u. u\<lparr>u_auth_token := tok u, u_token_expiry := ex u\<rparr>)
            (select_user_by_id (val userId) d)"
    by (simp add: select_user_by_id_def find_map_fields)
  then show ?thesis
    by (simp add: verify_def split: option.splits)
qed

lemma verify_body:
  "send 200 (obj [(''user'',
                   Some (userResponse (JStr (u_id user)) (JStr (u_username user))
                           (JStr (u_name user)) (JStr (u_email user))))])
     = \<lparr>status = 200,
        body = JObj [(''user'',
                      JObj ([(''id'', JStr (u_id user)),
                             (''username'', JStr (u_username user)),
                             (''name'', JStr (u_name user))]
                            @ (if u_email user = [] then []
                               else [(''email'', JStr (u_email user))])))]\<rparr>"
  by (simp add: send_def obj_def userResponse_def or_undefined_def)

lemma find_distinct_key:
  assumes "distinct (map k xs)" "x \<in> set xs"
  shows "find (\<lambda>y. k y = k x) xs = Some x"
  using assms
proof (induction xs)
  case Nil
  then show ?case by simp
next
  case (Cons a xs)
  then show ?case by (cases "a = x") (auto simp: image_iff)
qed

text \<open>
  Claim C7. For a userId that is supplied, \<open>verify\<close> answers 200 exactly when a user with
  that identifier is stored. The body is then the public projection of the row found:
  the object \<^verbatim>\<open>{user: {id, username, name, email}}\<close> with the values of that row's
  columns (\<open>email\<close> left out when the column is empty) and nothing else; identifiers being
  the primary key, it is the projection of the one stored user with that identifier.
  Otherwise the answer is 401 with the body \<^verbatim>\<open>{error: "User not found"}\<close>. Replacing the
  stored tokens and expiry times of the users by any others does not change the
  response. (A request without a userId is turned away before the lookup,
  \<open>verify_missing\<close>.)
\<close>

theorem C7_verify_by_identifier_only:
  "given userId \<longrightarrow>
     (status (verify userId d) = 200 \<longleftrightarrow> (\<exists>u. u \<in> set (users d) \<and> u_id u = val userId))
   \<and> (\<forall>user. select_user_by_id (val userId) d = Some user \<longrightarrow>
        user \<in> set (users d) \<and> u_id user = val userId \<and>
        verify userId d =
          \<lparr>status = 200,
           body = JObj [(''user'',
                         JObj ([(''id'', JStr (u_id user)),
                                (''username'', JStr (u_username user)),
                                (''name'', JStr (u_name user))]
                               @ (if u_email user = [] then []
                                  else [(''email'', JStr (u_email user))])))]\<rparr>)
   \<and> (distinct (map u_id (users d)) \<longrightarrow>
        (\<forall>user \<in> set (users d). u_id user = val userId \<longrightarrow>
           verify userId d =
             \<lparr>status = 200,
              body = JObj [(''user'',
                            JObj ([(''id'', JStr (u_id user)),
                                   (''username'', JStr (u_username user)),
                                   (''name'', JStr (u_name user))]
                                  @ (if u_email user = [] then []
                                     else [(''email'', JStr (u_email user))])))]\<rparr>))
   \<and> ((\<exists>u. u \<in> set (users d) \<and> u_id u = val userId) \<or>
        verify userId d
          = \<lparr>status = 401, body = JObj [(''error'', JStr ''User not found'')]\<rparr>)
   \<and> verify userId
         (d\<lparr>users := map (\<lambda>u. u\<lparr>u_auth_token := tok u, u_token_expiry := ex u\<rparr>) (users d)\<rparr>)
       = verify userId d"
proof (intro impI conjI allI ballI)
  assume g: "given userId"
  show "status (verify userId d) = 200 \<longleftrightarrow> (\<exists>u. u \<in> set (users d) \<and> u_id u = val userId)"
  proof (cases "select_user_by_id (val userId) d")
    case None
    then show ?thesis
      using g by (auto simp: verify_not_found send_def select_user_by_id_def find_None_set)
  next
    case (Some user)
    then show ?thesis
      using g find_Some_set [of "\<lambda>u. u_id u = val userId" "users d" user]
      by (auto simp: verify_found send_def select_user_by_id_def)
  qed
  show "(\<exists>u. u \<in> set (users d) \<and> u_id u = val userId) \<or>
        verify userId d
          = \<lparr>status = 401, body = JObj [(''error'', JStr ''User not found'')]\<rparr>"
    using g by (cases "select_user_by_id (val userId) d")
      (auto simp: verify_not_found select_user_by_id_def send_def error_def obj_def
            dest: find_Some_set)
  show "verify userId
         (d\<lparr>users := map (\<lambda>u. u\<lparr>u_auth_token := tok u, u_token_expiry := ex u\<rparr>) (users d)\<rparr>)
       = verify userId d"
    by (rule verify_ignores_token)
next
  fix user
  assume g: "given userId" and found: "select_user_by_id (val userId) d = Some user"
  from found show "user \<in> set (users d)" "u_id user = val userId"
    by (auto simp: select_user_by_id_def dest: find_Some_set)
  from g found show "verify userId d =
          \<lparr>status = 200,
           body = JObj [(''user'',
                         JObj ([(''id'', JStr (u_id user)),
                                (''username'', JStr (u_username user)),
                                (''name'', JStr (u_name user))]
                               @ (if u_email user = [] then []
                                  else [(''email'', JStr (u_email user))])))]\<rparr>"
    by (simp only: verify_found verify_body)
next
  fix user
  assume g: "given userId" and key: "distinct (map u_id (users d))"
    and stored: "user \<in> set (users d)" and ident: "u_id user = val userId"
  from find_distinct_key [OF key stored] ident
  have "select_user_by_id (val userId) d = Some user"
    by (simp add: select_user_by_id_def)
  with g show "verify userId d =
             \<lparr>status = 200,
              body = JObj [(''user'',
                            JObj ([(''id'', JStr (u_id user)),
                                   (''username'', JStr (u_username user)),
                                   (''name'', JStr (u_name user))]
                                  @ (if u_email user = [] then []
                                     else [(''email'', JStr (u_email user))])))]\<rparr>"
    by (simp only: verify_found verify_body)
qed

theorem C7_verify_by_identifier_only_witness:
  "status (verify (Some ''u-alice'') alice_db) = 200
   \<and> verify (Some ''u-alice'') alice_db
       = \<lparr>status = 200,
          body = JObj [(''user'',
                        JObj [(''id'', JStr ''u-alice''), (''username'', JStr ''Alice''),
                              (''name'', JStr ''Alice A.''),
                              (''email'', JStr ''alice@example.org'')])]\<rparr>
   \<and> verify (Some ''u-nobody'') alice_db
       = \<lparr>status = 401, body = JObj [(''error'', JStr ''User not found'')]\<rparr>
   \<and> verify (Some ''u-alice'')
         (alice_db\<lparr>users := map (\<lambda>u. u\<lparr>u_auth_token := None, u_token_expiry := None\<rparr>)
                                (users alice_db)\<rparr>)
       = verify (Some ''u-alice'') alice_db"
proof -
  have g: "given (Some ''u-alice'')" "given (Some ''u-nobody'')"
    by (simp_all add: given_def)
  have row: "users alice_db = [\<lparr>u_id = ''u-alice'', u_username = ''Alice'',
         u_password_hash = ''$2a$12$Valid123'', u_name = ''Alice A.'',
         u_email = ''alice@example.org'', u_auth_token = Some ''t0'',
         u_token_expiry = Some ''2026-01-31T00:00:00.000Z'', u_last_login = None,
         u_created_at = ''2026-01-01 00:00:00'',
         u_updated_at = ''2026-01-01 00:00:00''\<rparr>]"
    by code_simp
  have key: "distinct (map u_id (users alice_db))"
    by (simp add: row)
  have absent: "\<not> (\<exists>u. u \<in> set (users alice_db) \<and> u_id u = ''u-nobody'')"
    by (simp add: row)
  have stored: "\<exists>u. u \<in> set (users alice_db) \<and> u_id u = ''u-alice''"
    by (simp add: row)
  note alice = C7_verify_by_identifier_only
                 [where userId = "Some ''u-alice''" and d = alice_db
                    and tok = "\<lambda>u. None" and ex = "\<lambda>u. None", THEN mp, OF g(1)]
  note nobody = C7_verify_by_identifier_only
                 [where userId = "Some ''u-nobody''" and d = alice_db
                    and tok = "\<lambda>u. None" and ex = "\<lambda>u. None", THEN mp, OF g(2)]
  have 1: "status (verify (Some ''u-alice'') alice_db) = 200"
    using alice [THEN conjunct1] stored by simp
  have 2: "verify (Some ''u-alice'') alice_db
       = \<lparr>status = 200,
          body = JObj [(''user'',
                        JObj [(''id'', JStr ''u-alice''), (''username'', JStr ''Alice''),
                              (''name'', JStr ''Alice A.''),
                              (''email'', JStr ''alice@example.org'')])]\<rparr>"
    using alice [THEN conjunct2, THEN conjunct2, THEN conjunct1, THEN mp, OF key]
    by (simp add: row)
  have 3: "verify (Some ''u-nobody'') alice_db
       = \<lparr>status = 401, body = JObj [(''error'', JStr ''User not found'')]\<rparr>"
    using nobody [THEN conjunct2, THEN conjunct2, THEN conjunct2, THEN conjunct1] absent
    by simp
  have 4: "verify (Some ''u-alice'')
         (alice_db\<lparr>users := map (\<lambda>u. u\<lparr>u_auth_token := None, u_token_expiry := None\<rparr>)
                                (users alice_db)\<rparr>)
       = verify (Some ''u-alice'') alice_db"
    using alice [THEN conjunct2, THEN conjunct2, THEN conjunct2, THEN conjunct2] .
  from 1 2 3 4 show ?thesis by (intro conjI)
qed

subsection \<open>signup, login, verify: the user object\<close>

lemma keys_userResponse:
  "keys (userResponse uid username name email)
     = (if truthy email then [''id'', ''username'', ''name'', ''email'']
        else [''id'', ''username'', ''name''])"
  by (simp add: userResponse_def obj_def or_undefined_def)

lemma signup_store_201:
  assumes "status (fst (signup_store rt e username password name email d)) = 201"
  shows "body (fst (signup_store rt e username password name email d))
           = obj [(''user'', Some (userResponse (JStr (generateUUID e)) username name email)),
                  (''token'', Some (JStr (generateToken e))),
                  (''expiresIn'', Some (JNum expiresIn))]"
  using assms
  by (simp add: signup_store_def Let_def send_def split: sum.splits option.splits)

lemma signup_present_201:
  assumes "status (fst (signup_present rt e username password name email d)) = 201"
  shows "signup_present rt e username password name email d
           = signup_store rt e username password name email d"
  using assms unfolding signup_present_def
  by (auto simp: reject_if_def send_def split: option.splits if_splits)

lemma signup_201:
  assumes "status (fst (signup rt e username password name email d)) = 201"
  shows "body (fst (signup rt e username password name email d))
           = obj [(''user'', Some (userResponse (JStr (generateUUID e)) (the username)
                                     (the name) (the email))),
                  (''token'', Some (JStr (generateToken e))),
                  (''expiresIn'', Some (JNum expiresIn))]
         \<and> present email"
proof -
  have ok: "present username \<and> present password \<and> present name \<and> present email"
    using assms by (rule contrapos_pp) (auto simp: signup_def send_def)
  then have run: "signup rt e username password name email d
                    = signup_present rt e (the username) (the password) (the name) (the email) d"
    by (simp add: signup_def)
  from assms have "status (fst (signup_present rt e (the username) (the password) (the name)
                                  (the email) d)) = 201"
    by (simp add: run)
  then have "signup_present rt e (the username) (the password) (the name) (the email) d
          = signup_store rt e (the username) (the password) (the name) (the email) d"
    by (rule signup_present_201)
  with assms run ok show ?thesis
    by (simp add: signup_store_201)
qed

lemma login_200:
  assumes "status (fst (login rt e username password (la, d))) = 200"
  shows "\<exists>user. user \<in> set (users d) \<and>
           body (fst (login rt e username password (la, d)))
             = obj [(''user'', Some (userResponse (JStr (u_id user)) (JStr (u_username user))
                                       (JStr (u_name user)) (JStr (u_email user)))),
                    (''token'', Some (JStr (generateToken e))),
                    (''expiresIn'', Some (JNum expiresIn))]"
proof -
  have "present username \<and> present password"
    using assms by (rule contrapos_pp) (auto simp: login_def send_def)
  then have run: "login rt e username password (la, d)
                    = login_present rt e (the username) (the password) (la, d)"
    by (simp add: login_def)
  show ?thesis
  proof (cases "sql_param rt (the username)")
    case (Inl err)
    then show ?thesis
      using assms unfolding run login_present_def
      by (auto simp: send_def split: prod.splits if_splits)
  next
    case (Inr bound)
    then show ?thesis
      using assms unfolding run login_present_def
      by (cases bound)
         (auto simp: send_def Let_def select_user_by_username_def
               split: if_splits prod.splits option.splits dest: find_Some_set)
  qed
qed

lemma verify_200:
  assumes "status (verify userId d) = 200"
  shows "\<exists>user. user \<in> set (users d) \<and>
           body (verify userId d)
             = obj [(''user'', Some (userResponse (JStr (u_id user)) (JStr (u_username user))
                                       (JStr (u_name user)) (JStr (u_email user))))]"
  using assms
  by (auto simp: verify_def send_def select_user_by_id_def
           split: if_splits option.splits dest: find_Some_set)

text \<open>
  Claim C8. The \<open>user\<close> object of a successful signup response has exactly the
  properties id, username, name and email, and so no \<open>password_hash\<close>; the \<open>user\<close> object
  of a successful login or verify response has only properties among these four, and no
  \<open>password_hash\<close>.
\<close>

theorem C8_user_payload_without_password_hash:
  "(status (fst (signup rt e username password name email d)) = 201 \<longrightarrow>
      (\<exists>user. property (body (fst (signup rt e username password name email d))) ''user'' = Some user
         \<and> keys user = [''id'', ''username'', ''name'', ''email'']
         \<and> property user ''password_hash'' = None))
   \<and> (status (fst (login rt e' username' password' (la, d'))) = 200 \<longrightarrow>
      (\<exists>user. property (body (fst (login rt e' username' password' (la, d')))) ''user'' = Some user
         \<and> set (keys user) \<subseteq> {''id'', ''username'', ''name'', ''email''}
         \<and> property user ''password_hash'' = None))
   \<and> (status (verify userId d'') = 200 \<longrightarrow>
      (\<exists>user. property (body (verify userId d'')) ''user'' = Some user
         \<and> set (keys user) \<subseteq> {''id'', ''username'', ''name'', ''email''}
         \<and> property user ''password_hash'' = None))"
proof (intro conjI impI)
  assume "status (fst (signup rt e username password name email d)) = 201"
  from signup_201 [OF this]
  show "\<exists>user. property (body (fst (signup rt e username password name email d))) ''user'' = Some user
         \<and> keys user = [''id'', ''username'', ''name'', ''email'']
         \<and> property user ''password_hash'' = None"
    by (cases email) (simp_all add: obj_def userResponse_def or_undefined_def present_def)
next
  assume "status (fst (login rt e' username' password' (la, d'))) = 200"
  from login_200 [OF this]
  show "\<exists>user. property (body (fst (login rt e' username' password' (la, d')))) ''user'' = Some user
         \<and> set (keys user) \<subseteq> {''id'', ''username'', ''name'', ''email''}
         \<and> property user ''password_hash'' = None"
    by (auto simp: obj_def userResponse_def or_undefined_def)
next
  assume "status (verify userId d'') = 200"
  from verify_200 [OF this]
  show "\<exists>user. property (body (verify userId d'')) ''user'' = Some user
         \<and> set (keys user) \<subseteq> {''id'', ''username'', ''name'', ''email''}
         \<and> property user ''password_hash'' = None"
    by (auto simp: obj_def userResponse_def or_undefined_def)
qed

theorem C8_user_payload_without_password_hash_witness:
  "(\<exists>user. property (body (fst (signup sample_runtime
                (sample_env 0 ''2026-01-01T00:00:00.000Z'' ''u-alice'' ''t0'')
                (Some (JStr ''Alice'')) (Some (JStr ''Valid123'')) (Some (JStr ''Alice A.''))
                (Some (JStr ''alice@example.org'')) db))) ''user'' = Some user
       \<and> keys user = [''id'', ''username'', ''name'', ''email'']
       \<and> property user ''password_hash'' = None)
   \<and> (\<exists>user. property (body (fst (login sample_runtime (login_env 0) (Some (JStr ''alice''))
                (Some (JStr ''Valid123'')) (Map.empty, alice_db)))) ''user'' = Some user
       \<and> set (keys user) \<subseteq> {''id'', ''username'', ''name'', ''email''}
       \<and> property user ''password_hash'' = None)
   \<and> (\<exists>user. property (body (verify (Some ''u-alice'') alice_db)) ''user'' = Some user
       \<and> set (keys user) \<subseteq> {''id'', ''username'', ''name'', ''email''}
       \<and> property user ''password_hash'' = None)"
proof -
  have s: "status (fst (signup sample_runtime
                (sample_env 0 ''2026-01-01T00:00:00.000Z'' ''u-alice'' ''t0'')
                (Some (JStr ''Alice'')) (Some (JStr ''Valid123'')) (Some (JStr ''Alice A.''))
                (Some (JStr ''alice@example.org'')) db)) = 201"
    by code_simp
  have l: "status (fst (login sample_runtime (login_env 0) (Some (JStr ''alice''))
                (Some (JStr ''Valid123'')) (Map.empty, alice_db))) = 200"
    by code_simp
  have v: "status (verify (Some ''u-alice'') alice_db) = 200"
    by code_simp
  from C8_user_payload_without_password_hash
         [where e = "sample_env 0 ''2026-01-01T00:00:00.000Z'' ''u-alice'' ''t0''"
            and username = "Some (JStr ''Alice'')" and password = "Some (JStr ''Valid123'')"
            and name = "Some (JStr ''Alice A.'')" and email = "Some (JStr ''alice@example.org'')"
            and d = db
            and rt = sample_runtime and e' = "login_env 0"
            and username' = "Some (JStr ''alice'')"
            and password' = "Some (JStr ''Valid123'')" and la = Map.empty and d' = alice_db
            and userId = "Some ''u-alice''" and d'' = alice_db]
       s l v
  show ?thesis by blast
qed

section \<open>Properties of saveMessage\<close>

lemma saveMessage_missing:
  "\<not> given sessionId \<or> \<not> given role \<or> \<not> given content \<Longrightarrow>
   saveMessage rt e sessionId role content imageUrl es gs ar messageId d
     = (send 400 (error ''Missing required fields''), d)"
  by (auto simp: saveMessage_def)

lemma saveMessage_store:
  assumes "given sessionId" "given role" "given content"
  shows "snd (saveMessage rt e sessionId role content imageUrl es gs ar messageId d)
     = update_session_updated_at (now_iso e) (val sessionId)
         (case insert_message (message_params rt e sessionId role content imageUrl es gs ar
                                 messageId) d of
            Inr d' \<Rightarrow> d'
          | Inl err \<Rightarrow> update_message (message_params rt e sessionId role content imageUrl es gs
                                         ar messageId) d)"
  using assms
  by (simp add: saveMessage_def Let_def insert_message_def SQLITE_CONSTRAINT_def)

lemma saveMessage_response:
  assumes "given sessionId" "given role" "given content"
  shows "fst (saveMessage rt e sessionId role content imageUrl es gs ar messageId d)
     = send 201
         (obj [(''message'',
                Some (obj [(''id'', Some (JStr (message_ident e messageId))),
                           (''session_id'', Some (JStr (val sessionId))),
                           (''role'', Some (JStr (val role))),
                           (''content'', Some (JStr (val content))),
                           (''image_url'', map_option JStr imageUrl),
                           (''extracted_symptoms'', map_option JStr (stringify_field rt es)),
                           (''grounding_sources'', map_option JStr (stringify_field rt gs)),
                           (''analysis_results'', map_option JStr (stringify_field rt ar)),
                           (''timestamp'', Some (JStr (now_iso e)))]))])"
  using assms
  by (simp add: saveMessage_def Let_def insert_message_def SQLITE_CONSTRAINT_def)

lemma saveMessage_existing:
  assumes "given sessionId" "given role" "given content" "given messageId"
    and "\<exists>m\<in>set (messages d). m_id m = val messageId"
  shows "snd (saveMessage rt e sessionId role content imageUrl es gs ar messageId d)
     = update_session_updated_at (now_iso e) (val sessionId)
         (update_message (message_params rt e sessionId role content imageUrl es gs ar
                            messageId) d)"
  using assms
  by (simp add: saveMessage_store insert_message_def list_ex_set message_params_def
        message_ident_def)

lemma saveMessage_fresh:
  assumes "given sessionId" "given role" "given content"
    and "\<not> (\<exists>m\<in>set (messages d). m_id m = message_ident e messageId)"
    and "foreign_keys d \<Longrightarrow> \<exists>s\<in>set (chat_sessions d). s_id s = val sessionId"
  shows "snd (saveMessage rt e sessionId role content imageUrl es gs ar messageId d)
     = update_session_updated_at (now_iso e) (val sessionId)
         (d\<lparr>messages := messages d @ [message_params rt e sessionId role content imageUrl es gs
                                          ar messageId]\<rparr>)"
  using assms
  by (auto simp: saveMessage_store insert_message_def list_ex_set message_params_def)

lemma messages_update_session [simp]:
  "messages (update_session_updated_at now sid d) = messages d"
  by (simp add: update_session_updated_at_def)

lemma chat_sessions_update_message [simp]:
  "chat_sessions (update_message row d) = chat_sessions d"
  by (simp add: update_message_def)

lemma update_message_ids [simp]:
  "map m_id (messages (update_message row d)) = map m_id (messages d)"
  by (simp add: update_message_def)

lemma update_message_sessions [simp]:
  "map m_session_id (messages (update_message row d)) = map m_session_id (messages d)"
  by (simp add: update_message_def)

text \<open>
  Claim C10. When \<open>saveMessage\<close> is called with the required fields and a messageId that
  is already stored, every stored message keeps its identifier and its session, also the
  one that is updated; the session whose \<open>updated_at\<close> is set to the save time is the one
  named in the request; and the \<open>session_id\<close> of the message in the response is the
  sessionId of the request. So a request naming another session than the stored row's
  leaves the message in its original session and bumps the requested one.
\<close>

theorem C10_upsert_keeps_stored_session:
  assumes "given sessionId" "given role" "given content" "given messageId"
    and "\<exists>m\<in>set (messages d). m_id m = val messageId"
  shows "map (\<lambda>m. (m_id m, m_session_id m))
             (messages (snd (saveMessage rt e sessionId role content imageUrl es gs ar messageId d)))
           = map (\<lambda>m. (m_id m, m_session_id m)) (messages d)
         \<and> chat_sessions (snd (saveMessage rt e sessionId role content imageUrl es gs ar messageId d))
           = map (\<lambda>s. if s_id s = val sessionId then s\<lparr>s_updated_at := now_iso e\<rparr> else s)
               (chat_sessions d)
         \<and> Option.bind
             (property (body (fst (saveMessage rt e sessionId role content imageUrl es gs ar
                                     messageId d))) ''message'')
             (\<lambda>message. property message ''session_id'')
           = Some (JStr (val sessionId))"
proof (intro conjI)
  show "map (\<lambda>m. (m_id m, m_session_id m))
             (messages (snd (saveMessage rt e sessionId role content imageUrl es gs ar messageId d)))
           = map (\<lambda>m. (m_id m, m_session_id m)) (messages d)"
    by (simp add: saveMessage_existing [OF assms] update_message_def)
  show "chat_sessions (snd (saveMessage rt e sessionId role content imageUrl es gs ar messageId d))
           = map (\<lambda>s. if s_id s = val sessionId then s\<lparr>s_updated_at := now_iso e\<rparr> else s)
               (chat_sessions d)"
    by (simp add: saveMessage_existing [OF assms] update_session_updated_at_def)
  show "Option.bind
             (property (body (fst (saveMessage rt e sessionId role content imageUrl es gs ar
                                     messageId d))) ''message'')
             (\<lambda>message. property message ''session_id'')
           = Some (JStr (val sessionId))"
    by (simp add: saveMessage_response [OF assms(1-3)] send_def obj_def)
qed

theorem C10_upsert_keeps_stored_session_witness:
  "map (\<lambda>m. (m_id m, m_session_id m))
       (messages (snd (saveMessage sample_runtime
          (sample_env 5000 ''2026-01-01T00:00:05.000Z'' ''unused'' ''unused'')
          (Some ''s-2'') (Some ''user'') (Some ''It got worse'') None None None None
          (Some ''m-1'') chat_db)))
     = map (\<lambda>m. (m_id m, m_session_id m)) (messages chat_db)
   \<and> chat_sessions (snd (saveMessage sample_runtime
          (sample_env 5000 ''2026-01-01T00:00:05.000Z'' ''unused'' ''unused'')
          (Some ''s-2'') (Some ''user'') (Some ''It got worse'') None None None None
          (Some ''m-1'') chat_db))
     = map (\<lambda>s. if s_id s = val (Some ''s-2'')
                 then s\<lparr>s_updated_at :=
                          now_iso (sample_env 5000 ''2026-01-01T00:00:05.000Z'' ''unused''
                                     ''unused'')\<rparr>
                 else s)
         (chat_sessions chat_db)
   \<and> Option.bind
       (property (body (fst (saveMessage sample_runtime
          (sample_env 5000 ''2026-01-01T00:00:05.000Z'' ''unused'' ''unused'')
          (Some ''s-2'') (Some ''user'') (Some ''It got worse'') None None None None
          (Some ''m-1'') chat_db))) ''message'')
       (\<lambda>message. property message ''session_id'')
     = Some (JStr (val (Some ''s-2'')))
   \<and> map (\<lambda>m. (m_id m, m_session_id m, m_content m))
       (messages (snd (saveMessage sample_runtime
          (sample_env 5000 ''2026-01-01T00:00:05.000Z'' ''unused'' ''unused'')
          (Some ''s-2'') (Some ''user'') (Some ''It got worse'') None None None None
          (Some ''m-1'') chat_db)))
     = [(''m-1'', ''s-1'', ''It got worse'')]
   \<and> map (\<lambda>s. (s_id s, s_updated_at s))
       (chat_sessions (snd (saveMessage sample_runtime
          (sample_env 5000 ''2026-01-01T00:00:05.000Z'' ''unused'' ''unused'')
          (Some ''s-2'') (Some ''user'') (Some ''It got worse'') None None None None
          (Some ''m-1'') chat_db)))
     = [(''s-1'', ''2026-01-01T00:00:03.000Z''), (''s-2'', ''2026-01-01T00:00:05.000Z'')]"
proof -
  have g: "given (Some ''s-2'')" "given (Some ''user'')" "given (Some ''It got worse'')"
    "given (Some ''m-1'')"
    by (simp_all add: given_def)
  have ex: "\<exists>m\<in>set (messages chat_db). m_id m = val (Some ''m-1'')"
    by code_simp
  have run: "map (\<lambda>m. (m_id m, m_session_id m, m_content m))
       (messages (snd (saveMessage sample_runtime
          (sample_env 5000 ''2026-01-01T00:00:05.000Z'' ''unused'' ''unused'')
          (Some ''s-2'') (Some ''user'') (Some ''It got worse'') None None None None
          (Some ''m-1'') chat_db)))
     = [(''m-1'', ''s-1'', ''It got worse'')]
   \<and> map (\<lambda>s. (s_id s, s_updated_at s))
       (chat_sessions (snd (saveMessage sample_runtime
          (sample_env 5000 ''2026-01-01T00:00:05.000Z'' ''unused'' ''unused'')
          (Some ''s-2'') (Some ''user'') (Some ''It got worse'') None None None None
          (Some ''m-1'') chat_db)))
     = [(''s-1'', ''2026-01-01T00:00:03.000Z''), (''s-2'', ''2026-01-01T00:00:05.000Z'')]"
    by code_simp
  from C10_upsert_keeps_stored_session [OF g ex, of sample_runtime
         "sample_env 5000 ''2026-01-01T00:00:05.000Z'' ''unused'' ''unused''" None None None None]
       run
  show ?thesis by blast
qed

lemma saveMessage_preserves_primary_key:
  assumes "distinct (map m_id (messages d))"
  shows "distinct (map m_id
           (messages (snd (saveMessage rt e sessionId role content imageUrl es gs ar messageId d))))"
proof (cases "given sessionId \<and> given role \<and> given content")
  case False
  then show ?thesis using assms by (auto simp: saveMessage_missing)
next
  case True
  then show ?thesis
    using assms
    by (auto simp: saveMessage_store insert_message_def list_ex_set message_params_def)
qed

text \<open>
  Claim C3. Message identifiers are unique (the primary key) and \<open>saveMessage\<close> keeps them
  so. When a message with identifier \<open>m\<close> is stored and a request with all required fields
  names \<open>m\<close> as its messageId, the call answers 201, adds no row, and afterwards exactly
  one row has identifier \<open>m\<close>: the stored row with role, content, image reference, the
  three JSON columns and the timestamp replaced by those of the request; all other rows are
  as before.
\<close>

theorem C3_saveMessage_upsert_by_id:
  "(distinct (map m_id (messages d)) \<longrightarrow>
      distinct (map m_id
        (messages (snd (saveMessage rt e sessionId role content imageUrl es gs ar messageId d)))))
   \<and> (given sessionId \<and> given role \<and> given content \<and> given messageId
      \<and> distinct (map m_id (messages d)) \<and> m \<in> set (messages d) \<and> m_id m = val messageId \<longrightarrow>
      status (fst (saveMessage rt e sessionId role content imageUrl es gs ar messageId d)) = 201
      \<and> length (messages (snd (saveMessage rt e sessionId role content imageUrl es gs ar
                                 messageId d))) = length (messages d)
      \<and> filter (\<lambda>x. m_id x = val messageId)
          (messages (snd (saveMessage rt e sessionId role content imageUrl es gs ar messageId d)))
        = [m\<lparr>m_role := val role, m_content := val content, m_image_url := or_null imageUrl,
             m_extracted_symptoms := stringify_field rt es,
             m_grounding_sources := stringify_field rt gs,
             m_analysis_results := stringify_field rt ar,
             m_timestamp := now_iso e\<rparr>]
      \<and> filter (\<lambda>x. m_id x \<noteq> val messageId)
          (messages (snd (saveMessage rt e sessionId role content imageUrl es gs ar messageId d)))
        = filter (\<lambda>x. m_id x \<noteq> val messageId) (messages d))"
proof (intro conjI impI)
  assume "distinct (map m_id (messages d))"
  then show "distinct (map m_id
        (messages (snd (saveMessage rt e sessionId role content imageUrl es gs ar messageId d))))"
    by (rule saveMessage_preserves_primary_key)
next
  assume h: "given sessionId \<and> given role \<and> given content \<and> given messageId
      \<and> distinct (map m_id (messages d)) \<and> m \<in> set (messages d) \<and> m_id m = val messageId"
  let ?d' = "snd (saveMessage rt e sessionId role content imageUrl es gs ar messageId d)"
  let ?upd = "\<lambda>x. x\<lparr>m_role := val role, m_content := val content, m_image_url := or_null imageUrl,
             m_extracted_symptoms := stringify_field rt es,
             m_grounding_sources := stringify_field rt gs,
             m_analysis_results := stringify_field rt ar,
             m_timestamp := now_iso e\<rparr>"
  have ex: "\<exists>m\<in>set (messages d). m_id m = val messageId" using h by blast
  have msgs: "messages ?d' = map (\<lambda>x. if m_id x = val messageId then ?upd x else x) (messages d)"
    using h by (simp add: saveMessage_existing [OF _ _ _ _ ex] update_message_def
                  message_params_def message_ident_def)
  show "status (fst (saveMessage rt e sessionId role content imageUrl es gs ar messageId d)) = 201"
    using h by (simp add: saveMessage_response send_def)
  show "length (messages ?d') = length (messages d)"
    by (simp add: msgs)
  have "filter (\<lambda>x. m_id x = val messageId) (messages ?d')
          = map ?upd (filter (\<lambda>x. m_id x = val messageId) (messages d))"
    unfolding msgs by (rule filter_updated_rows) simp
  also have "filter (\<lambda>x. m_id x = val messageId) (messages d) = [m]"
    using filter_key_distinct [of m_id "messages d" m] h by simp
  finally show "filter (\<lambda>x. m_id x = val messageId) (messages ?d') = [?upd m]"
    by simp
  show "filter (\<lambda>x. m_id x \<noteq> val messageId) (messages ?d')
        = filter (\<lambda>x. m_id x \<noteq> val messageId) (messages d)"
    unfolding msgs by (rule filter_other_rows) simp
qed

theorem C3_saveMessage_upsert_by_id_witness:
  "distinct (map m_id
      (messages (snd (saveMessage sample_runtime
         (sample_env 4000 ''2026-01-01T00:00:04.000Z'' ''unused'' ''unused'')
         (Some ''s-1'') (Some ''user'') (Some ''I have a fever and a cough'') None
         (Some (JArr [JStr ''fever'', JStr ''cough''])) None None (Some ''m-1'') chat_db))))
   \<and> status (fst (saveMessage sample_runtime
         (sample_env 4000 ''2026-01-01T00:00:04.000Z'' ''unused'' ''unused'')
         (Some ''s-1'') (Some ''user'') (Some ''I have a fever and a cough'') None
         (Some (JArr [JStr ''fever'', JStr ''cough''])) None None (Some ''m-1'') chat_db)) = 201
   \<and> length (messages (snd (saveMessage sample_runtime
         (sample_env 4000 ''2026-01-01T00:00:04.000Z'' ''unused'' ''unused'')
         (Some ''s-1'') (Some ''user'') (Some ''I have a fever and a cough'') None
         (Some (JArr [JStr ''fever'', JStr ''cough''])) None None (Some ''m-1'') chat_db)))
       = length (messages chat_db)
   \<and> map (\<lambda>m. (m_id m, m_content m, m_timestamp m))
       (filter (\<lambda>x. m_id x = ''m-1'')
          (messages (snd (saveMessage sample_runtime
             (sample_env 4000 ''2026-01-01T00:00:04.000Z'' ''unused'' ''unused'')
             (Some ''s-1'') (Some ''user'') (Some ''I have a fever and a cough'') None
             (Some (JArr [JStr ''fever'', JStr ''cough''])) None None (Some ''m-1'') chat_db))))
       = [(''m-1'', ''I have a fever and a cough'', ''2026-01-01T00:00:04.000Z'')]"
proof -
  let ?e = "sample_env 4000 ''2026-01-01T00:00:04.000Z'' ''unused'' ''unused''"
  let ?es = "Some (JArr [JStr ''fever'', JStr ''cough''])"
  let ?d' = "snd (saveMessage sample_runtime ?e (Some ''s-1'') (Some ''user'')
                    (Some ''I have a fever and a cough'') None ?es None None (Some ''m-1'')
                    chat_db)"
  have g: "given (Some ''s-1'')" "given (Some ''user'')"
    "given (Some ''I have a fever and a cough'')" "given (Some ''m-1'')"
    by (simp_all add: given_def)
  have pk: "distinct (map m_id (messages chat_db))" by code_simp
  have m: "hd (messages chat_db) \<in> set (messages chat_db)"
    "m_id (hd (messages chat_db)) = val (Some ''m-1'')"
    by code_simp+
  note inst = C3_saveMessage_upsert_by_id
      [where d = chat_db and rt = sample_runtime and e = ?e and sessionId = "Some ''s-1''"
         and role = "Some ''user''" and content = "Some ''I have a fever and a cough''"
         and imageUrl = None and es = ?es and gs = None and ar = None
         and messageId = "Some ''m-1''" and m = "hd (messages chat_db)"]
  have 1: "distinct (map m_id (messages ?d'))"
    using inst pk by blast
  have rest: "status (fst (saveMessage sample_runtime ?e (Some ''s-1'') (Some ''user'')
                    (Some ''I have a fever and a cough'') None ?es None None (Some ''m-1'')
                    chat_db)) = 201
      \<and> length (messages ?d') = length (messages chat_db)
      \<and> filter (\<lambda>x. m_id x = val (Some ''m-1'')) (messages ?d')
        = [(hd (messages chat_db))\<lparr>m_role := val (Some ''user''),
             m_content := val (Some ''I have a fever and a cough''),
             m_image_url := or_null None,
             m_extracted_symptoms := stringify_field sample_runtime ?es,
             m_grounding_sources := stringify_field sample_runtime None,
             m_analysis_results := stringify_field sample_runtime None,
             m_timestamp := now_iso ?e\<rparr>]"
    using inst g pk m by blast
  then have 4: "map (\<lambda>m. (m_id m, m_content m, m_timestamp m))
                  (filter (\<lambda>x. m_id x = ''m-1'') (messages ?d'))
       = [(''m-1'', ''I have a fever and a cough'', ''2026-01-01T00:00:04.000Z'')]"
    using m(2) by (simp add: sample_env_def)
  from 1 rest 4 show ?thesis by blast
qed

section \<open>Deleting sessions and the cascade to messages\<close>

lemma delete_sessions_sessions:
  "chat_sessions (delete_sessions P d) = filter (\<lambda>s. \<not> P s) (chat_sessions d)"
  by (simp add: delete_sessions_def Let_def)

lemma delete_sessions_enforced:
  "foreign_keys d \<Longrightarrow>
   messages (delete_sessions P d)
     = filter (\<lambda>m. \<not> (\<exists>s\<in>set (chat_sessions d). P s \<and> s_id s = m_session_id m)) (messages d)"
  by (force simp: delete_sessions_def Let_def image_iff intro!: filter_cong)

lemma delete_sessions_not_enforced:
  "\<not> foreign_keys d \<Longrightarrow> messages (delete_sessions P d) = messages d"
  by (simp add: delete_sessions_def Let_def)

lemma deleteSession_cascade_if_enforced:
  assumes "foreign_keys d" "\<exists>s\<in>set (chat_sessions d). s_id s = sessionId"
  shows "\<not> (\<exists>m\<in>set (messages (snd (deleteSession sessionId d))). m_session_id m = sessionId)"
  using assms by (auto simp: deleteSession_def delete_sessions_enforced)

lemma clearUserData_cascade_if_enforced:
  assumes "foreign_keys d"
  shows "\<not> (\<exists>s\<in>set (chat_sessions (snd (clearUserData userId d))). s_user_id s = userId)
         \<and> \<not> (\<exists>m\<in>set (messages (snd (clearUserData userId d))).
                 \<exists>s\<in>set (chat_sessions d). s_user_id s = userId \<and> s_id s = m_session_id m)"
  using assms by (auto simp: clearUserData_def delete_sessions_enforced delete_sessions_sessions)

text \<open>No handler touches the connection's foreign-key setting: a store reached from \<open>db\<close>
  has it off, as \<open>db\<close> has.\<close>

lemma foreign_keys_reject_if:
  "foreign_keys (snd continue) = foreign_keys d \<Longrightarrow>
   foreign_keys (snd (reject_if test (thrown, d) (rejected, d) continue)) = foreign_keys d"
  by (simp add: reject_if_def split: option.splits)

lemma foreign_keys_signup_store:
  "foreign_keys (snd (signup_store rt e username password name email d)) = foreign_keys d"
  by (simp add: signup_store_def insert_user_def Let_def split: option.splits sum.splits)

lemma foreign_keys_kept:
  "foreign_keys (snd (signup rt e username password name email d)) = foreign_keys d"
  "foreign_keys (snd (snd (login rt e username password (la, d)))) = foreign_keys d"
  "foreign_keys (snd (logout userId d)) = foreign_keys d"
  "foreign_keys (snd (createSession e userId title d)) = foreign_keys d"
  "foreign_keys (snd (saveMessage rt e sessionId role content imageUrl es gs ar messageId d))
     = foreign_keys d"
  "foreign_keys (snd (updateSessionTitle e sid title d)) = foreign_keys d"
  "foreign_keys (snd (deleteSession sid d)) = foreign_keys d"
  "foreign_keys (snd (clearUserData uid d)) = foreign_keys d"
proof -
  show "foreign_keys (snd (signup rt e username password name email d)) = foreign_keys d"
    unfolding signup_def signup_present_def
    by (simp add: foreign_keys_reject_if foreign_keys_signup_store)
  show "foreign_keys (snd (snd (login rt e username password (la, d)))) = foreign_keys d"
    by (simp add: login_def login_present_def Let_def update_user_token_def
             split: prod.splits option.splits sum.splits)
  show "foreign_keys (snd (logout userId d)) = foreign_keys d"
    by (simp add: logout_def)
  show "foreign_keys (snd (createSession e userId title d)) = foreign_keys d"
    by (simp add: createSession_def Let_def insert_session_def)
  show "foreign_keys (snd (saveMessage rt e sessionId role content imageUrl es gs ar messageId d))
     = foreign_keys d"
    by (simp add: saveMessage_def Let_def insert_message_def update_message_def
          update_session_updated_at_def SQLITE_CONSTRAINT_def)
  show "foreign_keys (snd (updateSessionTitle e sid title d)) = foreign_keys d"
    by (simp add: updateSessionTitle_def)
  show "foreign_keys (snd (deleteSession sid d)) = foreign_keys d"
    by (simp add: deleteSession_def delete_sessions_def Let_def)
  show "foreign_keys (snd (clearUserData uid d)) = foreign_keys d"
    by (simp add: clearUserData_def delete_sessions_def Let_def)
qed

lemma deleteSession_keeps_messages_if_not_enforced:
  "\<not> foreign_keys d \<Longrightarrow> messages (snd (deleteSession sessionId d)) = messages d"
  by (simp add: deleteSession_def delete_sessions_not_enforced)

lemma clearUserData_keeps_messages_if_not_enforced:
  "\<not> foreign_keys d \<Longrightarrow> messages (snd (clearUserData userId d)) = messages d"
  by (simp add: clearUserData_def delete_sessions_not_enforced)

text \<open>
  Claim C1. After \<open>deleteSession s\<close> no message of session \<open>s\<close> should remain, and after
  \<open>clearUserData u\<close> no session of user \<open>u\<close> and no message of such a session. The two
  handlers delete from \<^verbatim>\<open>chat_sessions\<close> only and leave the messages to
  \<^verbatim>\<open>ON DELETE CASCADE\<close>, which SQLite runs only with foreign keys enforced
  (\<open>deleteSession_cascade_if_enforced\<close>, \<open>clearUserData_cascade_if_enforced\<close>). The
  connection of database.ts never enables them, and then the messages stay
  (\<open>deleteSession_keeps_messages_if_not_enforced\<close>). On the store built by signup, two
  createSession calls and one saveMessage call from the fresh database, both handlers
  answer success, the sessions are gone, and the message \<open>m-1\<close> of session \<open>s-1\<close> is
  still stored.
\<close>

theorem C1_delete_leaves_messages:
  "foreign_keys chat_db = False
   \<and> map s_id (chat_sessions chat_db) = [''s-1'', ''s-2'']
   \<and> map (\<lambda>m. (m_id m, m_session_id m)) (messages chat_db) = [(''m-1'', ''s-1'')]
   \<and> fst (deleteSession ''s-1'' chat_db) = send 200 (obj [(''success'', Some (JBool True))])
   \<and> map s_id (chat_sessions (snd (deleteSession ''s-1'' chat_db))) = [''s-2'']
   \<and> map (\<lambda>m. (m_id m, m_session_id m)) (messages (snd (deleteSession ''s-1'' chat_db)))
       = [(''m-1'', ''s-1'')]
   \<and> fst (clearUserData ''u-alice'' chat_db) = send 200 (obj [(''success'', Some (JBool True))])
   \<and> chat_sessions (snd (clearUserData ''u-alice'' chat_db)) = []
   \<and> map (\<lambda>m. (m_id m, m_session_id m)) (messages (snd (clearUserData ''u-alice'' chat_db)))
       = [(''m-1'', ''s-1'')]"
  by code_simp

section \<open>Round trip of the structured message fields\<close>

lemma map_of_obj_fields:
  "distinct (map fst kvs) \<Longrightarrow> map_of (obj_fields kvs) k = Option.bind (map_of kvs k) id"
proof (induction kvs rule: obj_fields.induct)
  case 1
  then show ?case by simp
next
  case (2 k' kvs)
  then have "k' \<notin> fst ` set kvs" by simp
  then have "map_of kvs k' = None" by (simp add: map_of_eq_None_iff)
  then show ?case using 2 by auto
next
  case (3 k' v kvs)
  then show ?case by simp
qed

lemma property_obj:
  "distinct (map fst kvs) \<Longrightarrow> property (obj kvs) k = Option.bind (map_of kvs k) id"
  by (simp add: obj_def map_of_obj_fields)

lemma structured_truthy: "structured v \<Longrightarrow> truthy v"
  by (cases v) simp_all

lemma parse_column_stringify_field:
  "reads_back rt x \<Longrightarrow> parse_column rt (stringify_field rt x) = Some x"
  by (cases x)
     (auto simp: reads_back_def parse_column_def stringify_field_def given_def
        structured_truthy)

lemma parsedMessage_saved:
  assumes "reads_back rt es" "reads_back rt gs" "reads_back rt ar"
    and "m_extracted_symptoms m = stringify_field rt es"
    and "m_grounding_sources m = stringify_field rt gs"
    and "m_analysis_results m = stringify_field rt ar"
  shows "\<exists>j. parsedMessage rt m = Some j
           \<and> property j ''id'' = Some (JStr (m_id m))
           \<and> property j ''extracted_symptoms'' = es
           \<and> property j ''grounding_sources'' = gs
           \<and> property j ''analysis_results'' = ar"
  using assms
  by (simp add: parsedMessage_def parse_column_stringify_field property_obj)

lemma parsedMessage_id:
  "parsedMessage rt m = Some j \<Longrightarrow> property j ''id'' = Some (JStr (m_id m))"
  by (auto simp: parsedMessage_def property_obj split: option.splits)

lemma those_map_Some:
  "those (map f xs) = Some ys \<Longrightarrow> list_all2 (\<lambda>x y. f x = Some y) xs ys"
  by (induction xs arbitrary: ys) (auto split: option.splits)

lemma those_map_total:
  "(\<forall>x\<in>set xs. f x \<noteq> None) \<Longrightarrow> those (map f xs) = Some (map (\<lambda>x. the (f x)) xs)"
  by (induction xs) auto

lemma list_all2_right_member:
  "list_all2 R xs ys \<Longrightarrow> y \<in> set ys \<Longrightarrow> \<exists>x\<in>set xs. R x y"
  by (induction rule: list_all2_induct) auto

lemma parsedMessages_elements:
  assumes "parsedMessages rt ms = Some pm" "j \<in> set pm"
  shows "\<exists>m\<in>set ms. parsedMessage rt m = Some j"
proof -
  have "list_all2 (\<lambda>x y. parsedMessage rt x = Some y) ms pm"
    using assms(1) by (simp add: parsedMessages_def those_map_Some)
  then show ?thesis
    using assms(2) by (rule list_all2_right_member)
qed

lemma set_select_messages_of_session:
  "set (select_messages_of_session sid d) = {m \<in> set (messages d). m_session_id m = sid}"
  by (simp add: select_messages_of_session_def)

lemma saved_columns:
  assumes "given sessionId" "given role" "given content"
    and "m \<in> set (messages (snd (saveMessage rt e sessionId role content imageUrl es gs ar
                                     messageId d)))"
    and "m_id m = message_ident e messageId"
  shows "m_extracted_symptoms m = stringify_field rt es
         \<and> m_grounding_sources m = stringify_field rt gs
         \<and> m_analysis_results m = stringify_field rt ar"
proof (cases "insert_message (message_params rt e sessionId role content imageUrl es gs ar
                                 messageId) d")
  case (Inl err)
  then show ?thesis
    using assms
    by (auto simp: saveMessage_store update_message_def message_params_def)
next
  case (Inr d')
  then have "messages d' = messages d @ [message_params rt e sessionId role content imageUrl es
                                            gs ar messageId]"
    and "\<not> (\<exists>x\<in>set (messages d). m_id x = message_ident e messageId)"
    by (auto simp: insert_message_def list_ex_set message_params_def split: if_splits)
  then show ?thesis
    using assms Inr
    by (auto simp: saveMessage_store message_params_def)
qed

lemma getSession_200:
  assumes "status (getSession rt sid d) = 200"
  shows "\<exists>session pm. select_session sid d = Some session
           \<and> parsedMessages rt (select_messages_of_session sid d) = Some pm
           \<and> body (getSession rt sid d)
               = obj [(''session'', Some (obj (session_fields session))),
                      (''messages'', Some (JArr pm))]"
  using assms
  by (auto simp: getSession_def send_def split: option.splits)

lemma listSessions_200:
  assumes "status (listSessions rt uid d) = 200"
  shows "\<exists>sw. those (map (sessionWithMessages rt d) (select_sessions_of_user uid d)) = Some sw
           \<and> body (listSessions rt uid d) = obj [(''sessions'', Some (JArr sw))]"
  using assms
  by (auto simp: listSessions_def send_def split: option.splits if_splits)

lemma sessionWithMessages_messages:
  assumes "sessionWithMessages rt d session = Some so"
  shows "\<exists>pm. parsedMessages rt (select_messages_of_session (s_id session) d) = Some pm
           \<and> property so ''messages'' = Some (JArr pm)"
  using assms
  by (auto simp: sessionWithMessages_def session_fields_def property_obj split: option.splits)

lemma those_map_defined:
  "those (map f xs) \<noteq> None \<longleftrightarrow> (\<forall>x\<in>set xs. f x \<noteq> None)"
  by (induction xs) (auto split: option.splits)

lemma parsedMessages_defined:
  "parsedMessages rt ms \<noteq> None \<longleftrightarrow> (\<forall>m\<in>set ms. parsedMessage rt m \<noteq> None)"
  unfolding parsedMessages_def by (rule those_map_defined)

lemma parsedMessages_total:
  "\<forall>m\<in>set ms. parsedMessage rt m \<noteq> None \<Longrightarrow>
   parsedMessages rt ms = Some (map (\<lambda>m. the (parsedMessage rt m)) ms)"
  by (simp add: parsedMessages_def those_map_total)

lemma select_session_after_save:
  "select_session sid (update_session_updated_at now sid' d)
     = map_option (\<lambda>s. if s_id s = sid' then s\<lparr>s_updated_at := now\<rparr> else s)
         (select_session sid d)"
  by (simp add: select_session_def update_session_updated_at_def find_map_fields)

lemma saveMessage_sessions:
  assumes "given sessionId" "given role" "given content"
  shows "chat_sessions (snd (saveMessage rt e sessionId role content imageUrl es gs ar messageId d))
           = chat_sessions (update_session_updated_at (now_iso e) (val sessionId) d)"
  using assms
  by (auto simp: saveMessage_store update_session_updated_at_def insert_message_def
        update_message_def split: sum.splits if_splits)

lemma saveMessage_fresh_messages:
  assumes "given sessionId" "given role" "given content"
    and "\<not> list_ex (\<lambda>m. m_id m = message_ident e messageId) (messages d)"
    and "select_session (val sessionId) d \<noteq> None"
  shows "messages (snd (saveMessage rt e sessionId role content imageUrl es gs ar messageId d))
           = messages d @ [message_params rt e sessionId role content imageUrl es gs ar messageId]"
proof -
  have "list_ex (\<lambda>s. s_id s = val sessionId) (chat_sessions d)"
    using assms(5) by (auto simp: select_session_def find_None_iff list_ex_set)
  then show ?thesis
    using assms(1-4)
    by (simp add: saveMessage_store insert_message_def message_params_def)
qed

lemma set_select_sessions_of_user:
  "set (select_sessions_of_user uid d) = {s \<in> set (chat_sessions d). s_user_id s = uid}"
  by (simp add: select_sessions_of_user_def)

lemma sessionWithMessages_total:
  assumes "\<forall>m\<in>set (select_messages_of_session (s_id session) d). parsedMessage rt m \<noteq> None"
  shows "sessionWithMessages rt d session
           = Some (obj (session_fields session
                        @ [(''messages'',
                            Some (JArr (map (\<lambda>m. the (parsedMessage rt m))
                                          (select_messages_of_session (s_id session) d))))]))"
  using parsedMessages_total [OF assms] by (simp add: sessionWithMessages_def)

lemma sessionWithMessages_properties:
  "property (obj (session_fields session @ [(''messages'', Some (JArr pm))])) ''id''
     = Some (JStr (s_id session))"
  "property (obj (session_fields session @ [(''messages'', Some (JArr pm))])) ''messages''
     = Some (JArr pm)"
  by (simp_all add: session_fields_def property_obj)

text \<open>
  Claim C6. Let a message be saved by a request with the required fields, each of the
  three structured fields being either absent or an array or object that the platform's
  JSON functions print and read back. Then in every successful \<open>getSession\<close> response and
  in every session of every successful \<open>listSessions\<close> response on the resulting store,
  each message carrying the saved identifier has the three fields as they were sent: the
  structured value itself where one was sent, and no property where the field was absent.
  And the saved message is retrieved: when the message is new and its session exists,
  \<^item> \<open>getSession\<close> of that session, if the session's earlier messages parse, answers 200
    and lists a message with that identifier and the three fields as sent;
  \<^item> \<open>listSessions\<close> of the session's owner, if the earlier messages of the owner's
    sessions parse, answers 200 and lists that session with, among its messages, one
    with that identifier and the three fields as sent.
\<close>

theorem C6_structured_fields_round_trip:
  fixes rt :: runtime and e :: env
    and sessionId role content imageUrl messageId :: "string option"
    and es gs ar :: "json option" and d d' :: database and ident :: string
  defines "d' \<equiv> snd (saveMessage rt e sessionId role content imageUrl es gs ar messageId d)"
    and "ident \<equiv> message_ident e messageId"
  assumes req: "given sessionId" "given role" "given content"
    and rb: "reads_back rt es" "reads_back rt gs" "reads_back rt ar"
  shows
    "(\<forall>sid. status (getSession rt sid d') = 200 \<longrightarrow>
        (\<exists>pm. property (body (getSession rt sid d')) ''messages'' = Some (JArr pm)
           \<and> (\<forall>j\<in>set pm. property j ''id'' = Some (JStr ident) \<longrightarrow>
                 property j ''extracted_symptoms'' = es
                 \<and> property j ''grounding_sources'' = gs
                 \<and> property j ''analysis_results'' = ar)))
     \<and> (\<forall>uid. status (listSessions rt uid d') = 200 \<longrightarrow>
        (\<exists>sw. property (body (listSessions rt uid d')) ''sessions'' = Some (JArr sw)
           \<and> (\<forall>so\<in>set sw. \<exists>pm. property so ''messages'' = Some (JArr pm)
                 \<and> (\<forall>j\<in>set pm. property j ''id'' = Some (JStr ident) \<longrightarrow>
                       property j ''extracted_symptoms'' = es
                       \<and> property j ''grounding_sources'' = gs
                       \<and> property j ''analysis_results'' = ar))))
     \<and> (select_session (val sessionId) d \<noteq> None
        \<and> \<not> list_ex (\<lambda>m. m_id m = ident) (messages d)
        \<and> parsedMessages rt (select_messages_of_session (val sessionId) d) \<noteq> None \<longrightarrow>
        status (getSession rt (val sessionId) d') = 200
        \<and> (\<exists>pm. property (body (getSession rt (val sessionId) d')) ''messages'' = Some (JArr pm)
              \<and> (\<exists>j\<in>set pm. property j ''id'' = Some (JStr ident)
                    \<and> property j ''extracted_symptoms'' = es
                    \<and> property j ''grounding_sources'' = gs
                    \<and> property j ''analysis_results'' = ar)))
     \<and> (\<forall>s. select_session (val sessionId) d = Some s \<and> s_user_id s \<noteq> []
        \<and> \<not> list_ex (\<lambda>m. m_id m = ident) (messages d)
        \<and> (\<forall>x\<in>set (chat_sessions d). s_user_id x = s_user_id s \<longrightarrow>
              parsedMessages rt (select_messages_of_session (s_id x) d) \<noteq> None) \<longrightarrow>
        status (listSessions rt (s_user_id s) d') = 200
        \<and> (\<exists>sw. property (body (listSessions rt (s_user_id s) d')) ''sessions''
                   = Some (JArr sw)
              \<and> (\<exists>so\<in>set sw. property so ''id'' = Some (JStr (val sessionId))
                    \<and> (\<exists>pm. property so ''messages'' = Some (JArr pm)
                          \<and> (\<exists>j\<in>set pm. property j ''id'' = Some (JStr ident)
                                \<and> property j ''extracted_symptoms'' = es
                                \<and> property j ''grounding_sources'' = gs
                                \<and> property j ''analysis_results'' = ar)))))"
proof (intro conjI allI impI)
  let ?row = "message_params rt e sessionId role content imageUrl es gs ar messageId"
  have saved: "property j ''extracted_symptoms'' = es
                 \<and> property j ''grounding_sources'' = gs
                 \<and> property j ''analysis_results'' = ar"
    if j: "parsedMessage rt m = Some j" "property j ''id'' = Some (JStr ident)"
      and m: "m \<in> set (messages d')" for m j
  proof -
    have "m_id m = ident" using j parsedMessage_id [of rt m j] by simp
    then have cols: "m_extracted_symptoms m = stringify_field rt es
         \<and> m_grounding_sources m = stringify_field rt gs
         \<and> m_analysis_results m = stringify_field rt ar"
      using saved_columns [OF req, of m rt e imageUrl es gs ar messageId d] m
      by (simp add: d'_def ident_def)
    from parsedMessage_saved [OF rb, of m] cols j(1) show ?thesis by auto
  qed
  have within: "\<forall>j\<in>set pm. property j ''id'' = Some (JStr ident) \<longrightarrow>
                 property j ''extracted_symptoms'' = es
                 \<and> property j ''grounding_sources'' = gs
                 \<and> property j ''analysis_results'' = ar"
    if "parsedMessages rt (select_messages_of_session sid d') = Some pm" for sid pm
  proof (intro ballI impI)
    fix j assume "j \<in> set pm" and jid: "property j ''id'' = Some (JStr ident)"
    with that obtain m where "m \<in> set (select_messages_of_session sid d')"
      and "parsedMessage rt m = Some j"
      using parsedMessages_elements by blast
    then show "property j ''extracted_symptoms'' = es
                 \<and> property j ''grounding_sources'' = gs
                 \<and> property j ''analysis_results'' = ar"
      using saved [of m j] jid by (simp add: set_select_messages_of_session)
  qed
  have row: "\<exists>j. parsedMessage rt ?row = Some j \<and> property j ''id'' = Some (JStr ident)
               \<and> property j ''extracted_symptoms'' = es
               \<and> property j ''grounding_sources'' = gs
               \<and> property j ''analysis_results'' = ar"
    using parsedMessage_saved [OF rb, of ?row]
    by (auto simp: message_params_def ident_def)
  have msgs: "messages d' = messages d @ [?row]"
    if "select_session (val sessionId) d \<noteq> None"
      and "\<not> list_ex (\<lambda>m. m_id m = ident) (messages d)"
    using that saveMessage_fresh_messages [OF req, of e messageId d rt imageUrl es gs ar]
    by (simp add: d'_def ident_def)
  have sessions: "chat_sessions d'
                    = map (\<lambda>s. if s_id s = val sessionId then s\<lparr>s_updated_at := now_iso e\<rparr> else s)
                        (chat_sessions d)"
    using saveMessage_sessions [OF req, of rt e imageUrl es gs ar messageId d]
    by (simp add: d'_def update_session_updated_at_def)
  have parse: "\<forall>m\<in>set (select_messages_of_session sid d'). parsedMessage rt m \<noteq> None"
    if "messages d' = messages d @ [?row]"
      and "parsedMessages rt (select_messages_of_session sid d) \<noteq> None" for sid
  proof -
    have "\<forall>m\<in>set (select_messages_of_session sid d). parsedMessage rt m \<noteq> None"
      using that(2) parsedMessages_defined [of rt "select_messages_of_session sid d"]
      by blast
    then show ?thesis
      using row by (auto simp: set_select_messages_of_session that(1))
  qed
  have listed: "\<exists>j\<in>set (map (\<lambda>m. the (parsedMessage rt m))
                          (select_messages_of_session (val sessionId) d')).
                  property j ''id'' = Some (JStr ident)
                  \<and> property j ''extracted_symptoms'' = es
                  \<and> property j ''grounding_sources'' = gs
                  \<and> property j ''analysis_results'' = ar"
    if "messages d' = messages d @ [?row]"
  proof -
    have in_sel: "?row \<in> set (select_messages_of_session (val sessionId) d')"
      by (simp add: set_select_messages_of_session that message_params_def)
    obtain j where j: "parsedMessage rt ?row = Some j" "property j ''id'' = Some (JStr ident)"
      "property j ''extracted_symptoms'' = es" "property j ''grounding_sources'' = gs"
      "property j ''analysis_results'' = ar"
      using row by blast
    have "j \<in> set (map (\<lambda>m. the (parsedMessage rt m))
                      (select_messages_of_session (val sessionId) d'))"
      using in_sel j(1) by force
    then show ?thesis
      using j(2-5) by blast
  qed
  {
    fix sid
    assume "status (getSession rt sid d') = 200"
    from getSession_200 [OF this] obtain session pm where
      pm: "parsedMessages rt (select_messages_of_session sid d') = Some pm"
      and b: "body (getSession rt sid d')
               = obj [(''session'', Some (obj (session_fields session))),
                      (''messages'', Some (JArr pm))]"
      by blast
    have "property (body (getSession rt sid d')) ''messages'' = Some (JArr pm)"
      by (simp add: b property_obj)
    then show "\<exists>pm. property (body (getSession rt sid d')) ''messages'' = Some (JArr pm)
           \<and> (\<forall>j\<in>set pm. property j ''id'' = Some (JStr ident) \<longrightarrow>
                 property j ''extracted_symptoms'' = es
                 \<and> property j ''grounding_sources'' = gs
                 \<and> property j ''analysis_results'' = ar)"
      using within [OF pm] by blast
  }
  {
    fix uid
    assume "status (listSessions rt uid d') = 200"
    from listSessions_200 [OF this] obtain sw where
      sw: "those (map (sessionWithMessages rt d') (select_sessions_of_user uid d')) = Some sw"
      and b: "body (listSessions rt uid d') = obj [(''sessions'', Some (JArr sw))]"
      by blast
    have each: "\<exists>pm. property so ''messages'' = Some (JArr pm)
                 \<and> (\<forall>j\<in>set pm. property j ''id'' = Some (JStr ident) \<longrightarrow>
                       property j ''extracted_symptoms'' = es
                       \<and> property j ''grounding_sources'' = gs
                       \<and> property j ''analysis_results'' = ar)"
      if "so \<in> set sw" for so
    proof -
      have "list_all2 (\<lambda>x y. sessionWithMessages rt d' x = Some y)
              (select_sessions_of_user uid d') sw"
        using sw by (rule those_map_Some)
      from list_all2_right_member [OF this that]
      obtain session where "sessionWithMessages rt d' session = Some so"
        by blast
      from sessionWithMessages_messages [OF this] obtain pm where
        "parsedMessages rt (select_messages_of_session (s_id session) d') = Some pm"
        "property so ''messages'' = Some (JArr pm)"
        by blast
      then show ?thesis using within by blast
    qed
    have "property (body (listSessions rt uid d')) ''sessions'' = Some (JArr sw)"
      by (simp add: b property_obj)
    then show "\<exists>sw. property (body (listSessions rt uid d')) ''sessions'' = Some (JArr sw)
           \<and> (\<forall>so\<in>set sw. \<exists>pm. property so ''messages'' = Some (JArr pm)
                 \<and> (\<forall>j\<in>set pm. property j ''id'' = Some (JStr ident) \<longrightarrow>
                       property j ''extracted_symptoms'' = es
                       \<and> property j ''grounding_sources'' = gs
                       \<and> property j ''analysis_results'' = ar))"
      using each by blast
  }
  {
    assume h: "select_session (val sessionId) d \<noteq> None
        \<and> \<not> list_ex (\<lambda>m. m_id m = ident) (messages d)
        \<and> parsedMessages rt (select_messages_of_session (val sessionId) d) \<noteq> None"
    have m: "messages d' = messages d @ [?row]"
      using h by (intro msgs) simp_all
    have sess: "select_session (val sessionId) d' \<noteq> None"
    proof -
      have "select_session (val sessionId) d'
              = select_session (val sessionId)
                  (update_session_updated_at (now_iso e) (val sessionId) d)"
        using saveMessage_sessions [OF req, of rt e imageUrl es gs ar messageId d]
        by (simp add: select_session_def d'_def)
      then show ?thesis using h by (simp add: select_session_after_save)
    qed
    have pm: "parsedMessages rt (select_messages_of_session (val sessionId) d')
                = Some (map (\<lambda>m. the (parsedMessage rt m))
                          (select_messages_of_session (val sessionId) d'))"
      using h by (intro parsedMessages_total parse m) simp
    obtain session where s: "select_session (val sessionId) d' = Some session"
      using sess by auto
    have g: "getSession rt (val sessionId) d'
               = send 200 (obj [(''session'', Some (obj (session_fields session))),
                     (''messages'', Some (JArr (map (\<lambda>m. the (parsedMessage rt m))
                          (select_messages_of_session (val sessionId) d'))))])"
      by (simp add: getSession_def s pm)
    show "status (getSession rt (val sessionId) d') = 200"
      by (simp add: g send_def)
    have "property (body (getSession rt (val sessionId) d')) ''messages''
            = Some (JArr (map (\<lambda>m. the (parsedMessage rt m))
                            (select_messages_of_session (val sessionId) d')))"
      by (simp add: g send_def property_obj)
    with listed [OF m]
    show "\<exists>pm. property (body (getSession rt (val sessionId) d')) ''messages''
                      = Some (JArr pm)
              \<and> (\<exists>j\<in>set pm. property j ''id'' = Some (JStr ident)
                    \<and> property j ''extracted_symptoms'' = es
                    \<and> property j ''grounding_sources'' = gs
                    \<and> property j ''analysis_results'' = ar)"
      by blast
  }
  {
    fix s
    assume h: "select_session (val sessionId) d = Some s \<and> s_user_id s \<noteq> []
        \<and> \<not> list_ex (\<lambda>m. m_id m = ident) (messages d)
        \<and> (\<forall>x\<in>set (chat_sessions d). s_user_id x = s_user_id s \<longrightarrow>
              parsedMessages rt (select_messages_of_session (s_id x) d) \<noteq> None)"
    let ?uid = "s_user_id s"
    let ?upd = "\<lambda>x. if s_id x = val sessionId then x\<lparr>s_updated_at := now_iso e\<rparr> else x"
    let ?with = "\<lambda>x. the (sessionWithMessages rt d' x)"
    have m: "messages d' = messages d @ [?row]"
      using h by (intro msgs) simp_all
    have s: "s \<in> set (chat_sessions d)" "s_id s = val sessionId"
      using h find_Some_set [of "\<lambda>x. s_id x = val sessionId" "chat_sessions d" s]
      by (simp_all add: select_session_def)
    have each: "\<forall>m\<in>set (select_messages_of_session (s_id x) d'). parsedMessage rt m \<noteq> None"
      if "x \<in> set (select_sessions_of_user ?uid d')" for x
    proof -
      from that obtain x0 where x0: "x0 \<in> set (chat_sessions d)" "x = ?upd x0"
        by (auto simp: set_select_sessions_of_user sessions)
      then have "s_id x = s_id x0" "s_user_id x0 = ?uid"
        using that by (auto simp: set_select_sessions_of_user split: if_splits)
      then have "parsedMessages rt (select_messages_of_session (s_id x) d) \<noteq> None"
        using h x0(1) by simp
      with m show ?thesis by (rule parse)
    qed
    then have "\<forall>x\<in>set (select_sessions_of_user ?uid d'). sessionWithMessages rt d' x \<noteq> None"
      by (simp add: sessionWithMessages_total)
    then have sw: "those (map (sessionWithMessages rt d') (select_sessions_of_user ?uid d'))
                     = Some (map ?with (select_sessions_of_user ?uid d'))"
      by (rule those_map_total)
    have l: "listSessions rt ?uid d'
               = send 200 (obj [(''sessions'',
                                 Some (JArr (map ?with (select_sessions_of_user ?uid d'))))])"
      using h by (simp add: listSessions_def sw)
    show "status (listSessions rt ?uid d') = 200"
      by (simp add: l send_def)
    have b: "property (body (listSessions rt ?uid d')) ''sessions''
               = Some (JArr (map ?with (select_sessions_of_user ?uid d')))"
      by (simp add: l send_def property_obj)
    have mine: "?upd s \<in> set (select_sessions_of_user ?uid d')"
      using s(1) by (auto simp: set_select_sessions_of_user sessions)
    have ident: "s_id (?upd s) = val sessionId"
      using s(2) by simp
    have so: "?with (?upd s)
                = obj (session_fields (?upd s)
                       @ [(''messages'',
                           Some (JArr (map (\<lambda>m. the (parsedMessage rt m))
                                         (select_messages_of_session (val sessionId) d'))))])"
      using sessionWithMessages_total [OF each [OF mine]] ident by simp
    have "property (?with (?upd s)) ''id'' = Some (JStr (val sessionId))"
      "property (?with (?upd s)) ''messages''
         = Some (JArr (map (\<lambda>m. the (parsedMessage rt m))
                         (select_messages_of_session (val sessionId) d')))"
      unfolding so using ident by (simp_all only: sessionWithMessages_properties)
    moreover have "?with (?upd s) \<in> set (map ?with (select_sessions_of_user ?uid d'))"
      unfolding set_map using mine by (rule imageI)
    ultimately show "\<exists>sw. property (body (listSessions rt ?uid d')) ''sessions''
                   = Some (JArr sw)
              \<and> (\<exists>so\<in>set sw. property so ''id'' = Some (JStr (val sessionId))
                    \<and> (\<exists>pm. property so ''messages'' = Some (JArr pm)
                          \<and> (\<exists>j\<in>set pm. property j ''id'' = Some (JStr ident)
                                \<and> property j ''extracted_symptoms'' = es
                                \<and> property j ''grounding_sources'' = gs
                                \<and> property j ''analysis_results'' = ar)))"
      using b listed [OF m] by blast
  }
qed

theorem C6_structured_fields_round_trip_witness:
  "status (getSession sample_runtime ''s-1'' chat_db) = 200
   \<and> status (listSessions sample_runtime ''u-alice'' chat_db) = 200
   \<and> (\<exists>pm. property (body (getSession sample_runtime ''s-1'' chat_db)) ''messages''
              = Some (JArr pm)
         \<and> (\<exists>j\<in>set pm. property j ''id'' = Some (JStr ''m-1'')
               \<and> property j ''extracted_symptoms'' = Some (JArr [JStr ''fever'', JStr ''cough''])
               \<and> property j ''grounding_sources'' = None
               \<and> property j ''analysis_results'' = None))
   \<and> (\<exists>sw. property (body (listSessions sample_runtime ''u-alice'' chat_db)) ''sessions''
              = Some (JArr sw)
         \<and> (\<exists>so\<in>set sw. property so ''id'' = Some (JStr ''s-1'')
               \<and> (\<exists>pm. property so ''messages'' = Some (JArr pm)
                     \<and> (\<exists>j\<in>set pm. property j ''id'' = Some (JStr ''m-1'')
                           \<and> property j ''extracted_symptoms''
                               = Some (JArr [JStr ''fever'', JStr ''cough''])
                           \<and> property j ''grounding_sources'' = None
                           \<and> property j ''analysis_results'' = None))))
   \<and> (\<exists>pm. property (body (getSession sample_runtime ''s-1'' chat_db)) ''messages''
              = Some (JArr pm)
         \<and> (\<forall>j\<in>set pm. property j ''id'' = Some (JStr ''m-1'') \<longrightarrow>
               property j ''extracted_symptoms'' = Some (JArr [JStr ''fever'', JStr ''cough''])
               \<and> property j ''grounding_sources'' = None
               \<and> property j ''analysis_results'' = None))
   \<and> (\<exists>sw. property (body (listSessions sample_runtime ''u-alice'' chat_db)) ''sessions''
              = Some (JArr sw)
         \<and> (\<forall>so\<in>set sw. \<exists>pm. property so ''messages'' = Some (JArr pm)
               \<and> (\<forall>j\<in>set pm. property j ''id'' = Some (JStr ''m-1'') \<longrightarrow>
                     property j ''extracted_symptoms''
                       = Some (JArr [JStr ''fever'', JStr ''cough''])
                     \<and> property j ''grounding_sources'' = None
                     \<and> property j ''analysis_results'' = None)))
   \<and> property (body (getSession sample_runtime ''s-1'' chat_db)) ''messages''
       = Some (JArr [JObj [(''id'', JStr ''m-1''), (''session_id'', JStr ''s-1''),
                           (''role'', JStr ''user''), (''content'', JStr ''I have a fever''),
                           (''image_url'', JNull),
                           (''extracted_symptoms'', JArr [JStr ''fever'', JStr ''cough'']),
                           (''timestamp'', JStr ''2026-01-01T00:00:03.000Z'')]])
   \<and> body (listSessions sample_runtime ''u-alice'' chat_db)
       = JObj [(''sessions'',
          JArr [JObj [(''id'', JStr ''s-1''), (''user_id'', JStr ''u-alice''),
                      (''title'', JStr ''New Consultation''),
                      (''created_at'', JStr ''2026-01-01T00:00:01.000Z''),
                      (''updated_at'', JStr ''2026-01-01T00:00:03.000Z''),
                      (''messages'',
                       JArr [JObj [(''id'', JStr ''m-1''), (''session_id'', JStr ''s-1''),
                                   (''role'', JStr ''user''),
                                   (''content'', JStr ''I have a fever''),
                                   (''image_url'', JNull),
                                   (''extracted_symptoms'',
                                    JArr [JStr ''fever'', JStr ''cough'']),
                                   (''timestamp'', JStr ''2026-01-01T00:00:03.000Z'')]])],
                JObj [(''id'', JStr ''s-2''), (''user_id'', JStr ''u-alice''),
                      (''title'', JStr ''Follow-up''),
                      (''created_at'', JStr ''2026-01-01T00:00:02.000Z''),
                      (''updated_at'', JStr ''2026-01-01T00:00:02.000Z''),
                      (''messages'', JArr [])]])]"
proof -
  let ?e = "sample_env 3000 ''2026-01-01T00:00:03.000Z'' ''unused'' ''unused''"
  let ?es = "Some (JArr [JStr ''fever'', JStr ''cough''])"
  have g: "given (Some ''s-1'')" "given (Some ''user'')" "given (Some ''I have a fever'')"
    by (simp_all add: given_def)
  have rb: "reads_back sample_runtime ?es" "reads_back sample_runtime None"
    by code_simp+
  have d': "snd (saveMessage sample_runtime ?e (Some ''s-1'') (Some ''user'')
                   (Some ''I have a fever'') None ?es None None (Some ''m-1'') sessions_db)
              = chat_db"
    by (simp add: chat_db_def)
  have ident: "message_ident ?e (Some ''m-1'') = ''m-1''"
    by (simp add: message_ident_def given_def)
  have session: "select_session ''s-1'' sessions_db
      = Some \<lparr>s_id = ''s-1'', s_user_id = ''u-alice'', s_title = ''New Consultation'',
              s_created_at = ''2026-01-01T00:00:01.000Z'',
              s_updated_at = ''2026-01-01T00:00:01.000Z''\<rparr>"
    by code_simp
  have pre: "select_session (val (Some ''s-1'')) sessions_db \<noteq> None"
    "\<not> list_ex (\<lambda>m. m_id m = ''m-1'') (messages sessions_db)"
    "parsedMessages sample_runtime (select_messages_of_session (val (Some ''s-1'')) sessions_db)
       \<noteq> None"
    by code_simp+
  have none: "messages sessions_db = []"
    by code_simp
  have owner: "\<forall>x\<in>set (chat_sessions sessions_db). s_user_id x = ''u-alice'' \<longrightarrow>
                 parsedMessages sample_runtime (select_messages_of_session (s_id x) sessions_db)
                   \<noteq> None"
    by (simp add: select_messages_of_session_def none parsedMessages_def)
  have shown: "property (body (getSession sample_runtime ''s-1'' chat_db)) ''messages''
       = Some (JArr [JObj [(''id'', JStr ''m-1''), (''session_id'', JStr ''s-1''),
                           (''role'', JStr ''user''), (''content'', JStr ''I have a fever''),
                           (''image_url'', JNull),
                           (''extracted_symptoms'', JArr [JStr ''fever'', JStr ''cough'']),
                           (''timestamp'', JStr ''2026-01-01T00:00:03.000Z'')]])"
    by code_simp
  have listed: "body (listSessions sample_runtime ''u-alice'' chat_db)
       = JObj [(''sessions'',
          JArr [JObj [(''id'', JStr ''s-1''), (''user_id'', JStr ''u-alice''),
                      (''title'', JStr ''New Consultation''),
                      (''created_at'', JStr ''2026-01-01T00:00:01.000Z''),
                      (''updated_at'', JStr ''2026-01-01T00:00:03.000Z''),
                      (''messages'',
                       JArr [JObj [(''id'', JStr ''m-1''), (''session_id'', JStr ''s-1''),
                                   (''role'', JStr ''user''),
                                   (''content'', JStr ''I have a fever''),
                                   (''image_url'', JNull),
                                   (''extracted_symptoms'',
                                    JArr [JStr ''fever'', JStr ''cough'']),
                                   (''timestamp'', JStr ''2026-01-01T00:00:03.000Z'')]])],
                JObj [(''id'', JStr ''s-2''), (''user_id'', JStr ''u-alice''),
                      (''title'', JStr ''Follow-up''),
                      (''created_at'', JStr ''2026-01-01T00:00:02.000Z''),
                      (''updated_at'', JStr ''2026-01-01T00:00:02.000Z''),
                      (''messages'', JArr [])]])]"
    by code_simp
  note inst = C6_structured_fields_round_trip
      [OF g rb(1) rb(2) rb(2), of ?e None "Some ''m-1''" sessions_db, unfolded d' ident]
  note get = inst [THEN conjunct2, THEN conjunct2, THEN conjunct1, THEN mp]
  note list = inst [THEN conjunct2, THEN conjunct2, THEN conjunct2, THEN spec, THEN mp]
  have c: "status (getSession sample_runtime ''s-1'' chat_db) = 200
      \<and> (\<exists>pm. property (body (getSession sample_runtime ''s-1'' chat_db)) ''messages''
              = Some (JArr pm)
         \<and> (\<exists>j\<in>set pm. property j ''id'' = Some (JStr ''m-1'')
               \<and> property j ''extracted_symptoms'' = Some (JArr [JStr ''fever'', JStr ''cough''])
               \<and> property j ''grounding_sources'' = None
               \<and> property j ''analysis_results'' = None))"
    using get pre by simp
  have "status (listSessions sample_runtime
                  (s_user_id \<lparr>s_id = ''s-1'', s_user_id = ''u-alice'',
                              s_title = ''New Consultation'',
                              s_created_at = ''2026-01-01T00:00:01.000Z'',
                              s_updated_at = ''2026-01-01T00:00:01.000Z''\<rparr>) chat_db) = 200
      \<and> (\<exists>sw. property (body (listSessions sample_runtime
                  (s_user_id \<lparr>s_id = ''s-1'', s_user_id = ''u-alice'',
                              s_title = ''New Consultation'',
                              s_created_at = ''2026-01-01T00:00:01.000Z'',
                              s_updated_at = ''2026-01-01T00:00:01.000Z''\<rparr>) chat_db))
                ''sessions'' = Some (JArr sw)
         \<and> (\<exists>so\<in>set sw. property so ''id'' = Some (JStr (val (Some ''s-1'')))
               \<and> (\<exists>pm. property so ''messages'' = Some (JArr pm)
                     \<and> (\<exists>j\<in>set pm. property j ''id'' = Some (JStr ''m-1'')
                           \<and> property j ''extracted_symptoms''
                               = Some (JArr [JStr ''fever'', JStr ''cough''])
                           \<and> property j ''grounding_sources'' = None
                           \<and> property j ''analysis_results'' = None))))"
    by (rule list) (use session pre(2) owner in simp)
  then have d: "status (listSessions sample_runtime ''u-alice'' chat_db) = 200
      \<and> (\<exists>sw. property (body (listSessions sample_runtime ''u-alice'' chat_db)) ''sessions''
              = Some (JArr sw)
         \<and> (\<exists>so\<in>set sw. property so ''id'' = Some (JStr ''s-1'')
               \<and> (\<exists>pm. property so ''messages'' = Some (JArr pm)
                     \<and> (\<exists>j\<in>set pm. property j ''id'' = Some (JStr ''m-1'')
                           \<and> property j ''extracted_symptoms''
                               = Some (JArr [JStr ''fever'', JStr ''cough''])
                           \<and> property j ''grounding_sources'' = None
                           \<and> property j ''analysis_results'' = None))))"
    by simp
  have a: "\<exists>pm. property (body (getSession sample_runtime ''s-1'' chat_db)) ''messages''
              = Some (JArr pm)
         \<and> (\<forall>j\<in>set pm. property j ''id'' = Some (JStr ''m-1'') \<longrightarrow>
               property j ''extracted_symptoms'' = Some (JArr [JStr ''fever'', JStr ''cough''])
               \<and> property j ''grounding_sources'' = None
               \<and> property j ''analysis_results'' = None)"
    using inst [THEN conjunct1, THEN spec, THEN mp] c by blast
  have b: "\<exists>sw. property (body (listSessions sample_runtime ''u-alice'' chat_db)) ''sessions''
              = Some (JArr sw)
         \<and> (\<forall>so\<in>set sw. \<exists>pm. property so ''messages'' = Some (JArr pm)
               \<and> (\<forall>j\<in>set pm. property j ''id'' = Some (JStr ''m-1'') \<longrightarrow>
                     property j ''extracted_symptoms''
                       = Some (JArr [JStr ''fever'', JStr ''cough''])
                     \<and> property j ''grounding_sources'' = None
                     \<and> property j ''analysis_results'' = None))"
    using inst [THEN conjunct2, THEN conjunct1, THEN spec, THEN mp] d by blast
  from c d a b shown listed show ?thesis
    by (intro conjI) (erule conjunct1 conjunct2 | assumption)+
qed

end
